theory Spec2Isabelle
  imports Complex_Main
begin

section \<open>Numeric and geometric base types\<close>

text \<open>
  The engine computes with \<open>float\<close> and \<open>double\<close>.  Both are idealised here as
  \<^typ>\<open>real\<close>: rounding, infinities and NaN are outside the model, and every decimal
  constant of the source stands for the rational it denotes.  Counters of type
  \<open>int\<close> are unbounded integers (they only ever count frames and ids).
\<close>

datatype Point2f = Point2f (p2x: real) (p2y: real)

datatype Point3f = Point3f (px: real) (py: real) (pz: real)

fun p3_add :: "Point3f \<Rightarrow> Point3f \<Rightarrow> Point3f" where
  "p3_add (Point3f a b c) (Point3f d e f) = Point3f (a + d) (b + e) (c + f)"

fun p3_sub :: "Point3f \<Rightarrow> Point3f \<Rightarrow> Point3f" where
  "p3_sub (Point3f a b c) (Point3f d e f) = Point3f (a - d) (b - e) (c - f)"

fun p3_scale :: "Point3f \<Rightarrow> real \<Rightarrow> Point3f" where
  "p3_scale (Point3f a b c) s = Point3f (a * s) (b * s) (c * s)"

fun p3_div :: "Point3f \<Rightarrow> real \<Rightarrow> Point3f" where
  "p3_div (Point3f a b c) s = Point3f (a / s) (b / s) (c / s)"

fun p3_neg :: "Point3f \<Rightarrow> Point3f" where
  "p3_neg (Point3f a b c) = Point3f (- a) (- b) (- c)"

fun dot3 :: "Point3f \<Rightarrow> Point3f \<Rightarrow> real" where
  "dot3 (Point3f a b c) (Point3f d e f) = a * d + b * e + c * f"

fun cross3 :: "Point3f \<Rightarrow> Point3f \<Rightarrow> Point3f" where
  "cross3 (Point3f a b c) (Point3f d e f) =
     Point3f (b * f - c * e) (c * d - a * f) (a * e - b * d)"

fun norm3 :: "Point3f \<Rightarrow> real" where
  "norm3 (Point3f a b c) = sqrt (a * a + b * b + c * c)"

section \<open>Plane detector (plane_detector.cpp)\<close>

record DetectedPlane =
  plane_id :: int
  center :: Point3f
  normal :: Point3f
  width :: real
  height :: real
  corners :: "Point3f list"
  isHorizontal :: bool
  confidence :: real

record PlaneDetector =
  planes :: "DetectedPlane list"
  nextPlaneId :: int

definition RANSAC_THRESHOLD :: real where
  "RANSAC_THRESHOLD = 0.02"

definition RANSAC_ITERATIONS :: nat where
  "RANSAC_ITERATIONS = 100"

definition MIN_PLANE_POINTS :: nat where
  "MIN_PLANE_POINTS = 50"

definition HORIZONTAL_THRESHOLD :: real where
  "HORIZONTAL_THRESHOLD = 0.9"

definition MERGE_DISTANCE :: real where
  "MERGE_DISTANCE = 0.1"

definition FLT_MAX :: real where
  "FLT_MAX = 340282346638528859811704183484516925440"

definition PlaneDetector_new :: PlaneDetector where
  "PlaneDetector_new = \<lparr>planes = [], nextPlaneId = 0\<rparr>"

text \<open>
  One pass of the RANSAC loop body.  The three indices are the values of the three
  \<open>dis(gen)\<close> calls; the accumulator is
  \<open>(bestInlierCount, bestNormal, bestD, inliers)\<close>.
\<close>

definition ransac_iteration ::
  "Point3f list \<Rightarrow> nat \<times> nat \<times> nat \<Rightarrow> nat \<times> Point3f \<times> real \<times> nat list
     \<Rightarrow> nat \<times> Point3f \<times> real \<times> nat list" where
  "ransac_iteration points draw acc =
     (case draw of (i1, i2, i3) \<Rightarrow>
      case acc of (bestInlierCount, bestNormal, bestD, inliers) \<Rightarrow>
        if i1 = i2 \<or> i2 = i3 \<or> i1 = i3 then acc
        else
          let p1 = points ! i1; p2 = points ! i2; p3 = points ! i3;
              v1 = p3_sub p2 p1; v2 = p3_sub p3 p1;
              nrm = cross3 v1 v2;
              len = norm3 nrm
          in if len < 0.000001 then acc
             else
               let n = p3_div nrm len;
                   d = - dot3 n p1;
                   currentInliers =
                     filter (\<lambda>i. \<bar>dot3 n (points ! i) + d\<bar> < RANSAC_THRESHOLD)
                       [0..<length points]
               in if bestInlierCount < length currentInliers
                  then (length currentInliers, n, d, currentInliers)
                  else acc)"

text \<open>
  \<open>uniform_int_distribution(0, size - 1)\<close>: the raw output of the generator is brought
  into the index range of the point vector.
\<close>

definition dis :: "nat \<Rightarrow> nat \<times> nat \<times> nat \<Rightarrow> nat \<times> nat \<times> nat" where
  "dis n raw = (case raw of (a, b, c) \<Rightarrow> (a mod n, b mod n, c mod n))"

text \<open>
  \<open>fitPlaneRANSAC\<close>; \<open>gen\<close> is the random source of this call, as a function from the
  iteration number to the three raw draws of that iteration.  \<open>None\<close> is the
  \<open>return false\<close> of the source, \<open>Some (planeNormal, planeD, inliers)\<close> its
  \<open>return true\<close> with the three output parameters.
\<close>

definition fitPlaneRANSAC ::
  "(nat \<Rightarrow> nat \<times> nat \<times> nat) \<Rightarrow> Point3f list \<Rightarrow> (Point3f \<times> real \<times> nat list) option" where
  "fitPlaneRANSAC gen points =
     (if length points < 3 then None
      else
        case fold (\<lambda>iter. ransac_iteration points (dis (length points) (gen iter)))
               [0..<RANSAC_ITERATIONS] (0, Point3f 0 0 0, 0, [])
        of (bestInlierCount, bestNormal, bestD, inliers) \<Rightarrow>
          if bestInlierCount < MIN_PLANE_POINTS then None
          else if py bestNormal < 0
               then Some (p3_neg bestNormal, - bestD, inliers)
               else Some (bestNormal, bestD, inliers))"

definition isPlaneHorizontal :: "Point3f \<Rightarrow> bool" where
  "isPlaneHorizontal n = (HORIZONTAL_THRESHOLD < \<bar>dot3 n (Point3f 0 1 0)\<bar>)"

definition computePlaneBounds :: "Point3f list \<Rightarrow> Point3f \<Rightarrow> DetectedPlane \<Rightarrow> DetectedPlane" where
  "computePlaneBounds inlierPoints n plane =
     (if inlierPoints = [] then plane
      else
        let c = p3_div (fold (\<lambda>p acc. p3_add acc p) inlierPoints (Point3f 0 0 0))
                  (real (length inlierPoints));
            up = Point3f 0 1 0;
            right0 = cross3 up n;
            right1 = (if norm3 right0 < 0.1 then Point3f 1 0 0 else right0);
            right = p3_div right1 (norm3 right1);
            forward0 = cross3 n right;
            forward = p3_div forward0 (norm3 forward0);
            xs = map (\<lambda>p. dot3 (p3_sub p c) right) inlierPoints;
            zs = map (\<lambda>p. dot3 (p3_sub p c) forward) inlierPoints;
            minX = fold min xs FLT_MAX; maxX = fold max xs (- FLT_MAX);
            minZ = fold min zs FLT_MAX; maxZ = fold max zs (- FLT_MAX)
        in plane\<lparr>center := c, width := maxX - minX, height := maxZ - minZ,
                 corners :=
                   [p3_add (p3_add c (p3_scale right minX)) (p3_scale forward minZ),
                    p3_add (p3_add c (p3_scale right maxX)) (p3_scale forward minZ),
                    p3_add (p3_add c (p3_scale right maxX)) (p3_scale forward maxZ),
                    p3_add (p3_add c (p3_scale right minX)) (p3_scale forward maxZ)]\<rparr>)"

text \<open>The three tests of the loop body of \<open>findMergeablePlane\<close>, in source order.\<close>

definition mergeable :: "DetectedPlane \<Rightarrow> DetectedPlane \<Rightarrow> bool" where
  "mergeable existing newPlane =
     (if isHorizontal existing \<noteq> isHorizontal newPlane then False
      else if \<bar>dot3 (normal existing) (normal newPlane)\<bar> < 0.95 then False
      else norm3 (p3_sub (center existing) (center newPlane)) < MERGE_DISTANCE)"

fun findMergeable_from :: "nat \<Rightarrow> DetectedPlane list \<Rightarrow> DetectedPlane \<Rightarrow> int" where
  "findMergeable_from i [] newPlane = - 1"
| "findMergeable_from i (p # ps) newPlane =
     (if mergeable p newPlane then int i else findMergeable_from (Suc i) ps newPlane)"

definition findMergeablePlane :: "PlaneDetector \<Rightarrow> DetectedPlane \<Rightarrow> int" where
  "findMergeablePlane st newPlane = findMergeable_from 0 (planes st) newPlane"

definition mergePlanes :: "nat \<Rightarrow> DetectedPlane \<Rightarrow> PlaneDetector \<Rightarrow> PlaneDetector" where
  "mergePlanes existingIdx newPlane st =
     (let existing = planes st ! existingIdx;
          merged = existing
            \<lparr>center := p3_scale (p3_add (center existing) (center newPlane)) 0.5,
             width := max (width existing) (width newPlane),
             height := max (height existing) (height newPlane),
             confidence := min 1 (confidence existing + confidence newPlane * 0.5)\<rparr>
      in st\<lparr>planes := (planes st)[existingIdx := merged]\<rparr>)"

text \<open>
  Removal of the used points: the inlier indices are sorted in descending order and
  erased one by one.
\<close>

definition erase_at :: "nat \<Rightarrow> 'a list \<Rightarrow> 'a list" where
  "erase_at idx xs = take idx xs @ drop (Suc idx) xs"

definition erase_inliers :: "nat list \<Rightarrow> 'a list \<Rightarrow> 'a list" where
  "erase_inliers inliers xs = fold erase_at (rev (sort inliers)) xs"

text \<open>
  The plane built in one round of \<open>detectPlanes\<close> from the result of the fit.  A fresh
  \<open>DetectedPlane\<close> has empty corners and a zero centre; its scalar fields are all
  written before the plane is used.  \<open>totalCount\<close> is \<open>mapPoints.size()\<close>.
\<close>

definition new_plane ::
  "PlaneDetector \<Rightarrow> nat \<Rightarrow> Point3f list \<Rightarrow> Point3f \<Rightarrow> nat list \<Rightarrow> DetectedPlane" where
  "new_plane st totalCount remainingPoints n inliers =
     (let inlierPoints = map (\<lambda>idx. remainingPoints ! idx) inliers;
          plane0 = \<lparr>plane_id = nextPlaneId st, center = Point3f 0 0 0, normal = n,
                    width = 0, height = 0, corners = [],
                    isHorizontal = isPlaneHorizontal n,
                    confidence = real (length inliers) / real totalCount\<rparr>
      in computePlaneBounds inlierPoints n plane0)"

text \<open>
  The merge attempt of the round: the plane is merged into the first mergeable plane
  (and the id counter rolled back), or appended.
\<close>

definition place_plane :: "DetectedPlane \<Rightarrow> PlaneDetector \<Rightarrow> PlaneDetector" where
  "place_plane plane st =
     (let mergeIdx = findMergeablePlane st plane
      in if 0 \<le> mergeIdx
         then (mergePlanes (nat mergeIdx) plane st)\<lparr>nextPlaneId := nextPlaneId st - 1\<rparr>
         else st\<lparr>planes := planes st @ [plane]\<rparr>)"

text \<open>
  The \<open>for\<close> loop of \<open>detectPlanes\<close> from round \<open>planeCount\<close> on; \<open>rng planeCount\<close> is
  the random source of the call of \<open>fitPlaneRANSAC\<close> made in that round.
\<close>

function detectPlanes_loop ::
  "(nat \<Rightarrow> nat \<Rightarrow> nat \<times> nat \<times> nat) \<Rightarrow> nat \<Rightarrow> nat \<Rightarrow> PlaneDetector \<Rightarrow> Point3f list
     \<Rightarrow> PlaneDetector" where
  "detectPlanes_loop rng totalCount planeCount st remainingPoints =
     (if planeCount < 3 \<and> MIN_PLANE_POINTS \<le> length remainingPoints then
        (case fitPlaneRANSAC (rng planeCount) remainingPoints of
           None \<Rightarrow> st
         | Some (n, d, inliers) \<Rightarrow>
             if length inliers < MIN_PLANE_POINTS then st
             else
               detectPlanes_loop rng totalCount (planeCount + 1)
                 (place_plane (new_plane st totalCount remainingPoints n inliers)
                    (st\<lparr>nextPlaneId := nextPlaneId st + 1\<rparr>))
                 (erase_inliers inliers remainingPoints))
      else st)"
  by pat_completeness auto
termination
  by (relation "measure (\<lambda>(rng, totalCount, planeCount, st, remainingPoints). 3 - planeCount)") auto

declare detectPlanes_loop.simps [simp del]

definition detectPlanes ::
  "(nat \<Rightarrow> nat \<Rightarrow> nat \<times> nat \<times> nat) \<Rightarrow> Point3f list \<Rightarrow> PlaneDetector \<Rightarrow> bool \<times> PlaneDetector" where
  "detectPlanes rng mapPoints st =
     (if length mapPoints < MIN_PLANE_POINTS then (False, st)
      else
        let st' = detectPlanes_loop rng (length mapPoints) 0 st mapPoints
        in (planes st' \<noteq> [], st'))"

definition getDetectedPlanes :: "PlaneDetector \<Rightarrow> DetectedPlane list" where
  "getDetectedPlanes st = planes st"

text \<open>
  A sequence of calls of \<open>detectPlanes\<close> on one detector, each with its random source
  and its point cloud.
\<close>

definition detect_calls ::
  "((nat \<Rightarrow> nat \<Rightarrow> nat \<times> nat \<times> nat) \<times> Point3f list) list \<Rightarrow> PlaneDetector \<Rightarrow> PlaneDetector" where
  "detect_calls calls st = fold (\<lambda>(rng, pts) st'. snd (detectPlanes rng pts st')) calls st"

text \<open>The property of a plane normal that the detector maintains.\<close>

definition normal_ok :: "DetectedPlane \<Rightarrow> bool" where
  "normal_ok p = (0 \<le> py (normal p) \<and> \<bar>norm3 (normal p) - 1\<bar> \<le> 0.0001)"

section \<open>Hit tester (hit_test.h, hit_test.cpp)\<close>

record Plane3D =
  plane_nx :: real
  plane_ny :: real
  plane_nz :: real
  plane_d :: real

record Ray3D =
  ray_ox :: real
  ray_oy :: real
  ray_oz :: real
  ray_dx :: real
  ray_dy :: real
  ray_dz :: real

record HitTestResult =
  hit :: bool
  hit_x :: real
  hit_y :: real
  hit_z :: real
  hit_distance :: real
  planeId :: int
  hit_confidence :: real

record HitTester =
  groundPlane :: Plane3D
  hasValidPlane :: bool

text \<open>The default constructor of \<open>HitTestResult\<close>.\<close>

definition HitTestResult_new :: HitTestResult where
  "HitTestResult_new =
     \<lparr>hit = False, hit_x = 0, hit_y = 0, hit_z = 0, hit_distance = 0, planeId = - 1,
      hit_confidence = 0\<rparr>"

definition signedDistance :: "Plane3D \<Rightarrow> real \<Rightarrow> real \<Rightarrow> real \<Rightarrow> real" where
  "signedDistance pl a b c = plane_nx pl * a + plane_ny pl * b + plane_nz pl * c + plane_d pl"

definition pointAt :: "Ray3D \<Rightarrow> real \<Rightarrow> real \<times> real \<times> real" where
  "pointAt ray t = (ray_ox ray + ray_dx ray * t, ray_oy ray + ray_dy ray * t,
                    ray_oz ray + ray_dz ray * t)"

definition setDefaultGroundPlane :: "HitTester \<Rightarrow> HitTester" where
  "setDefaultGroundPlane h =
     h\<lparr>groundPlane := \<lparr>plane_nx = 0, plane_ny = 1, plane_nz = 0, plane_d = 0\<rparr>,
       hasValidPlane := True\<rparr>"

definition HitTester_new :: HitTester where
  "HitTester_new =
     setDefaultGroundPlane
       \<lparr>groundPlane = \<lparr>plane_nx = 0, plane_ny = 0, plane_nz = 0, plane_d = 0\<rparr>,
        hasValidPlane = False\<rparr>"

text \<open>
  The sixteen cofactor expressions \<open>inv[0] \<dots> inv[15]\<close> of \<open>invertMatrix4x4\<close>, listed by
  index.  A \<open>float*\<close> matrix argument is the list of its sixteen entries.
\<close>

definition cofactors :: "real list \<Rightarrow> real list" where
  "cofactors m =
     [
      m ! 5 * m ! 10 * m ! 15 - m ! 5 * m ! 11 * m ! 14 - m ! 9 * m ! 6 * m ! 15
        + m ! 9 * m ! 7 * m ! 14 + m ! 13 * m ! 6 * m ! 11 - m ! 13 * m ! 7 * m ! 10,
      - m ! 1 * m ! 10 * m ! 15 + m ! 1 * m ! 11 * m ! 14 + m ! 9 * m ! 2 * m ! 15
        - m ! 9 * m ! 3 * m ! 14 - m ! 13 * m ! 2 * m ! 11 + m ! 13 * m ! 3 * m ! 10,
      m ! 1 * m ! 6 * m ! 15 - m ! 1 * m ! 7 * m ! 14 - m ! 5 * m ! 2 * m ! 15
        + m ! 5 * m ! 3 * m ! 14 + m ! 13 * m ! 2 * m ! 7 - m ! 13 * m ! 3 * m ! 6,
      - m ! 1 * m ! 6 * m ! 11 + m ! 1 * m ! 7 * m ! 10 + m ! 5 * m ! 2 * m ! 11
        - m ! 5 * m ! 3 * m ! 10 - m ! 9 * m ! 2 * m ! 7 + m ! 9 * m ! 3 * m ! 6,
      - m ! 4 * m ! 10 * m ! 15 + m ! 4 * m ! 11 * m ! 14 + m ! 8 * m ! 6 * m ! 15
        - m ! 8 * m ! 7 * m ! 14 - m ! 12 * m ! 6 * m ! 11 + m ! 12 * m ! 7 * m ! 10,
      m ! 0 * m ! 10 * m ! 15 - m ! 0 * m ! 11 * m ! 14 - m ! 8 * m ! 2 * m ! 15
        + m ! 8 * m ! 3 * m ! 14 + m ! 12 * m ! 2 * m ! 11 - m ! 12 * m ! 3 * m ! 10,
      - m ! 0 * m ! 6 * m ! 15 + m ! 0 * m ! 7 * m ! 14 + m ! 4 * m ! 2 * m ! 15
        - m ! 4 * m ! 3 * m ! 14 - m ! 12 * m ! 2 * m ! 7 + m ! 12 * m ! 3 * m ! 6,
      m ! 0 * m ! 6 * m ! 11 - m ! 0 * m ! 7 * m ! 10 - m ! 4 * m ! 2 * m ! 11
        + m ! 4 * m ! 3 * m ! 10 + m ! 8 * m ! 2 * m ! 7 - m ! 8 * m ! 3 * m ! 6,
      m ! 4 * m ! 9 * m ! 15 - m ! 4 * m ! 11 * m ! 13 - m ! 8 * m ! 5 * m ! 15
        + m ! 8 * m ! 7 * m ! 13 + m ! 12 * m ! 5 * m ! 11 - m ! 12 * m ! 7 * m ! 9,
      - m ! 0 * m ! 9 * m ! 15 + m ! 0 * m ! 11 * m ! 13 + m ! 8 * m ! 1 * m ! 15
        - m ! 8 * m ! 3 * m ! 13 - m ! 12 * m ! 1 * m ! 11 + m ! 12 * m ! 3 * m ! 9,
      m ! 0 * m ! 5 * m ! 15 - m ! 0 * m ! 7 * m ! 13 - m ! 4 * m ! 1 * m ! 15
        + m ! 4 * m ! 3 * m ! 13 + m ! 12 * m ! 1 * m ! 7 - m ! 12 * m ! 3 * m ! 5,
      - m ! 0 * m ! 5 * m ! 11 + m ! 0 * m ! 7 * m ! 9 + m ! 4 * m ! 1 * m ! 11
        - m ! 4 * m ! 3 * m ! 9 - m ! 8 * m ! 1 * m ! 7 + m ! 8 * m ! 3 * m ! 5,
      - m ! 4 * m ! 9 * m ! 14 + m ! 4 * m ! 10 * m ! 13 + m ! 8 * m ! 5 * m ! 14
        - m ! 8 * m ! 6 * m ! 13 - m ! 12 * m ! 5 * m ! 10 + m ! 12 * m ! 6 * m ! 9,
      m ! 0 * m ! 9 * m ! 14 - m ! 0 * m ! 10 * m ! 13 - m ! 8 * m ! 1 * m ! 14
        + m ! 8 * m ! 2 * m ! 13 + m ! 12 * m ! 1 * m ! 10 - m ! 12 * m ! 2 * m ! 9,
      - m ! 0 * m ! 5 * m ! 14 + m ! 0 * m ! 6 * m ! 13 + m ! 4 * m ! 1 * m ! 14
        - m ! 4 * m ! 2 * m ! 13 - m ! 12 * m ! 1 * m ! 6 + m ! 12 * m ! 2 * m ! 5,
      m ! 0 * m ! 5 * m ! 10 - m ! 0 * m ! 6 * m ! 9 - m ! 4 * m ! 1 * m ! 10
        + m ! 4 * m ! 2 * m ! 9 + m ! 8 * m ! 1 * m ! 6 - m ! 8 * m ! 2 * m ! 5
     ]"

definition invertMatrix4x4 :: "real list \<Rightarrow> real list option" where
  "invertMatrix4x4 m =
     (let inv = cofactors m;
          det = m ! 0 * inv ! 0 + m ! 1 * inv ! 4 + m ! 2 * inv ! 8 + m ! 3 * inv ! 12
      in if \<bar>det\<bar> < 0.0000000001 then None
         else Some (map (\<lambda>v. v * (1 / det)) inv))"

definition multiplyMat4Vec4 :: "real list \<Rightarrow> real list \<Rightarrow> real list" where
  "multiplyMat4Vec4 m v =
     map (\<lambda>i. m ! i * v ! 0 + m ! (i + 4) * v ! 1 + m ! (i + 8) * v ! 2 + m ! (i + 12) * v ! 3)
       [0..<4]"

definition defaultRay :: Ray3D where
  "defaultRay = \<lparr>ray_ox = 0, ray_oy = 0, ray_oz = 0, ray_dx = 0, ray_dy = 0, ray_dz = - 1\<rparr>"

definition perspectiveDivide :: "real list \<Rightarrow> real list" where
  "perspectiveDivide v =
     (if 0.000001 < \<bar>v ! 3\<bar> then [v ! 0 / v ! 3, v ! 1 / v ! 3, v ! 2 / v ! 3, v ! 3] else v)"

definition screenToRay ::
  "real \<Rightarrow> real \<Rightarrow> int \<Rightarrow> int \<Rightarrow> real list \<Rightarrow> real list \<Rightarrow> Ray3D" where
  "screenToRay screenX screenY screenWidth screenHeight viewMatrix projMatrix =
     (let ndcX = 2 * screenX / real_of_int screenWidth - 1;
          ndcY = 1 - 2 * screenY / real_of_int screenHeight;
          nearPoint = [ndcX, ndcY, - 1, 1];
          farPoint = [ndcX, ndcY, 1, 1]
      in case invertMatrix4x4 projMatrix of
           None \<Rightarrow> defaultRay
         | Some invProj \<Rightarrow>
             (case invertMatrix4x4 viewMatrix of
                None \<Rightarrow> defaultRay
              | Some invView \<Rightarrow>
                  let nearView = perspectiveDivide (multiplyMat4Vec4 invProj nearPoint);
                      farView = perspectiveDivide (multiplyMat4Vec4 invProj farPoint);
                      nearW = multiplyMat4Vec4 invView
                                [nearView ! 0, nearView ! 1, nearView ! 2, 1];
                      farW = multiplyMat4Vec4 invView [farView ! 0, farView ! 1, farView ! 2, 1];
                      dx = farW ! 0 - nearW ! 0;
                      dy = farW ! 1 - nearW ! 1;
                      dz = farW ! 2 - nearW ! 2;
                      len = sqrt (dx * dx + dy * dy + dz * dz)
                  in if 0.000001 < len
                     then \<lparr>ray_ox = nearW ! 0, ray_oy = nearW ! 1, ray_oz = nearW ! 2,
                           ray_dx = dx / len, ray_dy = dy / len, ray_dz = dz / len\<rparr>
                     else \<lparr>ray_ox = nearW ! 0, ray_oy = nearW ! 1, ray_oz = nearW ! 2,
                           ray_dx = 0, ray_dy = 0, ray_dz = - 1\<rparr>))"

text \<open>
  \<open>rayPlaneIntersect\<close> returns its \<open>bool\<close> together with the updated \<open>result\<close>
  reference.
\<close>

definition rayPlaneIntersect :: "Ray3D \<Rightarrow> Plane3D \<Rightarrow> HitTestResult \<Rightarrow> bool \<times> HitTestResult" where
  "rayPlaneIntersect ray pl result =
     (let nDotD = plane_nx pl * ray_dx ray + plane_ny pl * ray_dy ray + plane_nz pl * ray_dz ray
      in if \<bar>nDotD\<bar> < 0.000001 then (False, result\<lparr>hit := False\<rparr>)
         else
           let nDotO = plane_nx pl * ray_ox ray + plane_ny pl * ray_oy ray
                       + plane_nz pl * ray_oz ray;
               t = - (nDotO + plane_d pl) / nDotD
           in if t < 0 then (False, result\<lparr>hit := False\<rparr>)
              else
                case pointAt ray t of (a, b, c) \<Rightarrow>
                  (True, result\<lparr>hit_x := a, hit_y := b, hit_z := c, hit_distance := t,
                                 hit := True, planeId := - 1, hit_confidence := 1\<rparr>))"

definition hitTest ::
  "HitTester \<Rightarrow> real \<Rightarrow> real \<Rightarrow> int \<Rightarrow> int \<Rightarrow> real list \<Rightarrow> real list \<Rightarrow> HitTestResult" where
  "hitTest h screenX screenY screenWidth screenHeight viewMatrix projMatrix =
     (if \<not> hasValidPlane h then HitTestResult_new\<lparr>hit := False\<rparr>
      else
        let ray = screenToRay screenX screenY screenWidth screenHeight viewMatrix projMatrix
        in snd (rayPlaneIntersect ray (groundPlane h) HitTestResult_new))"

section \<open>OpenCV data and primitives\<close>

text \<open>
  A \<open>cv::Mat\<close> of doubles or floats is the list of its rows; an 8-bit grayscale image is
  the list of its pixel rows; a descriptor matrix is the list of its rows (one per
  keypoint), each row the bytes of one ORB descriptor.  \<open>empty()\<close> holds of a matrix
  without elements.
\<close>

type_synonym mat = "real list list"

type_synonym image = "nat list list"

type_synonym descriptor = "nat list"

record KeyPoint =
  pt :: Point2f

record DMatch =
  queryIdx :: int
  trainIdx :: int
  distance :: real

definition mat_rows :: "'a list list \<Rightarrow> nat" where
  "mat_rows m = length m"

definition mat_cols :: "'a list list \<Rightarrow> nat" where
  "mat_cols m = (case m of [] \<Rightarrow> 0 | r # _ \<Rightarrow> length r)"

definition mat_empty :: "'a list list \<Rightarrow> bool" where
  "mat_empty m = (mat_rows m * mat_cols m = 0)"

definition mat_at :: "mat \<Rightarrow> nat \<Rightarrow> nat \<Rightarrow> real" where
  "mat_at m i j = m ! i ! j"

definition mat_eye :: "nat \<Rightarrow> mat" where
  "mat_eye n = map (\<lambda>i. map (\<lambda>j. if i = j then 1 else 0) [0..<n]) [0..<n]"

definition mat_zeros :: "nat \<Rightarrow> nat \<Rightarrow> mat" where
  "mat_zeros r c = replicate r (replicate c 0)"

definition mat_mul :: "mat \<Rightarrow> mat \<Rightarrow> mat" where
  "mat_mul a b =
     map (\<lambda>row. map (\<lambda>j. (\<Sum>k\<leftarrow>[0..<length row]. row ! k * mat_at b k j)) [0..<mat_cols b]) a"

definition mat_sub :: "mat \<Rightarrow> mat \<Rightarrow> mat" where
  "mat_sub a b = map2 (map2 (-)) a b"

text \<open>\<open>cv::norm\<close> of a matrix: the L2 norm of all its entries.\<close>

definition mat_norm :: "mat \<Rightarrow> real" where
  "mat_norm m = sqrt (\<Sum>v\<leftarrow>concat m. v * v)"

text \<open>
  \<open>m(cv::Rect(x, y, w, h))\<close> read as a value: columns \<open>x \<dots> x + w - 1\<close> of rows
  \<open>y \<dots> y + h - 1\<close>.
\<close>

definition mat_rect :: "mat \<Rightarrow> nat \<Rightarrow> nat \<Rightarrow> nat \<Rightarrow> nat \<Rightarrow> mat" where
  "mat_rect m x0 y0 w h = map (\<lambda>r. take w (drop x0 r)) (take h (drop y0 m))"

text \<open>
  \<open>src.copyTo(dst(cv::Rect(x, y, w, h)))\<close>: the block of \<open>dst\<close> is overwritten when
  \<open>src\<close> has the size of the block; otherwise OpenCV reallocates the temporary header
  and \<open>dst\<close> stays as it is.
\<close>

definition copyTo_rect :: "mat \<Rightarrow> mat \<Rightarrow> nat \<Rightarrow> nat \<Rightarrow> nat \<Rightarrow> nat \<Rightarrow> mat" where
  "copyTo_rect src dst x0 y0 w h =
     (if mat_rows src = h \<and> (\<forall>r \<in> set src. length r = w) then
        map (\<lambda>i. if y0 \<le> i \<and> i < y0 + h
                  then take x0 (dst ! i) @ src ! (i - y0) @ drop (x0 + w) (dst ! i)
                  else dst ! i) [0..<length dst]
      else dst)"

text \<open>\<open>[R | t; 0 0 0 1]\<close> as the source builds it from an identity matrix.\<close>

definition compose_pose :: "mat \<Rightarrow> mat \<Rightarrow> mat" where
  "compose_pose R t = copyTo_rect t (copyTo_rect R (mat_eye 4) 0 0 3 3) 3 0 1 3"

definition countNonZero :: "nat list \<Rightarrow> nat" where
  "countNonZero m = length (filter (\<lambda>v. v \<noteq> 0) m)"

text \<open>
  The OpenCV routines the engine calls, and the random source of the plane detector,
  are parameters of the model.  Output arguments are returned as tuples; an empty
  matrix result is the value \<open>[]\<close>.
  \<^item> \<open>orb_slam\<close>, \<open>orb_target\<close>: \<open>detectAndCompute\<close> of the two ORB detectors;
  \<^item> \<open>bf_match\<close>: \<open>match\<close> of the cross-check Hamming matcher;
  \<^item> \<open>bf_knnMatch\<close>: \<open>knnMatch\<close> of the image-target matcher;
  \<^item> \<open>findEssentialMat\<close> returns \<open>(E, mask)\<close>; \<open>recoverPose\<close> returns
    \<open>(inliers, R, t)\<close>; \<open>solvePnPRansac\<close> returns \<open>(success, rvec, tvec)\<close>;
    \<open>findHomography\<close> is passed its method and its reprojection threshold (in pixels)
    and returns \<open>(H, mask)\<close>;
  \<^item> \<open>mat_inv\<close>: \<open>cv::Mat::inv\<close>;
  \<^item> the remaining arguments of a routine are the same constants at each of its calls
    (\<open>cv::RANSAC, 0.999, 1.0\<close> for \<open>findEssentialMat\<close>, \<open>false, 100, 8.0, 0.99\<close> for
    \<open>solvePnPRansac\<close>) and belong to the routine;
  \<^item> \<open>plane_rng frame planeCount iter\<close>: the three raw draws of RANSAC iteration
    \<open>iter\<close> in the call of \<open>fitPlaneRANSAC\<close> made in round \<open>planeCount\<close> of the plane
    detection of frame number \<open>frame\<close>.
\<close>

text \<open>The robust estimation methods of \<open>cv::findHomography\<close>.\<close>

datatype homography_method = CV_LMEDS | CV_RANSAC | CV_RHO

record cv_env =
  orb_slam :: "image \<Rightarrow> KeyPoint list \<times> descriptor list"
  orb_target :: "image \<Rightarrow> KeyPoint list \<times> descriptor list"
  bf_match :: "descriptor list \<Rightarrow> descriptor list \<Rightarrow> DMatch list"
  bf_knnMatch :: "descriptor list \<Rightarrow> descriptor list \<Rightarrow> nat \<Rightarrow> DMatch list list"
  findEssentialMat :: "Point2f list \<Rightarrow> Point2f list \<Rightarrow> mat \<Rightarrow> mat \<times> nat list"
  recoverPose :: "mat \<Rightarrow> Point2f list \<Rightarrow> Point2f list \<Rightarrow> mat \<Rightarrow> nat list \<Rightarrow> int \<times> mat \<times> mat"
  triangulatePoints :: "mat \<Rightarrow> mat \<Rightarrow> Point2f list \<Rightarrow> Point2f list \<Rightarrow> mat"
  solvePnPRansac :: "Point3f list \<Rightarrow> Point2f list \<Rightarrow> mat \<Rightarrow> mat \<Rightarrow> bool \<times> mat \<times> mat"
  Rodrigues :: "mat \<Rightarrow> mat"
  findHomography ::
    "Point2f list \<Rightarrow> Point2f list \<Rightarrow> homography_method \<Rightarrow> real \<Rightarrow> mat \<times> nat list"
  perspectiveTransform :: "Point2f list \<Rightarrow> mat \<Rightarrow> Point2f list"
  isContourConvex :: "Point2f list \<Rightarrow> bool"
  mat_inv :: "mat \<Rightarrow> mat"
  plane_rng :: "int \<Rightarrow> nat \<Rightarrow> nat \<Rightarrow> nat \<times> nat \<times> nat"

section \<open>Image-target tracker (image_target.h, image_target.cpp)\<close>

record ImageTarget =
  target_id :: int
  target_name :: string
  target_image :: image
  target_keypoints :: "KeyPoint list"
  target_descriptors :: "descriptor list"
  widthMeters :: real
  heightMeters :: real

record DetectedTarget =
  targetId :: int
  detected_name :: string
  detected_pose :: mat
  detected_corners :: "Point2f list"
  detected_confidence :: real
  isTracking :: bool

record ImageTargetTracker =
  targets :: "ImageTarget list"
  detectedTargets :: "DetectedTarget list"
  nextTargetId :: int

definition MIN_MATCHES :: nat where
  "MIN_MATCHES = 15"

definition GOOD_MATCH_RATIO :: real where
  "GOOD_MATCH_RATIO = 0.75"

definition ImageTargetTracker_new :: ImageTargetTracker where
  "ImageTargetTracker_new = \<lparr>targets = [], detectedTargets = [], nextTargetId = 0\<rparr>"

text \<open>
  \<open>addTarget\<close> for a single-channel image (the only kind the engine passes in: the
  bindings convert to grayscale first).  The result is the returned id, \<open>-1\<close> on
  failure; the id counter advances even when the target is rejected for lack of
  features.
\<close>

definition addTarget ::
  "cv_env \<Rightarrow> image \<Rightarrow> string \<Rightarrow> real \<Rightarrow> real \<Rightarrow> ImageTargetTracker \<Rightarrow> int \<times> ImageTargetTracker" where
  "addTarget env img name wMeters hMeters st =
     (if mat_empty img then (- 1, st)
      else
        let st1 = st\<lparr>nextTargetId := nextTargetId st + 1\<rparr>;
            hm = (if hMeters \<le> 0 then wMeters * real (mat_rows img) / real (mat_cols img)
                  else hMeters)
        in case orb_target env img of (kps, descs) \<Rightarrow>
             if length kps < MIN_MATCHES then (- 1, st1)
             else
               (nextTargetId st,
                st1\<lparr>targets := targets st1 @
                       [\<lparr>target_id = nextTargetId st, target_name = name, target_image = img,
                         target_keypoints = kps, target_descriptors = descs,
                         widthMeters = wMeters, heightMeters = hm\<rparr>]\<rparr>))"

definition getTargetCount :: "ImageTargetTracker \<Rightarrow> nat" where
  "getTargetCount st = length (targets st)"

text \<open>\<open>computePose\<close>: \<open>None\<close> is \<open>return false\<close>, \<open>Some pose\<close> the pose written on success.\<close>

definition computePose ::
  "cv_env \<Rightarrow> ImageTarget \<Rightarrow> Point2f list \<Rightarrow> Point2f list \<Rightarrow> mat \<Rightarrow> mat option" where
  "computePose env target srcPoints dstPoints cameraMatrix =
     (let objectPoints =
            map (\<lambda>p. Point3f
                   ((p2x p / real (mat_cols (target_image target)) - 0.5) * widthMeters target)
                   ((p2y p / real (mat_rows (target_image target)) - 0.5) * heightMeters target)
                   0) srcPoints
      in case solvePnPRansac env objectPoints dstPoints cameraMatrix (mat_zeros 4 1) of
           (success, rvec, tvec) \<Rightarrow>
             if \<not> success then None
             else Some (compose_pose (Rodrigues env rvec) tvec))"

text \<open>Lowe's ratio test over the k-nearest-neighbour lists.\<close>

definition ratio_test :: "DMatch list list \<Rightarrow> DMatch list" where
  "ratio_test knnMatches =
     map (\<lambda>knn. knn ! 0)
       (filter (\<lambda>knn. 2 \<le> length knn \<and>
                  distance (knn ! 0) < GOOD_MATCH_RATIO * distance (knn ! 1)) knnMatches)"

text \<open>
  The body of the loop over the registered targets in \<open>detectTargets\<close>: \<open>None\<close> when the
  round ends without a \<open>push_back\<close>, \<open>Some detected\<close> when the detection is appended.
\<close>

definition detect_one ::
  "cv_env \<Rightarrow> KeyPoint list \<Rightarrow> descriptor list \<Rightarrow> mat \<Rightarrow> ImageTarget \<Rightarrow> DetectedTarget option" where
  "detect_one env frameKeypoints frameDescriptors cameraMatrix target =
     (if mat_empty (target_descriptors target) then None
      else
        let goodMatches =
              ratio_test (bf_knnMatch env (target_descriptors target) frameDescriptors 2)
        in if length goodMatches < MIN_MATCHES then None
           else
             let srcPoints = map (\<lambda>m. pt (target_keypoints target ! nat (queryIdx m))) goodMatches;
                 dstPoints = map (\<lambda>m. pt (frameKeypoints ! nat (trainIdx m))) goodMatches
             in case findHomography env srcPoints dstPoints CV_RANSAC 5 of
                  (H, inlierMask) \<Rightarrow>
                  if mat_empty H then None
                  else
                    let inliers = countNonZero inlierMask
                    in if inliers < MIN_MATCHES then None
                       else
                         let w = real (mat_cols (target_image target));
                             h = real (mat_rows (target_image target));
                             targetCorners =
                               [Point2f 0 0, Point2f w 0, Point2f w h, Point2f 0 h];
                             projectedCorners = perspectiveTransform env targetCorners H
                         in if \<not> isContourConvex env projectedCorners then None
                            else
                              (case computePose env target srcPoints dstPoints cameraMatrix of
                                 None \<Rightarrow> None
                               | Some pose \<Rightarrow>
                                   Some \<lparr>targetId = target_id target,
                                         detected_name = target_name target,
                                         detected_pose = pose,
                                         detected_corners = projectedCorners,
                                         detected_confidence =
                                           real inliers / real (length goodMatches),
                                         isTracking = True\<rparr>))"

definition detectTargets ::
  "cv_env \<Rightarrow> image \<Rightarrow> mat \<Rightarrow> ImageTargetTracker \<Rightarrow> bool \<times> ImageTargetTracker" where
  "detectTargets env frame cameraMatrix st =
     (let st0 = st\<lparr>detectedTargets := []\<rparr>
      in if targets st = [] \<or> mat_empty frame then (False, st0)
         else
           case orb_target env frame of (frameKeypoints, frameDescriptors) \<Rightarrow>
             if length frameKeypoints < MIN_MATCHES then (False, st0)
             else
               let found = List.map_filter
                             (detect_one env frameKeypoints frameDescriptors cameraMatrix)
                             (targets st)
               in (found \<noteq> [], st0\<lparr>detectedTargets := found\<rparr>))"

definition getDetectedTargets :: "ImageTargetTracker \<Rightarrow> DetectedTarget list" where
  "getDetectedTargets st = detectedTargets st"

section \<open>Map points and keyframes (map_point.h)\<close>

record MapPoint =
  mp_id :: int
  worldPos :: Point3f
  mp_descriptor :: descriptor
  observations :: "int list"
  matchCount :: int
  isBad :: bool

definition MapPoint_new :: "int \<Rightarrow> Point3f \<Rightarrow> descriptor \<Rightarrow> MapPoint" where
  "MapPoint_new i pos desc =
     \<lparr>mp_id = i, worldPos = pos, mp_descriptor = desc, observations = [], matchCount = 1,
      isBad = False\<rparr>"

definition addObservation :: "int \<Rightarrow> MapPoint \<Rightarrow> MapPoint" where
  "addObservation keyframeId mp =
     mp\<lparr>observations := observations mp @ [keyframeId], matchCount := matchCount mp + 1\<rparr>"

record KeyFrame =
  kf_id :: int
  kf_image :: image
  pose :: mat
  keypoints :: "KeyPoint list"
  descriptors :: "descriptor list"
  mapPointIds :: "int list"

definition KeyFrame_new ::
  "int \<Rightarrow> image \<Rightarrow> mat \<Rightarrow> KeyPoint list \<Rightarrow> descriptor list \<Rightarrow> KeyFrame" where
  "KeyFrame_new i img p kps descs =
     \<lparr>kf_id = i, kf_image = img, pose = p, keypoints = kps, descriptors = descs,
      mapPointIds = replicate (length kps) (- 1)\<rparr>"

section \<open>SLAM system (slam_system.h, slam_system.cpp)\<close>

text \<open>
  The messages \<open>SLAMSystem\<close> writes to \<open>std::cout\<close>, in the order of their appearance in
  the source, with the numbers they print.  The console is part of the state: it is the
  only place where the outcome of the loop-closure search shows.  (The messages of the
  plane detector and of the image-target tracker are not modelled.)
\<close>

datatype slam_msg =
    SystemReady
  | InitFewFeatures nat
  | FirstFrameStored nat
  | InitFewMatches nat
  | InitFewGoodMatches nat
  | InitNoEssentialMatrix
  | InitFewInliers int
  | InitSucceeded nat nat
  | TrackFewFeatures
  | TrackFewMatches
  | KeyFrameCreated int nat
  | LoopClosureDetected int int
  | LocalBundleAdjustmentRun

text \<open>
  \<open>mapPoints\<close> is a \<open>std::map<int, shared_ptr<MapPoint>>\<close>: an association list kept
  in ascending key order.  \<open>keyframes\<close> is the vector of shared keyframes; a
  \<open>KeyFrame&\<close> argument is the index of the keyframe in that vector.
\<close>

record SLAMSystem =
  planeDetector :: PlaneDetector
  imageTargetTracker :: ImageTargetTracker
  currentPose :: mat
  mapPoints :: "(int \<times> MapPoint) list"
  keyframes :: "KeyFrame list"
  prevFrame :: image
  prevKeypoints :: "KeyPoint list"
  prevDescriptors :: "descriptor list"
  initialized :: bool
  tracking :: bool
  frameCount :: int
  nextMapPointId :: int
  nextKeyFrameId :: int
  console :: "slam_msg list"

definition MIN_INIT_MATCHES :: int where
  "MIN_INIT_MATCHES = 100"

definition MIN_TRACKING_MATCHES :: int where
  "MIN_TRACKING_MATCHES = 20"

definition KEYFRAME_INTERVAL :: int where
  "KEYFRAME_INTERVAL = 15"

definition KEYFRAME_TRANSLATION :: real where
  "KEYFRAME_TRANSLATION = 0.1"

definition K :: mat where
  "K = [[500, 0, 320], [0, 500, 240], [0, 0, 1]]"

definition distCoeffs :: mat where
  "distCoeffs = mat_zeros 4 1"

definition say :: "slam_msg \<Rightarrow> SLAMSystem \<Rightarrow> SLAMSystem" where
  "say msg s = s\<lparr>console := console s @ [msg]\<rparr>"

definition SLAMSystem_new :: SLAMSystem where
  "SLAMSystem_new =
     \<lparr>planeDetector = PlaneDetector_new, imageTargetTracker = ImageTargetTracker_new,
      currentPose = mat_eye 4, mapPoints = [], keyframes = [], prevFrame = [],
      prevKeypoints = [], prevDescriptors = [], initialized = False, tracking = False,
      frameCount = 0, nextMapPointId = 0, nextKeyFrameId = 0, console = [SystemReady]\<rparr>"

text \<open>\<open>mapPoints[k] = v\<close> on the ordered map.\<close>

fun map_store :: "int \<Rightarrow> 'v \<Rightarrow> (int \<times> 'v) list \<Rightarrow> (int \<times> 'v) list" where
  "map_store k v [] = [(k, v)]"
| "map_store k v ((k', v') # rest) =
     (if k < k' then (k, v) # (k', v') # rest
      else if k = k' then (k, v) # rest
      else (k', v') # map_store k v rest)"

subsection \<open>Triangulation\<close>

text \<open>
  One round of the loop over the matches in \<open>triangulateNewPoints\<close>.  The loop state is
  the map, the id counter and the two keyframes.
\<close>

definition triangulate_match ::
  "cv_env \<Rightarrow> mat \<Rightarrow> mat \<Rightarrow> DMatch
     \<Rightarrow> (int \<times> MapPoint) list \<times> int \<times> KeyFrame \<times> KeyFrame
     \<Rightarrow> (int \<times> MapPoint) list \<times> int \<times> KeyFrame \<times> KeyFrame" where
  "triangulate_match env P1 P2 m st =
     (case st of (mps, nextId, kf1, kf2) \<Rightarrow>
        if 50 < distance m then st
        else if 0 \<le> mapPointIds kf1 ! nat (queryIdx m) then st
        else
          let pt1 = pt (keypoints kf1 ! nat (queryIdx m));
              pt2 = pt (keypoints kf2 ! nat (trainIdx m));
              pts4D = triangulatePoints env P1 P2 [pt1] [pt2];
              w = mat_at pts4D 3 0
          in if \<bar>w\<bar> < 0.000001 then st
             else
               let worldPt = Point3f (mat_at pts4D 0 0 / w) (mat_at pts4D 1 0 / w)
                               (mat_at pts4D 2 0 / w)
               in if pz worldPt < 0 then st
                  else
                    let mp = addObservation (kf_id kf2)
                               (addObservation (kf_id kf1)
                                  (MapPoint_new nextId worldPt
                                     (descriptors kf1 ! nat (queryIdx m))))
                    in (map_store (mp_id mp) mp mps, nextId + 1,
                        kf1\<lparr>mapPointIds := (mapPointIds kf1)[nat (queryIdx m) := mp_id mp]\<rparr>,
                        kf2\<lparr>mapPointIds := (mapPointIds kf2)[nat (trainIdx m) := mp_id mp]\<rparr>))"

definition keyframe_matches :: "cv_env \<Rightarrow> KeyFrame \<Rightarrow> KeyFrame \<Rightarrow> DMatch list" where
  "keyframe_matches env kf1 kf2 =
     (if \<not> mat_empty (descriptors kf1) \<and> \<not> mat_empty (descriptors kf2)
      then bf_match env (descriptors kf1) (descriptors kf2) else [])"

definition triangulateNewPoints :: "cv_env \<Rightarrow> nat \<Rightarrow> nat \<Rightarrow> SLAMSystem \<Rightarrow> SLAMSystem" where
  "triangulateNewPoints env i j s =
     (let kf1 = keyframes s ! i; kf2 = keyframes s ! j;
          matches = keyframe_matches env kf1 kf2;
          P1 = mat_mul K (mat_rect (pose kf1) 0 0 4 3);
          P2 = mat_mul K (mat_rect (pose kf2) 0 0 4 3)
      in case fold (triangulate_match env P1 P2) matches
                (mapPoints s, nextMapPointId s, kf1, kf2)
         of (mps, nextId, kf1', kf2') \<Rightarrow>
           s\<lparr>mapPoints := mps, nextMapPointId := nextId,
             keyframes := (keyframes s)[i := kf1', j := kf2']\<rparr>)"

text \<open>
  The coordinates of a world point in the camera frame of a keyframe.  The projection
  matrix of a keyframe is \<open>K * pose(cv::Rect(0, 0, 4, 3))\<close>: the top three rows of the
  pose take the homogeneous world point to the camera frame, and the third coordinate
  there is the depth of the point in front of the camera.
\<close>

definition camera_coords :: "mat \<Rightarrow> Point3f \<Rightarrow> mat" where
  "camera_coords kfPose p = mat_mul (mat_rect kfPose 0 0 4 3) [[px p], [py p], [pz p], [1]]"

definition camera_depth :: "mat \<Rightarrow> Point3f \<Rightarrow> real" where
  "camera_depth kfPose p = mat_at (camera_coords kfPose p) 2 0"

subsection \<open>Loop closure\<close>

definition localBundleAdjustment :: "SLAMSystem \<Rightarrow> SLAMSystem" where
  "localBundleAdjustment s = say LocalBundleAdjustmentRun s"

definition goodCount :: "cv_env \<Rightarrow> KeyFrame \<Rightarrow> KeyFrame \<Rightarrow> int" where
  "goodCount env kf currentKF =
     int (length (filter (\<lambda>m. distance m < 40) (keyframe_matches env kf currentKF)))"

text \<open>One round of the candidate loop; the accumulator is \<open>(bestMatch, bestMatchCount)\<close>.\<close>

definition loop_candidate ::
  "cv_env \<Rightarrow> KeyFrame list \<Rightarrow> KeyFrame \<Rightarrow> nat \<Rightarrow> int \<times> int \<Rightarrow> int \<times> int" where
  "loop_candidate env kfs currentKF i acc =
     (case acc of (bestMatch, bestMatchCount) \<Rightarrow>
        let c = goodCount env (kfs ! i) currentKF
        in if bestMatchCount < c \<and> 50 < c then (int i, c) else acc)"

text \<open>
  \<open>detectLoopClosure\<close>; \<open>cur\<close> is the index of \<open>currentKF\<close>.  The loop bound
  \<open>keyframes.size() - 5\<close> is computed in \<open>size_t\<close>; the only caller guarantees more
  than ten keyframes, and the model is meant for that range only.
\<close>

definition detectLoopClosure :: "cv_env \<Rightarrow> nat \<Rightarrow> SLAMSystem \<Rightarrow> bool \<times> SLAMSystem" where
  "detectLoopClosure env cur s =
     (let currentKF = keyframes s ! cur
      in case fold (loop_candidate env (keyframes s) currentKF)
                [0..<length (keyframes s) - 5] (- 1, 0)
         of (bestMatch, bestMatchCount) \<Rightarrow>
           if 0 \<le> bestMatch
           then (True,
                 localBundleAdjustment
                   (say (LoopClosureDetected (kf_id currentKF)
                           (kf_id (keyframes s ! nat bestMatch))) s))
           else (False, s))"

subsection \<open>Keyframe insertion\<close>

definition needNewKeyFrame :: "SLAMSystem \<Rightarrow> bool" where
  "needNewKeyFrame s =
     (if keyframes s = [] then True
      else if frameCount s mod KEYFRAME_INTERVAL \<noteq> 0 then False
      else
        let lastPose = pose (last (keyframes s));
            t1 = mat_rect lastPose 3 0 1 3;
            t2 = mat_rect (currentPose s) 3 0 1 3;
            dist = mat_norm (mat_sub t2 t1)
        in KEYFRAME_TRANSLATION < dist)"

definition createKeyFrame :: "cv_env \<Rightarrow> image \<Rightarrow> SLAMSystem \<Rightarrow> SLAMSystem" where
  "createKeyFrame env frame s =
     (let kf = KeyFrame_new (nextKeyFrameId s) frame (currentPose s) (prevKeypoints s)
                 (prevDescriptors s);
          s1 = s\<lparr>nextKeyFrameId := nextKeyFrameId s + 1, keyframes := keyframes s @ [kf]\<rparr>;
          n = length (keyframes s1);
          s2 = (if 2 \<le> n then triangulateNewPoints env (n - 2) (n - 1) s1 else s1);
          s3 = (if 10 < length (keyframes s2) then snd (detectLoopClosure env (n - 1) s2)
                else s2)
      in say (KeyFrameCreated (kf_id kf) (length (mapPoints s3))) s3)"

subsection \<open>Two-view initialisation\<close>

definition cache_frame ::
  "image \<Rightarrow> KeyPoint list \<Rightarrow> descriptor list \<Rightarrow> SLAMSystem \<Rightarrow> SLAMSystem" where
  "cache_frame frame kps descs s =
     s\<lparr>prevFrame := frame, prevKeypoints := kps, prevDescriptors := descs\<rparr>"

text \<open>The two passes over the raw matches: smallest distance, then the distance filter.\<close>

definition filter_good :: "DMatch list \<Rightarrow> DMatch list" where
  "filter_good matches =
     (let minDist = fold (\<lambda>m d. if distance m < d then distance m else d) matches 100
      in filter (\<lambda>m. distance m \<le> max (2 * minDist) 30) matches)"

text \<open>
  The local variables of \<open>initialize\<close> after the first-frame test, each as a function of
  the features \<open>kps\<close>, \<open>descs\<close> of the new frame and of the state: the raw matches, the
  good matches, the two point lists, the result \<open>(E, mask)\<close> of \<open>findEssentialMat\<close> and
  the result \<open>(inliers, R, t)\<close> of \<open>recoverPose\<close>.
\<close>

definition init_matches :: "cv_env \<Rightarrow> descriptor list \<Rightarrow> SLAMSystem \<Rightarrow> DMatch list" where
  "init_matches env descs s =
     (if \<not> mat_empty (prevDescriptors s) \<and> \<not> mat_empty descs
      then bf_match env (prevDescriptors s) descs else [])"

definition init_good :: "cv_env \<Rightarrow> descriptor list \<Rightarrow> SLAMSystem \<Rightarrow> DMatch list" where
  "init_good env descs s = filter_good (init_matches env descs s)"

definition init_pts1 :: "cv_env \<Rightarrow> descriptor list \<Rightarrow> SLAMSystem \<Rightarrow> Point2f list" where
  "init_pts1 env descs s =
     map (\<lambda>m. pt (prevKeypoints s ! nat (queryIdx m))) (init_good env descs s)"

definition init_pts2 ::
  "cv_env \<Rightarrow> KeyPoint list \<Rightarrow> descriptor list \<Rightarrow> SLAMSystem \<Rightarrow> Point2f list" where
  "init_pts2 env kps descs s = map (\<lambda>m. pt (kps ! nat (trainIdx m))) (init_good env descs s)"

definition init_essential ::
  "cv_env \<Rightarrow> KeyPoint list \<Rightarrow> descriptor list \<Rightarrow> SLAMSystem \<Rightarrow> mat \<times> nat list" where
  "init_essential env kps descs s =
     findEssentialMat env (init_pts1 env descs s) (init_pts2 env kps descs s) K"

definition init_recover ::
  "cv_env \<Rightarrow> KeyPoint list \<Rightarrow> descriptor list \<Rightarrow> SLAMSystem \<Rightarrow> int \<times> mat \<times> mat" where
  "init_recover env kps descs s =
     recoverPose env (fst (init_essential env kps descs s)) (init_pts1 env descs s)
       (init_pts2 env kps descs s) K (snd (init_essential env kps descs s))"

text \<open>
  The tail of \<open>initialize\<close> after the last test: the two keyframes, the first map and
  the switch to tracking.
\<close>

definition init_map ::
  "cv_env \<Rightarrow> image \<Rightarrow> KeyPoint list \<Rightarrow> descriptor list \<Rightarrow> mat \<Rightarrow> mat \<Rightarrow> SLAMSystem
     \<Rightarrow> SLAMSystem" where
  "init_map env frame kps descs R t s =
     (let n = length (keyframes s);
          kf1 = KeyFrame_new (nextKeyFrameId s) (prevFrame s) (mat_eye 4)
                  (prevKeypoints s) (prevDescriptors s);
          pose2 = compose_pose R t;
          kf2 = KeyFrame_new (nextKeyFrameId s + 1) frame pose2 kps descs;
          s1 = s\<lparr>nextKeyFrameId := nextKeyFrameId s + 2,
                 keyframes := keyframes s @ [kf1, kf2]\<rparr>;
          s2 = triangulateNewPoints env n (n + 1) s1;
          s3 = (cache_frame frame kps descs (s2\<lparr>currentPose := pose2\<rparr>))
                 \<lparr>initialized := True, tracking := True\<rparr>
      in say (InitSucceeded (length (mapPoints s3)) (length (keyframes s3))) s3)"

definition initialize :: "cv_env \<Rightarrow> image \<Rightarrow> SLAMSystem \<Rightarrow> bool \<times> SLAMSystem" where
  "initialize env frame s =
     (let kps = fst (orb_slam env frame); descs = snd (orb_slam env frame)
      in if int (length kps) < MIN_INIT_MATCHES
         then (False, say (InitFewFeatures (length kps)) s)
         else if mat_empty (prevFrame s)
         then (True, say (FirstFrameStored (length kps)) (cache_frame frame kps descs s))
         else if int (length (init_matches env descs s)) < MIN_INIT_MATCHES
         then (False, cache_frame frame kps descs
                        (say (InitFewMatches (length (init_matches env descs s))) s))
         else if int (length (init_good env descs s)) < MIN_INIT_MATCHES div 2
         then (False, say (InitFewGoodMatches (length (init_good env descs s))) s)
         else if mat_empty (fst (init_essential env kps descs s))
         then (False, say InitNoEssentialMatrix s)
         else if fst (init_recover env kps descs s) < 30
         then (False, say (InitFewInliers (fst (init_recover env kps descs s))) s)
         else (True, init_map env frame kps descs (fst (snd (init_recover env kps descs s)))
                       (snd (snd (init_recover env kps descs s))) s))"

subsection \<open>Tracking\<close>

definition matchWithMap :: "cv_env \<Rightarrow> descriptor list \<Rightarrow> SLAMSystem \<Rightarrow> DMatch list" where
  "matchWithMap env descs s =
     (if mapPoints s = [] \<or> mat_empty descs then []
      else
        let usable = filter (\<lambda>(k, mp). \<not> isBad mp) (mapPoints s);
            mapDescriptors = map (\<lambda>(k, mp). mp_descriptor mp) usable;
            mapPointIdxs = map fst usable
        in if mat_empty mapDescriptors then []
           else
             map (\<lambda>m. \<lparr>queryIdx = mapPointIdxs ! nat (queryIdx m), trainIdx = trainIdx m,
                        distance = distance m\<rparr>)
               (filter (\<lambda>m. distance m < 50) (bf_match env mapDescriptors descs)))"

definition estimatePosePnP ::
  "cv_env \<Rightarrow> Point3f list \<Rightarrow> Point2f list \<Rightarrow> SLAMSystem \<Rightarrow> bool \<times> SLAMSystem" where
  "estimatePosePnP env worldPoints imagePoints s =
     (if length worldPoints < 6 then (False, s)
      else
        case solvePnPRansac env worldPoints imagePoints K distCoeffs of
          (success, rvec, tvec) \<Rightarrow>
            if success then (True, s\<lparr>currentPose := compose_pose (Rodrigues env rvec) tvec\<rparr>)
            else (False, s))"

text \<open>
  The pose update of \<open>track\<close>, from the map matching down to the keyframe test:
  \<open>None\<close> is the early \<open>return false\<close> of the frame-to-frame fallback, \<open>Some s'\<close> the
  state with which the function goes on.
\<close>

definition track_pose ::
  "cv_env \<Rightarrow> KeyPoint list \<Rightarrow> descriptor list \<Rightarrow> SLAMSystem \<Rightarrow> SLAMSystem option" where
  "track_pose env kps descs s =
     (let matches = matchWithMap env descs s
      in if int (length matches) < MIN_TRACKING_MATCHES then
           (let frameMatches = (if \<not> mat_empty (prevDescriptors s)
                                then bf_match env (prevDescriptors s) descs else [])
            in if int (length frameMatches) < MIN_TRACKING_MATCHES then None
               else
                 let pts1 = map (\<lambda>m. pt (prevKeypoints s ! nat (queryIdx m))) frameMatches;
                     pts2 = map (\<lambda>m. pt (kps ! nat (trainIdx m))) frameMatches
                 in case findEssentialMat env pts1 pts2 K of (E, emask) \<Rightarrow>
                      if \<not> mat_empty E then
                        (case recoverPose env E pts1 pts2 K emask of (inliers, R, t) \<Rightarrow>
                           Some (s\<lparr>currentPose := mat_mul (currentPose s) (compose_pose R t),
                                   tracking := True\<rparr>))
                      else Some s)
         else
           (let found = List.map_filter
                          (\<lambda>m. case map_of (mapPoints s) (queryIdx m) of
                                  None \<Rightarrow> None
                                | Some mp \<Rightarrow>
                                    if isBad mp then None
                                    else Some (worldPos mp, pt (kps ! nat (trainIdx m))))
                          matches;
                worldPoints = map fst found;
                imagePoints = map snd found
            in if 6 \<le> length worldPoints then
                 (case estimatePosePnP env worldPoints imagePoints s of
                    (ok, s') \<Rightarrow> Some (s'\<lparr>tracking := ok\<rparr>))
               else Some s))"

text \<open>The two periodic computer-vision passes at the end of \<open>track\<close>.\<close>

definition run_vision :: "cv_env \<Rightarrow> image \<Rightarrow> SLAMSystem \<Rightarrow> SLAMSystem" where
  "run_vision env frame s =
     (let s1 = (if 50 \<le> length (mapPoints s) \<and> frameCount s mod 30 = 0 then
                  let pts = map (\<lambda>(k, mp). worldPos mp)
                              (filter (\<lambda>(k, mp). \<not> isBad mp) (mapPoints s))
                  in s\<lparr>planeDetector :=
                         snd (detectPlanes (plane_rng env (frameCount s)) pts (planeDetector s))\<rparr>
                else s)
      in if 0 < getTargetCount (imageTargetTracker s1) \<and> frameCount s1 mod 5 = 0
         then s1\<lparr>imageTargetTracker := snd (detectTargets env frame K (imageTargetTracker s1))\<rparr>
         else s1)"

definition track :: "cv_env \<Rightarrow> image \<Rightarrow> SLAMSystem \<Rightarrow> bool \<times> SLAMSystem" where
  "track env frame s =
     (case orb_slam env frame of (kps, descs) \<Rightarrow>
      if int (length kps) < MIN_TRACKING_MATCHES
      then (False, say TrackFewFeatures (s\<lparr>tracking := False\<rparr>))
      else
        (case track_pose env kps descs s of
           None \<Rightarrow> (False, say TrackFewMatches (s\<lparr>tracking := False\<rparr>))
         | Some s1 \<Rightarrow>
             let s2 = (if tracking s1 \<and> needNewKeyFrame s1 then createKeyFrame env frame s1
                       else s1);
                 s3 = cache_frame frame kps descs (run_vision env frame s2)
             in (tracking s3, s3)))"

definition processFrame :: "cv_env \<Rightarrow> image \<Rightarrow> SLAMSystem \<Rightarrow> bool \<times> SLAMSystem" where
  "processFrame env frame s =
     (let s1 = s\<lparr>frameCount := frameCount s + 1\<rparr>
      in if \<not> initialized s1 then initialize env frame s1 else track env frame s1)"

text \<open>Frames delivered one after the other, from left to right.\<close>

definition processFrames :: "cv_env \<Rightarrow> image list \<Rightarrow> SLAMSystem \<Rightarrow> SLAMSystem" where
  "processFrames env frames s = fold (\<lambda>frame st. snd (processFrame env frame st)) frames s"

definition getViewMatrix :: "cv_env \<Rightarrow> SLAMSystem \<Rightarrow> mat" where
  "getViewMatrix env s = mat_inv env (currentPose s)"

definition getMapPointCount :: "SLAMSystem \<Rightarrow> int" where
  "getMapPointCount s = int (length (mapPoints s))"

definition getKeyFrameCount :: "SLAMSystem \<Rightarrow> int" where
  "getKeyFrameCount s = int (length (keyframes s))"

section \<open>Bindings (bindings.cpp)\<close>

text \<open>\<open>matToArray\<close>: the outer loop runs over the rows, the inner one over the columns.\<close>

definition matToArray :: "mat \<Rightarrow> real list" where
  "matToArray m =
     concat (map (\<lambda>i. map (\<lambda>j. mat_at m i j) [0..<mat_cols m]) [0..<mat_rows m])"

text \<open>\<open>ARTrackerWrapper::getViewMatrix\<close>, through \<open>ARTracker::getViewMatrix\<close>.\<close>

definition get_view_matrix :: "cv_env \<Rightarrow> SLAMSystem \<Rightarrow> real list" where
  "get_view_matrix env s = matToArray (getViewMatrix env s)"

text \<open>
  The two ways to read a flat array of sixteen numbers as a 4x4 matrix: entry
  \<open>(i, j)\<close> at position \<open>4 i + j\<close> (row-major) or at position \<open>4 j + i\<close> (column-major).
\<close>

definition from_row_major :: "real list \<Rightarrow> mat" where
  "from_row_major a = map (\<lambda>i. map (\<lambda>j. a ! (4 * i + j)) [0..<4]) [0..<4]"

definition from_column_major :: "real list \<Rightarrow> mat" where
  "from_column_major a = map (\<lambda>i. map (\<lambda>j. a ! (4 * j + i)) [0..<4]) [0..<4]"

text \<open>The column-major serialisation of a matrix: column after column.\<close>

definition column_major :: "mat \<Rightarrow> real list" where
  "column_major m =
     concat (map (\<lambda>j. map (\<lambda>i. mat_at m i j) [0..<mat_rows m]) [0..<mat_cols m])"

definition is_mat4 :: "mat \<Rightarrow> bool" where
  "is_mat4 m = (length m = 4 \<and> list_all (\<lambda>r. length r = 4) m)"

text \<open>The entries of a map whose point is flagged bad.\<close>

definition bad_entries :: "(int \<times> MapPoint) list \<Rightarrow> (int \<times> MapPoint) set" where
  "bad_entries mps = {p \<in> set mps. isBad (snd p)}"

section \<open>Concrete inputs\<close>

text \<open>The inputs at which the theorems below are instantiated.\<close>

definition down_ray :: Ray3D where
  "down_ray = \<lparr>ray_ox = 2, ray_oy = 3, ray_oz = 5, ray_dx = 0, ray_dy = - 1, ray_dz = 0\<rparr>"

definition identity16 :: "real list" where
  "identity16 = [1, 0, 0, 0,  0, 1, 0, 0,  0, 0, 1, 0,  0, 0, 0, 1]"

text \<open>Fifty points of the plane \<open>y = 0\<close>, and a random source that always draws the same
  three of them.\<close>

definition flat_points :: "Point3f list" where
  "flat_points = replicate 48 (Point3f 0 0 0) @ [Point3f 1 0 0, Point3f 0 0 1]"

definition fixed_draw :: "nat \<Rightarrow> nat \<Rightarrow> nat \<times> nat \<times> nat" where
  "fixed_draw planeCount iter = (0, 48, 49)"

text \<open>A detector holding one horizontal plane.\<close>

definition floor_plane :: DetectedPlane where
  "floor_plane =
     \<lparr>plane_id = 0, center = Point3f 0 0 0, normal = Point3f 0 1 0, width = 2, height = 1,
      corners = [], isHorizontal = True, confidence = 0.8\<rparr>"

definition floor_detector :: PlaneDetector where
  "floor_detector = \<lparr>planes = [floor_plane], nextPlaneId = 1\<rparr>"

text \<open>The plane that a detection over \<open>flat_points\<close> builds in its first round when the
  detector is \<open>floor_detector\<close>.\<close>

definition flat_plane :: DetectedPlane where
  "flat_plane = new_plane floor_detector 50 flat_points (Point3f 0 1 0) [0..<50]"

text \<open>
  An environment in which every target is found: each descriptor has a nearest
  neighbour at distance 10 and a second one at distance 100, the homography is the
  identity with every correspondence an inlier, and PnP succeeds.
\<close>

definition demo_keypoint :: KeyPoint where
  "demo_keypoint = \<lparr>pt = Point2f 0 0\<rparr>"

definition demo_env :: cv_env where
  "demo_env =
     \<lparr>orb_slam = (\<lambda>img. (replicate 100 demo_keypoint, replicate 100 [0])),
      orb_target = (\<lambda>img. (replicate 15 demo_keypoint, replicate 15 [0])),
      bf_match = (\<lambda>q t. replicate 100 \<lparr>queryIdx = 0, trainIdx = 0, distance = 10\<rparr>),
      bf_knnMatch = (\<lambda>q t k. replicate (length q)
                       [\<lparr>queryIdx = 0, trainIdx = 0, distance = 10\<rparr>,
                        \<lparr>queryIdx = 0, trainIdx = 1, distance = 100\<rparr>]),
      findEssentialMat = (\<lambda>p1 p2 k. ([], [])),
      recoverPose = (\<lambda>e p1 p2 k m. (0, mat_eye 3, [[0], [0], [0]])),
      triangulatePoints = (\<lambda>p1 p2 a b. [[0], [0], [0], [1]]),
      solvePnPRansac = (\<lambda>obj img k dc. (True, [[0], [0], [0]], [[0], [0], [1]])),
      Rodrigues = (\<lambda>rvec. mat_eye 3),
      findHomography = (\<lambda>src dst method thr. (mat_eye 3, replicate (length src) 1)),
      perspectiveTransform = (\<lambda>pts h. pts),
      isContourConvex = (\<lambda>pts. True),
      mat_inv = (\<lambda>m. m),
      plane_rng = (\<lambda>frame. fixed_draw)\<rparr>"

definition demo_target :: ImageTarget where
  "demo_target =
     \<lparr>target_id = 0, target_name = ''marker'', target_image = [[0, 0], [0, 0]],
      target_keypoints = replicate 15 demo_keypoint,
      target_descriptors = replicate 15 [0], widthMeters = 0.2, heightMeters = 0.2\<rparr>"

definition demo_tracker :: ImageTargetTracker where
  "demo_tracker = \<lparr>targets = [demo_target], detectedTargets = [], nextTargetId = 1\<rparr>"

definition demo_frame :: image where
  "demo_frame = [[0, 0], [0, 0]]"

definition demo_detection :: DetectedTarget where
  "demo_detection =
     \<lparr>targetId = 0, detected_name = ''marker'',
      detected_pose = compose_pose (mat_eye 3) [[0], [0], [1]],
      detected_corners = [Point2f 0 0, Point2f 2 0, Point2f 2 2, Point2f 0 2],
      detected_confidence = 1, isTracking = True\<rparr>"

text \<open>
  A camera moved by \<open>(1, 2, 3)\<close> without rotation, and an environment whose matrix
  inverse is exact on such pure translations.
\<close>

definition negate_translation :: "mat \<Rightarrow> mat" where
  "negate_translation m =
     [[mat_at m 0 0, mat_at m 0 1, mat_at m 0 2, - mat_at m 0 3],
      [mat_at m 1 0, mat_at m 1 1, mat_at m 1 2, - mat_at m 1 3],
      [mat_at m 2 0, mat_at m 2 1, mat_at m 2 2, - mat_at m 2 3],
      [mat_at m 3 0, mat_at m 3 1, mat_at m 3 2, mat_at m 3 3]]"

definition shift_env :: cv_env where
  "shift_env = demo_env\<lparr>mat_inv := negate_translation\<rparr>"

definition shift_pose :: mat where
  "shift_pose = [[1, 0, 0, 1], [0, 1, 0, 2], [0, 0, 1, 3], [0, 0, 0, 1]]"

definition shift_state :: SLAMSystem where
  "shift_state = SLAMSystem_new\<lparr>currentPose := shift_pose\<rparr>"

text \<open>
  A tracking system with one map point, and an environment whose feature extractor
  finds nothing (a blank frame).
\<close>

definition blind_env :: cv_env where
  "blind_env = demo_env\<lparr>orb_slam := (\<lambda>img. ([], []))\<rparr>"

definition lone_point :: MapPoint where
  "lone_point = addObservation 1 (addObservation 0 (MapPoint_new 0 (Point3f 0 0 1) [0]))"

definition mapped_state :: SLAMSystem where
  "mapped_state =
     SLAMSystem_new\<lparr>mapPoints := [(0, lone_point)], nextMapPointId := 1,
                     initialized := True, tracking := True, frameCount := 7\<rparr>"

text \<open>
  A system waiting for its second view, with the first frame cached, and a second
  frame.  In \<open>demo_env\<close> the second frame yields 100 features and 100 matches at
  distance 10, and \<open>findEssentialMat\<close> returns an empty matrix.
\<close>

definition second_frame :: image where
  "second_frame = [[1, 1], [1, 1]]"

definition waiting_state :: SLAMSystem where
  "waiting_state =
     SLAMSystem_new\<lparr>prevFrame := demo_frame, prevKeypoints := replicate 100 demo_keypoint,
                     prevDescriptors := replicate 100 [1], frameCount := 1\<rparr>"

text \<open>
  A tracking system with an empty map and one keyframe at the origin, fourteen frames
  in; and an environment whose frame-to-frame fallback recovers a unit step along x.
\<close>

definition moving_env :: cv_env where
  "moving_env =
     demo_env\<lparr>findEssentialMat := (\<lambda>p1 p2 k. (mat_eye 3, [])),
               recoverPose := (\<lambda>e p1 p2 k m. (100, mat_eye 3, [[1], [0], [0]]))\<rparr>"

definition tracking_state :: SLAMSystem where
  "tracking_state =
     SLAMSystem_new\<lparr>keyframes := [KeyFrame_new 0 demo_frame (mat_eye 4) [] []],
                     nextKeyFrameId := 1, prevFrame := demo_frame,
                     prevKeypoints := replicate 100 demo_keypoint,
                     prevDescriptors := replicate 100 [1],
                     initialized := True, tracking := True, frameCount := 14\<rparr>"

text \<open>
  Two keyframes with one keypoint each and one match between them.  In \<open>pair_env\<close> the
  pair triangulates to the homogeneous point \<open>(0, 0, 0, 1)\<close>, whose depth is exactly
  zero; in \<open>depth_env\<close> it triangulates to \<open>(2, 4, 6, 2)\<close>, the point \<open>(1, 2, 3)\<close>.
  The left keyframe has the identity pose: its camera frame is the world frame.
\<close>

definition close_match :: DMatch where
  "close_match = \<lparr>queryIdx = 0, trainIdx = 0, distance = 10\<rparr>"

definition pair_env :: cv_env where
  "pair_env = demo_env\<lparr>bf_match := (\<lambda>q t. [close_match])\<rparr>"

definition depth_env :: cv_env where
  "depth_env = pair_env\<lparr>triangulatePoints := (\<lambda>p1 p2 a b. [[2], [4], [6], [2]])\<rparr>"

definition left_keyframe :: KeyFrame where
  "left_keyframe = KeyFrame_new 0 demo_frame (mat_eye 4) [demo_keypoint] [[1]]"

definition right_keyframe :: KeyFrame where
  "right_keyframe = KeyFrame_new 1 second_frame (mat_eye 4) [demo_keypoint] [[1]]"

definition pair_state :: SLAMSystem where
  "pair_state = SLAMSystem_new\<lparr>keyframes := [left_keyframe, right_keyframe]\<rparr>"

text \<open>
  A camera that has turned by half a turn about its vertical axis since the first view,
  and a second view one unit beside it.  The world point \<open>(0, 0, 5)\<close> projects to the
  pixel \<open>(320, 240)\<close> of the first and to the pixel \<open>(220, 240)\<close> of the second view, and
  lies five units behind both cameras.
\<close>

definition turned_pose :: mat where
  "turned_pose = [[- 1, 0, 0, 0], [0, 1, 0, 0], [0, 0, - 1, 0], [0, 0, 0, 1]]"

definition beside_pose :: mat where
  "beside_pose = [[- 1, 0, 0, 1], [0, 1, 0, 0], [0, 0, - 1, 0], [0, 0, 0, 1]]"

definition turned_keyframe :: KeyFrame where
  "turned_keyframe = KeyFrame_new 0 demo_frame turned_pose [\<lparr>pt = Point2f 320 240\<rparr>] [[1]]"

definition beside_keyframe :: KeyFrame where
  "beside_keyframe = KeyFrame_new 1 second_frame beside_pose [\<lparr>pt = Point2f 220 240\<rparr>] [[1]]"

definition turned_env :: cv_env where
  "turned_env = pair_env\<lparr>triangulatePoints := (\<lambda>p1 p2 a b. [[0], [0], [5], [1]])\<rparr>"

definition turned_state :: SLAMSystem where
  "turned_state = SLAMSystem_new\<lparr>keyframes := [turned_keyframe, beside_keyframe]\<rparr>"

text \<open>
  Eleven keyframes \<open>KF\<^sub>0 \<dots> KF\<^sub>1\<^sub>0\<close>, keyframe \<open>i\<close> with the single descriptor \<open>[i]\<close>, and a
  matcher that finds 51 close matches when the query is the descriptor set of \<open>KF\<^sub>5\<close>
  and none otherwise.
\<close>

definition numbered_keyframe :: "nat \<Rightarrow> KeyFrame" where
  "numbered_keyframe i = KeyFrame_new (int i) demo_frame (mat_eye 4) [demo_keypoint] [[i]]"

definition loop_env :: cv_env where
  "loop_env =
     demo_env\<lparr>bf_match := (\<lambda>q t. if q = [[5]]
                                  then replicate 51 \<lparr>queryIdx = 0, trainIdx = 0, distance = 10\<rparr>
                                  else [])\<rparr>"

definition loop_state :: SLAMSystem where
  "loop_state =
     SLAMSystem_new\<lparr>keyframes := map numbered_keyframe [0..<11], nextKeyFrameId := 11,
                     initialized := True, tracking := True, frameCount := 150\<rparr>"

section \<open>Verified properties\<close>

subsection \<open>Auxiliary facts\<close>

lemma upt_0_4: "[0..<4] = [0, 1, 2, Suc 2]"
  by code_simp

lemma map_filter_member:
  "y \<in> set (List.map_filter f xs) \<longleftrightarrow> (\<exists>x \<in> set xs. f x = Some y)"
  by (induction xs) (auto split: option.splits)

lemma mat_cols_replicate: "0 < n \<Longrightarrow> mat_cols (replicate n r) = length r"
  by (cases n) (simp_all add: mat_cols_def)

subsection \<open>Which parts of the SLAM state each step leaves alone\<close>

lemma say_fields [simp]:
  "mapPoints (say msg s) = mapPoints s" "keyframes (say msg s) = keyframes s"
  "currentPose (say msg s) = currentPose s" "tracking (say msg s) = tracking s"
  "initialized (say msg s) = initialized s" "frameCount (say msg s) = frameCount s"
  "prevFrame (say msg s) = prevFrame s" "prevKeypoints (say msg s) = prevKeypoints s"
  "prevDescriptors (say msg s) = prevDescriptors s"
  "console (say msg s) = console s @ [msg]"
  by (simp_all add: say_def)

lemma cache_frame_fields [simp]:
  "mapPoints (cache_frame f k d s) = mapPoints s" "keyframes (cache_frame f k d s) = keyframes s"
  "currentPose (cache_frame f k d s) = currentPose s" "tracking (cache_frame f k d s) = tracking s"
  "initialized (cache_frame f k d s) = initialized s"
  "frameCount (cache_frame f k d s) = frameCount s"
  "prevFrame (cache_frame f k d s) = f" "prevKeypoints (cache_frame f k d s) = k"
  "prevDescriptors (cache_frame f k d s) = d"
  "console (cache_frame f k d s) = console s"
  by (simp_all add: cache_frame_def)

lemma run_vision_fields [simp]:
  "mapPoints (run_vision env frame s) = mapPoints s"
  "keyframes (run_vision env frame s) = keyframes s"
  "currentPose (run_vision env frame s) = currentPose s"
  "tracking (run_vision env frame s) = tracking s"
  "initialized (run_vision env frame s) = initialized s"
  "frameCount (run_vision env frame s) = frameCount s"
  "console (run_vision env frame s) = console s"
  by (simp_all add: run_vision_def Let_def)

lemma estimatePosePnP_fields:
  assumes "estimatePosePnP env wp ip s = (ok, s')"
  shows "mapPoints s' = mapPoints s \<and> keyframes s' = keyframes s \<and>
         frameCount s' = frameCount s \<and> initialized s' = initialized s \<and>
         console s' = console s"
  using assms by (auto simp: estimatePosePnP_def split: if_splits prod.splits)

lemma track_pose_fields:
  assumes "track_pose env kps descs s = Some s1"
  shows "mapPoints s1 = mapPoints s" "keyframes s1 = keyframes s"
    "frameCount s1 = frameCount s" "initialized s1 = initialized s" "console s1 = console s"
proof -
  have "mapPoints s1 = mapPoints s \<and> keyframes s1 = keyframes s \<and>
        frameCount s1 = frameCount s \<and> initialized s1 = initialized s \<and>
        console s1 = console s"
    using assms
    by (auto simp: track_pose_def Let_def split: if_splits prod.splits
             dest!: estimatePosePnP_fields)
  then show "mapPoints s1 = mapPoints s" "keyframes s1 = keyframes s"
    "frameCount s1 = frameCount s" "initialized s1 = initialized s" "console s1 = console s"
    by simp_all
qed

lemma localBundleAdjustment_fields [simp]:
  "mapPoints (localBundleAdjustment s) = mapPoints s"
  "keyframes (localBundleAdjustment s) = keyframes s"
  "currentPose (localBundleAdjustment s) = currentPose s"
  "tracking (localBundleAdjustment s) = tracking s"
  "frameCount (localBundleAdjustment s) = frameCount s"
  by (simp_all add: localBundleAdjustment_def)

lemma detectLoopClosure_fields [simp]:
  "mapPoints (snd (detectLoopClosure env cur s)) = mapPoints s"
  "keyframes (snd (detectLoopClosure env cur s)) = keyframes s"
  "currentPose (snd (detectLoopClosure env cur s)) = currentPose s"
  "tracking (snd (detectLoopClosure env cur s)) = tracking s"
  "frameCount (snd (detectLoopClosure env cur s)) = frameCount s"
  by (simp_all add: detectLoopClosure_def Let_def split: prod.splits)

lemma triangulateNewPoints_fields [simp]:
  "currentPose (triangulateNewPoints env i j s) = currentPose s"
  "tracking (triangulateNewPoints env i j s) = tracking s"
  "frameCount (triangulateNewPoints env i j s) = frameCount s"
  "initialized (triangulateNewPoints env i j s) = initialized s"
  "console (triangulateNewPoints env i j s) = console s"
  "length (keyframes (triangulateNewPoints env i j s)) = length (keyframes s)"
  by (simp_all add: triangulateNewPoints_def Let_def split: prod.splits)

lemma createKeyFrame_fields [simp]:
  "currentPose (createKeyFrame env frame s) = currentPose s"
  "tracking (createKeyFrame env frame s) = tracking s"
  "frameCount (createKeyFrame env frame s) = frameCount s"
  "length (keyframes (createKeyFrame env frame s)) = Suc (length (keyframes s))"
  by (simp_all add: createKeyFrame_def Let_def)

subsection \<open>Plane detector\<close>

lemma norm3_normalised: "norm3 v \<noteq> 0 \<Longrightarrow> norm3 (p3_div v (norm3 v)) = 1"
proof (cases v)
  case (Point3f a b c)
  assume nz: "norm3 v \<noteq> 0"
  let ?q = "a * a + b * b + c * c"
  have q0: "0 \<le> ?q" by simp
  have qnz: "?q \<noteq> 0" using nz Point3f by auto
  have "(a / sqrt ?q) * (a / sqrt ?q) + (b / sqrt ?q) * (b / sqrt ?q) + (c / sqrt ?q) * (c / sqrt ?q)
        = ?q / (sqrt ?q * sqrt ?q)"
    using q0 by (simp add: add_divide_distrib [symmetric])
  also have "\<dots> = 1" using q0 qnz by simp
  finally show ?thesis using Point3f by simp
qed

lemma norm3_neg: "norm3 (p3_neg v) = norm3 v"
  by (cases v) simp

text \<open>The RANSAC accumulator holds a unit normal as soon as its inlier count is positive.\<close>

lemma ransac_iteration_unit:
  assumes "fst acc = 0 \<or> norm3 (fst (snd acc)) = 1"
  shows "fst (ransac_iteration points draw acc) = 0 \<or>
         norm3 (fst (snd (ransac_iteration points draw acc))) = 1"
  using assms
  by (auto simp: ransac_iteration_def Let_def norm3_normalised split: prod.splits)

lemma ransac_fold_unit:
  "fst acc = 0 \<or> norm3 (fst (snd acc)) = 1 \<Longrightarrow>
   fst (fold (\<lambda>iter. ransac_iteration points (f iter)) its acc) = 0 \<or>
   norm3 (fst (snd (fold (\<lambda>iter. ransac_iteration points (f iter)) its acc))) = 1"
proof (induction its arbitrary: acc)
  case Nil
  then show ?case by simp
next
  case (Cons i its)
  have "fst (ransac_iteration points (f i) acc) = 0 \<or>
        norm3 (fst (snd (ransac_iteration points (f i) acc))) = 1"
    using Cons.prems by (rule ransac_iteration_unit)
  then show ?case using Cons.IH by simp
qed

lemma fitPlaneRANSAC_normal:
  assumes "fitPlaneRANSAC gen points = Some (n, d, inliers)"
  shows "norm3 n = 1 \<and> 0 \<le> py n"
proof -
  let ?r = "fold (\<lambda>iter. ransac_iteration points (dis (length points) (gen iter)))
               [0..<RANSAC_ITERATIONS] (0, Point3f 0 0 0, 0, [])"
  have u: "fst ?r = 0 \<or> norm3 (fst (snd ?r)) = 1"
    by (rule ransac_fold_unit) simp
  obtain cnt bn bd inl where r: "?r = (cnt, bn, bd, inl)" by (cases ?r) auto
  from assms r have big: "\<not> cnt < MIN_PLANE_POINTS"
    by (auto simp: fitPlaneRANSAC_def split: if_splits)
  then have "cnt \<noteq> 0" by (simp add: MIN_PLANE_POINTS_def)
  with u r have un: "norm3 bn = 1" by simp
  from assms r big have "n = (if py bn < 0 then p3_neg bn else bn)"
    by (auto simp: fitPlaneRANSAC_def split: if_splits)
  then show ?thesis using un by (cases bn) (auto simp: norm3_neg)
qed

lemma computePlaneBounds_normal: "normal (computePlaneBounds pts n plane) = normal plane"
  by (simp add: computePlaneBounds_def Let_def)

lemma new_plane_normal: "normal (new_plane st totalCount remaining n inliers) = n"
  by (simp add: new_plane_def Let_def computePlaneBounds_normal)

lemma mergePlanes_normals:
  "map normal (planes (mergePlanes i np st)) = map normal (planes st)"
proof (cases "i < length (planes st)")
  case True
  then show ?thesis
    by (auto simp: mergePlanes_def Let_def list_eq_iff_nth_eq nth_list_update)
next
  case False
  then have "length (planes st) \<le> i" by simp
  then show ?thesis by (simp add: mergePlanes_def Let_def list_update_beyond)
qed

lemma mergePlanes_length: "length (planes (mergePlanes i np st)) = length (planes st)"
  by (simp add: mergePlanes_def Let_def)

lemma all_normal_ok_map:
  "(\<forall>p \<in> set ps. normal_ok p) \<longleftrightarrow>
   (\<forall>n \<in> set (map normal ps). 0 \<le> py n \<and> \<bar>norm3 n - 1\<bar> \<le> 0.0001)"
  by (auto simp: normal_ok_def)

lemma place_plane_normals:
  assumes "\<forall>p \<in> set (planes st). normal_ok p" and "normal_ok plane"
  shows "\<forall>p \<in> set (planes (place_plane plane st)). normal_ok p"
proof (cases "0 \<le> findMergeablePlane st plane")
  case True
  then have "map normal (planes (place_plane plane st)) = map normal (planes st)"
    by (simp add: place_plane_def Let_def mergePlanes_normals)
  then show ?thesis using assms(1) by (simp only: all_normal_ok_map)
next
  case False
  then show ?thesis using assms by (simp add: place_plane_def Let_def)
qed

lemma place_plane_length:
  "length (planes st) \<le> length (planes (place_plane plane st))"
  by (simp add: place_plane_def Let_def mergePlanes_length)

text \<open>An invariant of the detector state passes through the loop of \<open>detectPlanes\<close>
  when every round preserves it.\<close>

lemma detectPlanes_loop_invariant:
  assumes init: "I st"
    and step: "\<And>st k remaining n d inliers.
       I st \<Longrightarrow> fitPlaneRANSAC (rng k) remaining = Some (n, d, inliers) \<Longrightarrow>
       I (place_plane (new_plane st totalCount remaining n inliers)
            (st\<lparr>nextPlaneId := nextPlaneId st + 1\<rparr>))"
  shows "I (detectPlanes_loop rng totalCount planeCount st remaining)"
  using assms
proof (induction rng totalCount planeCount st remaining rule: detectPlanes_loop.induct)
  case (1 rng totalCount planeCount st remainingPoints)
  show ?case
  proof (cases "planeCount < 3 \<and> MIN_PLANE_POINTS \<le> length remainingPoints")
    case False
    then have "detectPlanes_loop rng totalCount planeCount st remainingPoints = st"
      by (subst detectPlanes_loop.simps) auto
    then show ?thesis using "1.prems"(1) by simp
  next
    case guard: True
    show ?thesis
    proof (cases "fitPlaneRANSAC (rng planeCount) remainingPoints")
      case None
      then have "detectPlanes_loop rng totalCount planeCount st remainingPoints = st"
        using guard by (subst detectPlanes_loop.simps) auto
      then show ?thesis using "1.prems"(1) by simp
    next
      case (Some r)
      obtain n d inliers where r: "r = (n, d, inliers)" by (cases r) auto
      show ?thesis
      proof (cases "length inliers < MIN_PLANE_POINTS")
        case True
        then have "detectPlanes_loop rng totalCount planeCount st remainingPoints = st"
          using guard Some r by (subst detectPlanes_loop.simps) auto
        then show ?thesis using "1.prems"(1) by simp
      next
        case enough: False
        let ?st2 = "place_plane (new_plane st totalCount remainingPoints n inliers)
                      (st\<lparr>nextPlaneId := nextPlaneId st + 1\<rparr>)"
        have "I ?st2" using "1.prems"(1) Some r by (auto intro: "1.prems"(2))
        then have "I (detectPlanes_loop rng totalCount (planeCount + 1) ?st2
                    (erase_inliers inliers remainingPoints))"
          using "1.IH" [OF guard Some r [symmetric] refl enough] "1.prems"(2) by blast
        moreover have "detectPlanes_loop rng totalCount planeCount st remainingPoints =
            detectPlanes_loop rng totalCount (planeCount + 1) ?st2
                    (erase_inliers inliers remainingPoints)"
          using guard Some r enough
          by (subst detectPlanes_loop.simps) simp
        ultimately show ?thesis by simp
      qed
    qed
  qed
qed


lemma detectPlanes_loop_normals:
  assumes "\<forall>p \<in> set (planes st). normal_ok p"
  shows "\<forall>p \<in> set (planes (detectPlanes_loop rng totalCount planeCount st remaining)).
           normal_ok p"
proof (rule detectPlanes_loop_invariant [where I = "\<lambda>s. \<forall>p \<in> set (planes s). normal_ok p"])
  show "\<forall>p \<in> set (planes st). normal_ok p" by (rule assms)
next
  fix s :: PlaneDetector and k remaining' n d inliers
  assume ok: "\<forall>p \<in> set (planes s). normal_ok p"
    and fit: "fitPlaneRANSAC (rng k) remaining' = Some (n, d, inliers)"
  have "norm3 n = 1 \<and> 0 \<le> py n" using fit by (rule fitPlaneRANSAC_normal)
  then have fresh: "normal_ok (new_plane s totalCount remaining' n inliers)"
    by (simp add: normal_ok_def new_plane_normal)
  have "\<forall>p \<in> set (planes (s\<lparr>nextPlaneId := nextPlaneId s + 1\<rparr>)). normal_ok p"
    using ok by simp
  then show "\<forall>p \<in> set (planes (place_plane (new_plane s totalCount remaining' n inliers)
                      (s\<lparr>nextPlaneId := nextPlaneId s + 1\<rparr>))). normal_ok p"
    using fresh by (rule place_plane_normals)
qed

lemma detectPlanes_loop_length:
  "length (planes st) \<le> length (planes (detectPlanes_loop rng totalCount planeCount st remaining))"
proof (rule detectPlanes_loop_invariant
         [where I = "\<lambda>s. length (planes st) \<le> length (planes s)"])
  show "length (planes st) \<le> length (planes st)" by simp
next
  fix s :: PlaneDetector and k remaining' n d inliers
  assume "length (planes st) \<le> length (planes s)"
  moreover have "length (planes (s\<lparr>nextPlaneId := nextPlaneId s + 1\<rparr>))
                 \<le> length (planes (place_plane (new_plane s totalCount remaining' n inliers)
                      (s\<lparr>nextPlaneId := nextPlaneId s + 1\<rparr>)))"
    by (rule place_plane_length)
  ultimately show "length (planes st)
                 \<le> length (planes (place_plane (new_plane s totalCount remaining' n inliers)
                      (s\<lparr>nextPlaneId := nextPlaneId s + 1\<rparr>)))"
    by simp
qed

lemma detectPlanes_normals:
  "\<forall>p \<in> set (planes st). normal_ok p \<Longrightarrow>
   \<forall>p \<in> set (planes (snd (detectPlanes rng pts st))). normal_ok p"
  by (simp add: detectPlanes_def Let_def detectPlanes_loop_normals)

lemma detect_calls_normals:
  "\<forall>p \<in> set (planes st). normal_ok p \<Longrightarrow>
   \<forall>p \<in> set (planes (detect_calls calls st)). normal_ok p"
proof (induction calls arbitrary: st)
  case Nil
  then show ?case by (simp add: detect_calls_def)
next
  case (Cons c calls)
  obtain rng pts where c: "c = (rng, pts)" by (cases c) auto
  have "\<forall>p \<in> set (planes (snd (detectPlanes rng pts st))). normal_ok p"
    using Cons.prems by (rule detectPlanes_normals)
  then have "\<forall>p \<in> set (planes (detect_calls calls (snd (detectPlanes rng pts st)))). normal_ok p"
    by (rule Cons.IH)
  then show ?case by (simp add: detect_calls_def c)
qed

text \<open>
  C5.  Whatever sequence of detection calls a fresh plane detector has gone through
  (each call may append planes or merge into existing ones), every plane in the list it
  returns has a normal with non-negative y component and Euclidean norm within 1e-4
  of one.
\<close>

theorem plane_normals_unit_upward:
  "\<forall>p \<in> set (getDetectedPlanes (detect_calls calls PlaneDetector_new)).
     0 \<le> py (normal p) \<and> \<bar>norm3 (normal p) - 1\<bar> \<le> 0.0001"
proof -
  have "\<forall>p \<in> set (planes (detect_calls calls PlaneDetector_new)). normal_ok p"
    by (rule detect_calls_normals) (simp add: PlaneDetector_new_def)
  then show ?thesis by (simp add: getDetectedPlanes_def normal_ok_def)
qed

lemma flat_points_length: "length flat_points = 50"
  by (simp add: flat_points_def)

lemma flat_points_nth:
  "flat_points ! 0 = Point3f 0 0 0" "flat_points ! 48 = Point3f 1 0 0"
  "flat_points ! 49 = Point3f 0 0 1"
  by (simp_all add: flat_points_def nth_append)

lemma flat_points_level: "i < 50 \<Longrightarrow> py (flat_points ! i) = 0"
proof -
  assume "i < 50"
  then have "flat_points ! i \<in> set flat_points" by (simp add: flat_points_length)
  then show ?thesis by (auto simp: flat_points_def)
qed

lemma filter_upt_all: "(\<And>i. i < n \<Longrightarrow> P i) \<Longrightarrow> filter P [0..<n] = [0..<n]"
  by (simp add: filter_id_conv)

lemma flat_inliers:
  "filter (\<lambda>i. \<bar>dot3 (Point3f 0 (- 1) 0) (flat_points ! i) + 0\<bar> < RANSAC_THRESHOLD) [0..<50]
     = [0..<50]"
proof (rule filter_upt_all)
  fix i :: nat assume "i < 50"
  then have "py (flat_points ! i) = 0" by (rule flat_points_level)
  then show "\<bar>dot3 (Point3f 0 (- 1) 0) (flat_points ! i) + 0\<bar> < RANSAC_THRESHOLD"
    by (cases "flat_points ! i") (simp add: RANSAC_THRESHOLD_def)
qed

lemma flat_iteration:
  "ransac_iteration flat_points (0, 48, 49) (cnt, n, d, inl) =
     (if cnt < 50 then (50, Point3f 0 (- 1) 0, 0, [0..<50]) else (cnt, n, d, inl))"
  using flat_inliers
  by (simp add: ransac_iteration_def flat_points_nth flat_points_length Let_def)

lemma fold_constant_step:
  "(\<And>a. f (f a) = f a) \<Longrightarrow> xs \<noteq> [] \<Longrightarrow> fold (\<lambda>i. f) xs a = f a"
proof (induction xs arbitrary: a)
  case Nil
  then show ?case by simp
next
  case (Cons x xs)
  then show ?case by (cases xs) simp_all
qed

lemma flat_fit:
  "fitPlaneRANSAC (fixed_draw k) flat_points = Some (Point3f 0 1 0, 0, [0..<50])"
proof -
  let ?f = "ransac_iteration flat_points (0, 48, 49)"
  have idem: "\<And>a. ?f (?f a) = ?f a"
  proof -
    fix a :: "nat \<times> Point3f \<times> real \<times> nat list"
    obtain cnt n d inl where a: "a = (cnt, n, d, inl)" by (cases a) auto
    show "?f (?f a) = ?f a" by (simp add: a flat_iteration)
  qed
  have ne: "[0..<RANSAC_ITERATIONS] \<noteq> []" by (simp add: RANSAC_ITERATIONS_def)
  have "fold (\<lambda>iter. ?f) [0..<RANSAC_ITERATIONS] (0, Point3f 0 0 0, 0, [])
          = ?f (0, Point3f 0 0 0, 0, [])"
    using idem ne by (rule fold_constant_step)
  also have "\<dots> = (50, Point3f 0 (- 1) 0, 0, [0..<50])" by (simp add: flat_iteration)
  finally show ?thesis
    by (simp add: fitPlaneRANSAC_def flat_points_length dis_def fixed_draw_def
          MIN_PLANE_POINTS_def)
qed

lemma flat_detection:
  "planes (snd (detectPlanes fixed_draw flat_points PlaneDetector_new)) \<noteq> []"
proof -
  let ?st2 = "place_plane (new_plane PlaneDetector_new 50 flat_points (Point3f 0 1 0) [0..<50])
                (PlaneDetector_new\<lparr>nextPlaneId := nextPlaneId PlaneDetector_new + 1\<rparr>)"
  have step: "detectPlanes_loop fixed_draw 50 0 PlaneDetector_new flat_points =
      detectPlanes_loop fixed_draw 50 (0 + 1) ?st2 (erase_inliers [0..<50] flat_points)"
    by (subst detectPlanes_loop.simps)
       (simp add: flat_fit flat_points_length MIN_PLANE_POINTS_def)
  have "planes ?st2 \<noteq> []"
    by (simp add: place_plane_def Let_def findMergeablePlane_def PlaneDetector_new_def)
  then have "0 < length (planes ?st2)" by simp
  also have "\<dots> \<le> length (planes (detectPlanes_loop fixed_draw 50 (0 + 1) ?st2
                      (erase_inliers [0..<50] flat_points)))"
    by (rule detectPlanes_loop_length)
  finally have "planes (detectPlanes_loop fixed_draw 50 0 PlaneDetector_new flat_points) \<noteq> []"
    using step by simp
  then show ?thesis
    by (simp add: detectPlanes_def Let_def flat_points_length MIN_PLANE_POINTS_def)
qed

theorem plane_normals_unit_upward_witness:
  "getDetectedPlanes (detect_calls [(fixed_draw, flat_points)] PlaneDetector_new) \<noteq> [] \<and>
   0 \<le> py (normal (hd (getDetectedPlanes
                           (detect_calls [(fixed_draw, flat_points)] PlaneDetector_new)))) \<and>
   \<bar>norm3 (normal (hd (getDetectedPlanes
                         (detect_calls [(fixed_draw, flat_points)] PlaneDetector_new)))) - 1\<bar>
     \<le> 0.0001"
proof -
  let ?ps = "getDetectedPlanes (detect_calls [(fixed_draw, flat_points)] PlaneDetector_new)"
  have ne: "?ps \<noteq> []"
    using flat_detection by (simp add: getDetectedPlanes_def detect_calls_def)
  then have "hd ?ps \<in> set ?ps" by simp
  then show ?thesis
    using plane_normals_unit_upward [of "[(fixed_draw, flat_points)]"] ne by blast
qed

subsection \<open>Merge policy\<close>

lemma mergeable_iff:
  "mergeable p np \<longleftrightarrow>
     isHorizontal p = isHorizontal np \<and> 0.95 \<le> \<bar>dot3 (normal p) (normal np)\<bar> \<and>
     norm3 (p3_sub (center p) (center np)) < 0.1"
  by (auto simp: mergeable_def MERGE_DISTANCE_def)

lemma findMergeable_from_found:
  "0 \<le> findMergeable_from i ps np \<longleftrightarrow> (\<exists>p \<in> set ps. mergeable p np)"
  by (induction ps arbitrary: i) auto

lemma findMergeable_from_first:
  "0 \<le> findMergeable_from i ps np \<Longrightarrow>
   int i \<le> findMergeable_from i ps np \<and>
   nat (findMergeable_from i ps np) - i < length ps \<and>
   mergeable (ps ! (nat (findMergeable_from i ps np) - i)) np \<and>
   (\<forall>j < nat (findMergeable_from i ps np) - i. \<not> mergeable (ps ! j) np)"
proof (induction ps arbitrary: i)
  case Nil
  then show ?case by simp
next
  case (Cons p ps)
  show ?case
  proof (cases "mergeable p np")
    case True
    then show ?thesis by simp
  next
    case False
    then have rest: "0 \<le> findMergeable_from (Suc i) ps np" using Cons.prems by simp
    let ?r = "findMergeable_from (Suc i) ps np"
    from Cons.IH [OF rest] have ih:
      "int (Suc i) \<le> ?r" "nat ?r - Suc i < length ps"
      "mergeable (ps ! (nat ?r - Suc i)) np"
      "\<forall>j < nat ?r - Suc i. \<not> mergeable (ps ! j) np"
      by blast+
    have pos: "nat ?r - i = Suc (nat ?r - Suc i)" using ih(1) by linarith
    have "\<forall>j < nat ?r - i. \<not> mergeable ((p # ps) ! j) np"
    proof (intro allI impI)
      fix j assume "j < nat ?r - i"
      then show "\<not> mergeable ((p # ps) ! j) np"
        using False ih(4) pos by (cases j) auto
    qed
    then show ?thesis using False ih pos by simp
  qed
qed

text \<open>The merge attempt of a round, spelled out for the two outcomes of the search.\<close>

lemma place_plane_merged:
  "0 \<le> findMergeablePlane st np \<Longrightarrow>
   place_plane np st =
     (mergePlanes (nat (findMergeablePlane st np)) np st)\<lparr>nextPlaneId := nextPlaneId st - 1\<rparr>"
  by (simp add: place_plane_def Let_def)

lemma place_plane_appended:
  "\<not> 0 \<le> findMergeablePlane st np \<Longrightarrow> place_plane np st = st\<lparr>planes := planes st @ [np]\<rparr>"
  by (simp add: place_plane_def Let_def)

lemma detectPlanes_loop_round:
  assumes "planeCount < 3" and "MIN_PLANE_POINTS \<le> length pts"
    and "fitPlaneRANSAC (rng planeCount) pts = Some (n, d, inliers)"
    and "MIN_PLANE_POINTS \<le> length inliers"
  shows "detectPlanes_loop rng totalCount planeCount det pts =
         detectPlanes_loop rng totalCount (planeCount + 1)
           (place_plane (new_plane det totalCount pts n inliers)
              (det\<lparr>nextPlaneId := nextPlaneId det + 1\<rparr>))
           (erase_inliers inliers pts)"
  using assms by (subst detectPlanes_loop.simps) simp

text \<open>The detection used below: the fifty points of \<open>flat_points\<close>, seen by a detector that
  already holds \<open>floor_plane\<close>.\<close>

lemma flat_inlier_points: "map (\<lambda>idx. flat_points ! idx) [0..<50] = flat_points"
proof -
  have "map ((!) flat_points) [0..<length flat_points] = flat_points" by (rule map_nth)
  then show ?thesis by (simp add: flat_points_length)
qed

lemma fold_add_origin:
  "fold (\<lambda>p acc. p3_add acc p) (replicate k (Point3f 0 0 0)) acc = acc"
proof (induction k)
  case 0
  then show ?case by simp
next
  case (Suc k)
  have "p3_add acc (Point3f 0 0 0) = acc" by (cases acc) simp
  then show ?case using Suc by (simp del: fold_replicate)
qed

lemma flat_points_sum:
  "fold (\<lambda>p acc. p3_add acc p) flat_points (Point3f 0 0 0) = Point3f 1 0 1"
  unfolding flat_points_def fold_append comp_def fold_add_origin by simp

lemma fold_min_replicate: "fold min (replicate k a) b = (if k = 0 then b else min a (b::real))"
  by (induction k arbitrary: b) (auto simp del: fold_replicate)

lemma fold_max_replicate: "fold max (replicate k a) b = (if k = 0 then b else max a (b::real))"
  by (induction k arbitrary: b) (auto simp del: fold_replicate)

lemma flat_new_plane:
  "new_plane det 50 flat_points (Point3f 0 1 0) [0..<50] =
     \<lparr>plane_id = nextPlaneId det, center = Point3f 0.02 0 0.02, normal = Point3f 0 1 0,
      width = 1, height = 1,
      corners = [Point3f 0 0 1, Point3f 1 0 1, Point3f 1 0 0, Point3f 0 0 0],
      isHorizontal = True, confidence = 1\<rparr>"
proof -
  have xs: "map (\<lambda>p. dot3 (p3_sub p (Point3f (1 / 50) 0 (1 / 50))) (Point3f 1 0 0)) flat_points
              = replicate 48 (- (1 / 50)) @ [49 / 50, - (1 / 50)]"
    by (simp add: flat_points_def)
  have zs: "map (\<lambda>p. dot3 (p3_sub p (Point3f (1 / 50) 0 (1 / 50))) (Point3f 0 0 (- 1))) flat_points
              = replicate 48 (1 / 50) @ [1 / 50, - (49 / 50)]"
    by (simp add: flat_points_def)
  have ne: "flat_points \<noteq> []" by (simp add: flat_points_def)
  show ?thesis
    unfolding new_plane_def Let_def flat_inlier_points computePlaneBounds_def
    by (simp add: ne flat_points_sum flat_points_length xs zs fold_min_replicate
          fold_max_replicate FLT_MAX_def isPlaneHorizontal_def HORIZONTAL_THRESHOLD_def
          del: fold_replicate)
qed

lemma erase_at_length: "idx < length xs \<Longrightarrow> length (erase_at idx xs) = length xs - 1"
  by (simp add: erase_at_def)

lemma erase_descending_length:
  "k \<le> length xs \<Longrightarrow> length (fold erase_at (rev [0..<k]) xs) = length xs - k"
proof (induction k arbitrary: xs)
  case 0
  then show ?case by simp
next
  case (Suc k)
  then have "length (erase_at k xs) = length xs - 1" by (simp add: erase_at_length)
  moreover have "k \<le> length (erase_at k xs)" using Suc.prems by (simp add: erase_at_length)
  ultimately show ?case using Suc.IH [of "erase_at k xs"] by simp
qed

lemma flat_points_used: "length (erase_inliers [0..<50] flat_points) = 0"
proof -
  have "sort [0..<50::nat] = [0..<50]" by (simp add: sort_upt)
  then show ?thesis
    using erase_descending_length [of 50 flat_points]
    by (simp add: erase_inliers_def flat_points_length)
qed

lemma flat_plane_fields:
  "flat_plane =
     \<lparr>plane_id = 1, center = Point3f 0.02 0 0.02, normal = Point3f 0 1 0,
      width = 1, height = 1,
      corners = [Point3f 0 0 1, Point3f 1 0 1, Point3f 1 0 0, Point3f 0 0 0],
      isHorizontal = True, confidence = 1\<rparr>"
  by (simp add: flat_plane_def flat_new_plane floor_detector_def)

lemma flat_plane_near_floor:
  "isHorizontal floor_plane = isHorizontal flat_plane \<and>
   0.95 \<le> \<bar>dot3 (normal floor_plane) (normal flat_plane)\<bar> \<and>
   norm3 (p3_sub (center floor_plane) (center flat_plane)) < 0.1"
proof -
  have "sqrt (1 / 1250) < 1 / 10"
    by (rule real_less_lsqrt) (simp_all add: power2_eq_square)
  then show ?thesis by (simp add: flat_plane_fields floor_plane_def)
qed

text \<open>
  C6.  A call of \<open>detectPlanes\<close> on a large enough cloud runs the detection loop, and
  the plane built in a round of the loop is handed to the merge attempt of that round.  It is merged exactly when some plane the detector holds has the same
  horizontal/vertical class, a normal whose dot product with the new normal is at least
  0.95 in absolute value, and a centre closer than 0.1 to the new centre; it is merged
  into the first such plane, and appended to the list otherwise.  The merged plane has
  the midpoint of the two centres, the larger width and the larger height, and the old
  confidence plus half the new one, capped at 1; its id, normal, class and corners, and
  every other plane, stay as they were, and the id taken for the new plane is given
  back.
\<close>

theorem merge_policy:
  "(let found = (\<exists>p \<in> set (planes st).
                   isHorizontal p = isHorizontal np \<and>
                   0.95 \<le> \<bar>dot3 (normal p) (normal np)\<bar> \<and>
                   norm3 (p3_sub (center p) (center np)) < 0.1);
        st' = place_plane np st
    in (0 \<le> findMergeablePlane st np \<longleftrightarrow> found) \<and>
       (\<not> found \<longrightarrow> planes st' = planes st @ [np] \<and> nextPlaneId st' = nextPlaneId st) \<and>
       (found \<longrightarrow>
          (let i = nat (findMergeablePlane st np);
               old = planes st ! i;
               new = planes st' ! i
           in i < length (planes st) \<and>
              isHorizontal old = isHorizontal np \<and>
              0.95 \<le> \<bar>dot3 (normal old) (normal np)\<bar> \<and>
              norm3 (p3_sub (center old) (center np)) < 0.1 \<and>
              (\<forall>j < i. \<not> (isHorizontal (planes st ! j) = isHorizontal np \<and>
                          0.95 \<le> \<bar>dot3 (normal (planes st ! j)) (normal np)\<bar> \<and>
                          norm3 (p3_sub (center (planes st ! j)) (center np)) < 0.1)) \<and>
              st' = (mergePlanes i np st)\<lparr>nextPlaneId := nextPlaneId st - 1\<rparr> \<and>
              px (center new) = (px (center old) + px (center np)) / 2 \<and>
              py (center new) = (py (center old) + py (center np)) / 2 \<and>
              pz (center new) = (pz (center old) + pz (center np)) / 2 \<and>
              width new = max (width old) (width np) \<and>
              height new = max (height old) (height np) \<and>
              confidence new = min 1 (confidence old + 0.5 * confidence np) \<and>
              plane_id new = plane_id old \<and> normal new = normal old \<and>
              isHorizontal new = isHorizontal old \<and> corners new = corners old \<and>
              length (planes st') = length (planes st) \<and>
              (\<forall>j < length (planes st). j \<noteq> i \<longrightarrow> planes st' ! j = planes st ! j) \<and>
              nextPlaneId st' = nextPlaneId st - 1))) \<and>
   (planeCount < 3 \<and> MIN_PLANE_POINTS \<le> length pts \<and>
    fitPlaneRANSAC (rng planeCount) pts = Some (n, d, inliers) \<and>
    MIN_PLANE_POINTS \<le> length inliers \<longrightarrow>
      detectPlanes_loop rng totalCount planeCount det pts =
        detectPlanes_loop rng totalCount (planeCount + 1)
          (place_plane (new_plane det totalCount pts n inliers)
             (det\<lparr>nextPlaneId := nextPlaneId det + 1\<rparr>))
          (erase_inliers inliers pts)) \<and>
   (MIN_PLANE_POINTS \<le> length cloud \<longrightarrow>
      snd (detectPlanes rng cloud det) = detectPlanes_loop rng (length cloud) 0 det cloud)"
proof (intro conjI)
  show "MIN_PLANE_POINTS \<le> length cloud \<longrightarrow>
      snd (detectPlanes rng cloud det) = detectPlanes_loop rng (length cloud) 0 det cloud"
    by (simp add: detectPlanes_def Let_def)
next
  show "planeCount < 3 \<and> MIN_PLANE_POINTS \<le> length pts \<and>
    fitPlaneRANSAC (rng planeCount) pts = Some (n, d, inliers) \<and>
    MIN_PLANE_POINTS \<le> length inliers \<longrightarrow>
      detectPlanes_loop rng totalCount planeCount det pts =
        detectPlanes_loop rng totalCount (planeCount + 1)
          (place_plane (new_plane det totalCount pts n inliers)
             (det\<lparr>nextPlaneId := nextPlaneId det + 1\<rparr>))
          (erase_inliers inliers pts)"
    using detectPlanes_loop_round by blast
next
  define found where "found \<longleftrightarrow> (\<exists>p \<in> set (planes st).
                   isHorizontal p = isHorizontal np \<and>
                   0.95 \<le> \<bar>dot3 (normal p) (normal np)\<bar> \<and>
                   norm3 (p3_sub (center p) (center np)) < 0.1)"
  have search: "0 \<le> findMergeablePlane st np \<longleftrightarrow> found"
    by (simp add: found_def findMergeablePlane_def findMergeable_from_found mergeable_iff)
  have appended: "planes (place_plane np st) = planes st @ [np] \<and>
                  nextPlaneId (place_plane np st) = nextPlaneId st" if "\<not> found"
    using that search by (simp add: place_plane_appended)
  have merged:
    "let i = nat (findMergeablePlane st np);
         old = planes st ! i;
         new = planes (place_plane np st) ! i
     in i < length (planes st) \<and>
        isHorizontal old = isHorizontal np \<and>
        0.95 \<le> \<bar>dot3 (normal old) (normal np)\<bar> \<and>
        norm3 (p3_sub (center old) (center np)) < 0.1 \<and>
        (\<forall>j < i. \<not> (isHorizontal (planes st ! j) = isHorizontal np \<and>
                    0.95 \<le> \<bar>dot3 (normal (planes st ! j)) (normal np)\<bar> \<and>
                    norm3 (p3_sub (center (planes st ! j)) (center np)) < 0.1)) \<and>
        place_plane np st = (mergePlanes i np st)\<lparr>nextPlaneId := nextPlaneId st - 1\<rparr> \<and>
        px (center new) = (px (center old) + px (center np)) / 2 \<and>
        py (center new) = (py (center old) + py (center np)) / 2 \<and>
        pz (center new) = (pz (center old) + pz (center np)) / 2 \<and>
        width new = max (width old) (width np) \<and>
        height new = max (height old) (height np) \<and>
        confidence new = min 1 (confidence old + 0.5 * confidence np) \<and>
        plane_id new = plane_id old \<and> normal new = normal old \<and>
        isHorizontal new = isHorizontal old \<and> corners new = corners old \<and>
        length (planes (place_plane np st)) = length (planes st) \<and>
        (\<forall>j < length (planes st). j \<noteq> i \<longrightarrow> planes (place_plane np st) ! j = planes st ! j) \<and>
        nextPlaneId (place_plane np st) = nextPlaneId st - 1" if "found"
  proof -
    from that search have hit: "0 \<le> findMergeablePlane st np" by simp
    define i where "i = nat (findMergeablePlane st np)"
    from hit have f: "0 \<le> findMergeable_from 0 (planes st) np"
      by (simp add: findMergeablePlane_def)
    from findMergeable_from_first [OF f]
    have inb: "i < length (planes st)"
      and m: "mergeable (planes st ! i) np"
      and first: "\<forall>j < i. \<not> mergeable (planes st ! j) np"
      by (simp_all add: i_def findMergeablePlane_def)
    have placed: "place_plane np st = (mergePlanes i np st)\<lparr>nextPlaneId := nextPlaneId st - 1\<rparr>"
      using hit by (simp add: place_plane_merged i_def)
    obtain a b c where co: "center (planes st ! i) = Point3f a b c"
      by (cases "center (planes st ! i)") auto
    obtain a' b' c' where cn: "center np = Point3f a' b' c'"
      by (cases "center np") auto
    have fields:
      "px (center (planes (place_plane np st) ! i)) = (a + a') / 2"
      "py (center (planes (place_plane np st) ! i)) = (b + b') / 2"
      "pz (center (planes (place_plane np st) ! i)) = (c + c') / 2"
      using inb by (simp_all add: placed mergePlanes_def Let_def co cn)
    have rest:
      "width (planes (place_plane np st) ! i) = max (width (planes st ! i)) (width np)"
      "height (planes (place_plane np st) ! i) = max (height (planes st ! i)) (height np)"
      "confidence (planes (place_plane np st) ! i) =
         min 1 (confidence (planes st ! i) + 0.5 * confidence np)"
      "plane_id (planes (place_plane np st) ! i) = plane_id (planes st ! i)"
      "normal (planes (place_plane np st) ! i) = normal (planes st ! i)"
      "isHorizontal (planes (place_plane np st) ! i) = isHorizontal (planes st ! i)"
      "corners (planes (place_plane np st) ! i) = corners (planes st ! i)"
      "length (planes (place_plane np st)) = length (planes st)"
      "\<forall>j < length (planes st). j \<noteq> i \<longrightarrow> planes (place_plane np st) ! j = planes st ! j"
      "nextPlaneId (place_plane np st) = nextPlaneId st - 1"
      using inb by (simp_all add: placed mergePlanes_def Let_def)
    show ?thesis
      unfolding Let_def i_def [symmetric]
      using inb m first placed fields rest
      by (simp only: mergeable_iff co cn Point3f.sel)
  qed
  show "let found = (\<exists>p \<in> set (planes st).
                   isHorizontal p = isHorizontal np \<and>
                   0.95 \<le> \<bar>dot3 (normal p) (normal np)\<bar> \<and>
                   norm3 (p3_sub (center p) (center np)) < 0.1);
        st' = place_plane np st
    in (0 \<le> findMergeablePlane st np \<longleftrightarrow> found) \<and>
       (\<not> found \<longrightarrow> planes st' = planes st @ [np] \<and> nextPlaneId st' = nextPlaneId st) \<and>
       (found \<longrightarrow>
          (let i = nat (findMergeablePlane st np);
               old = planes st ! i;
               new = planes st' ! i
           in i < length (planes st) \<and>
              isHorizontal old = isHorizontal np \<and>
              0.95 \<le> \<bar>dot3 (normal old) (normal np)\<bar> \<and>
              norm3 (p3_sub (center old) (center np)) < 0.1 \<and>
              (\<forall>j < i. \<not> (isHorizontal (planes st ! j) = isHorizontal np \<and>
                          0.95 \<le> \<bar>dot3 (normal (planes st ! j)) (normal np)\<bar> \<and>
                          norm3 (p3_sub (center (planes st ! j)) (center np)) < 0.1)) \<and>
              st' = (mergePlanes i np st)\<lparr>nextPlaneId := nextPlaneId st - 1\<rparr> \<and>
              px (center new) = (px (center old) + px (center np)) / 2 \<and>
              py (center new) = (py (center old) + py (center np)) / 2 \<and>
              pz (center new) = (pz (center old) + pz (center np)) / 2 \<and>
              width new = max (width old) (width np) \<and>
              height new = max (height old) (height np) \<and>
              confidence new = min 1 (confidence old + 0.5 * confidence np) \<and>
              plane_id new = plane_id old \<and> normal new = normal old \<and>
              isHorizontal new = isHorizontal old \<and> corners new = corners old \<and>
              length (planes st') = length (planes st) \<and>
              (\<forall>j < length (planes st). j \<noteq> i \<longrightarrow> planes st' ! j = planes st ! j) \<and>
              nextPlaneId st' = nextPlaneId st - 1))"
    unfolding Let_def found_def [symmetric]
    using search appended merged [unfolded Let_def] by blast
qed

theorem merge_policy_witness:
  "fitPlaneRANSAC (fixed_draw 0) flat_points = Some (Point3f 0 1 0, 0, [0..<50]) \<and>
   MIN_PLANE_POINTS \<le> length flat_points \<and>
   flat_plane = new_plane floor_detector (length flat_points) flat_points (Point3f 0 1 0) [0..<50] \<and>
   planes floor_detector = [floor_plane] \<and>
   isHorizontal floor_plane = isHorizontal flat_plane \<and>
   0.95 \<le> \<bar>dot3 (normal floor_plane) (normal flat_plane)\<bar> \<and>
   norm3 (p3_sub (center floor_plane) (center flat_plane)) < 0.1 \<and>
   center flat_plane = Point3f 0.02 0 0.02 \<and> width flat_plane = 1 \<and> height flat_plane = 1 \<and>
   confidence flat_plane = 1 \<and>
   detectPlanes fixed_draw flat_points floor_detector =
     (True, \<lparr>planes = [floor_plane\<lparr>center := Point3f 0.01 0 0.01, confidence := 1\<rparr>],
             nextPlaneId = 1\<rparr>)"
proof -
  let ?st = "floor_detector\<lparr>nextPlaneId := nextPlaneId floor_detector + 1\<rparr>"
  have fit: "fitPlaneRANSAC (fixed_draw 0) flat_points = Some (Point3f 0 1 0, 0, [0..<50])"
    by (rule flat_fit)
  have enough: "MIN_PLANE_POINTS \<le> length flat_points"
    "MIN_PLANE_POINTS \<le> length [0..<50]"
    by (simp_all add: MIN_PLANE_POINTS_def flat_points_length)
  have held: "planes ?st = [floor_plane]" "planes floor_detector = [floor_plane]"
    by (simp_all add: floor_detector_def)
  have found: "\<exists>p \<in> set (planes ?st).
      isHorizontal p = isHorizontal flat_plane \<and>
      0.95 \<le> \<bar>dot3 (normal p) (normal flat_plane)\<bar> \<and>
      norm3 (p3_sub (center p) (center flat_plane)) < 0.1"
    using flat_plane_near_floor by (simp add: held)
  note policy = merge_policy [where st = "?st" and np = flat_plane and planeCount = 0
      and pts = flat_points and rng = fixed_draw and n = "Point3f 0 1 0" and d = 0
      and inliers = "[0..<50]" and totalCount = 50 and det = floor_detector
      and cloud = flat_points, unfolded Let_def]
  from policy found have idx: "nat (findMergeablePlane ?st flat_plane) < length (planes ?st)"
    and placed: "place_plane flat_plane ?st =
      (mergePlanes (nat (findMergeablePlane ?st flat_plane)) flat_plane ?st)
        \<lparr>nextPlaneId := nextPlaneId ?st - 1\<rparr>"
    by blast+
  from idx have zero: "nat (findMergeablePlane ?st flat_plane) = 0" by (simp add: held)
  have merged: "place_plane flat_plane ?st =
      \<lparr>planes = [floor_plane\<lparr>center := Point3f 0.01 0 0.01, confidence := 1\<rparr>],
       nextPlaneId = 1\<rparr>"
    unfolding placed zero
    by (simp add: mergePlanes_def Let_def flat_plane_fields floor_detector_def floor_plane_def)
  from policy fit enough
  have "detectPlanes_loop fixed_draw 50 0 floor_detector flat_points =
        detectPlanes_loop fixed_draw 50 (0 + 1)
          (place_plane (new_plane floor_detector 50 flat_points (Point3f 0 1 0) [0..<50]) ?st)
          (erase_inliers [0..<50] flat_points)"
    by simp
  also have "\<dots> = place_plane flat_plane ?st"
    by (subst detectPlanes_loop.simps)
       (simp add: flat_points_used MIN_PLANE_POINTS_def flat_plane_def)
  finally have run: "detectPlanes_loop fixed_draw 50 0 floor_detector flat_points =
      \<lparr>planes = [floor_plane\<lparr>center := Point3f 0.01 0 0.01, confidence := 1\<rparr>],
       nextPlaneId = 1\<rparr>"
    using merged by simp
  from policy enough(1) run
  have state: "snd (detectPlanes fixed_draw flat_points floor_detector) =
      \<lparr>planes = [floor_plane\<lparr>center := Point3f 0.01 0 0.01, confidence := 1\<rparr>],
       nextPlaneId = 1\<rparr>"
    by (simp add: flat_points_length)
  have "fst (detectPlanes fixed_draw flat_points floor_detector)"
    by (simp add: detectPlanes_def Let_def flat_points_length MIN_PLANE_POINTS_def run)
  with state have call: "detectPlanes fixed_draw flat_points floor_detector =
     (True, \<lparr>planes = [floor_plane\<lparr>center := Point3f 0.01 0 0.01, confidence := 1\<rparr>],
             nextPlaneId = 1\<rparr>)"
    by (cases "detectPlanes fixed_draw flat_points floor_detector") simp
  have fields: "center flat_plane = Point3f 0.02 0 0.02" "width flat_plane = 1"
    "height flat_plane = 1" "confidence flat_plane = 1"
    by (simp_all add: flat_plane_fields)
  have built: "flat_plane =
      new_plane floor_detector (length flat_points) flat_points (Point3f 0 1 0) [0..<50]"
    by (simp add: flat_plane_def flat_points_length)
  show ?thesis
    using fit enough(1) built held(2) flat_plane_near_floor fields call by blast
qed

subsection \<open>Image-target detection\<close>

lemma ratio_test_member:
  "m \<in> set (ratio_test knnMatches) \<longleftrightarrow>
     (\<exists>knn \<in> set knnMatches. 2 \<le> length knn \<and>
        distance (knn ! 0) < 0.75 * distance (knn ! 1) \<and> m = knn ! 0)"
  by (auto simp: ratio_test_def GOOD_MATCH_RATIO_def)

lemma countNonZero_le: "countNonZero m \<le> length m"
  by (simp add: countNonZero_def)

lemma detectTargets_member:
  assumes "d \<in> set (getDetectedTargets (snd (detectTargets env frame cam st)))"
  shows "\<exists>t \<in> set (targets st).
           detect_one env (fst (orb_target env frame)) (snd (orb_target env frame)) cam t = Some d"
  using assms
  by (auto simp: detectTargets_def getDetectedTargets_def Let_def map_filter_member
           split: if_splits prod.splits)

lemma computePose_Some:
  "computePose env t src dst cam = Some p \<longleftrightarrow>
     (let objectPoints =
            map (\<lambda>q. Point3f
                   ((p2x q / real (mat_cols (target_image t)) - 0.5) * widthMeters t)
                   ((p2y q / real (mat_rows (target_image t)) - 0.5) * heightMeters t)
                   0) src;
          pnp = solvePnPRansac env objectPoints dst cam (mat_zeros 4 1)
      in fst pnp \<and> p = compose_pose (Rodrigues env (fst (snd pnp))) (snd (snd pnp)))"
  by (auto simp: computePose_def Let_def split: prod.splits)

lemma detect_one_Some:
  assumes found: "detect_one env kps descs cam t = Some d"
    and mask_size:
      "\<And>src dst. length (snd (findHomography env src dst CV_RANSAC 5)) = length src"
  shows
    "(let good = ratio_test (bf_knnMatch env (target_descriptors t) descs 2);
          src = map (\<lambda>m. pt (target_keypoints t ! nat (queryIdx m))) good;
          dst = map (\<lambda>m. pt (kps ! nat (trainIdx m))) good;
          H = fst (findHomography env src dst CV_RANSAC 5);
          inliers = countNonZero (snd (findHomography env src dst CV_RANSAC 5));
          w = real (mat_cols (target_image t));
          h = real (mat_rows (target_image t));
          projected = perspectiveTransform env
                        [Point2f 0 0, Point2f w 0, Point2f w h, Point2f 0 h] H
      in targetId d = target_id t \<and>
         detected_name d = target_name t \<and>
         isTracking d \<and>
         15 \<le> length good \<and>
         \<not> mat_empty H \<and>
         15 \<le> inliers \<and>
         isContourConvex env projected \<and>
         detected_corners d = projected \<and>
         computePose env t src dst cam = Some (detected_pose d) \<and>
         detected_confidence d = real inliers / real (length good) \<and>
         0 \<le> detected_confidence d \<and> detected_confidence d \<le> 1)"
proof -
  define good where "good = ratio_test (bf_knnMatch env (target_descriptors t) descs 2)"
  define src where "src = map (\<lambda>m. pt (target_keypoints t ! nat (queryIdx m))) good"
  define dst where "dst = map (\<lambda>m. pt (kps ! nat (trainIdx m))) good"
  obtain H hm where hom: "findHomography env src dst CV_RANSAC 5 = (H, hm)"
    by (cases "findHomography env src dst CV_RANSAC 5") auto
  have "length hm = length src" using mask_size [of src dst] hom by simp
  then have bound: "countNonZero hm \<le> length good"
    using countNonZero_le [of hm] by (simp add: src_def)
  have main:
    "targetId d = target_id t \<and> detected_name d = target_name t \<and> isTracking d \<and>
     15 \<le> length good \<and> \<not> mat_empty H \<and>
     15 \<le> countNonZero hm \<and>
     isContourConvex env (perspectiveTransform env
        [Point2f 0 0, Point2f (real (mat_cols (target_image t))) 0,
         Point2f (real (mat_cols (target_image t))) (real (mat_rows (target_image t))),
         Point2f 0 (real (mat_rows (target_image t)))] H) \<and>
     detected_corners d = perspectiveTransform env
        [Point2f 0 0, Point2f (real (mat_cols (target_image t))) 0,
         Point2f (real (mat_cols (target_image t))) (real (mat_rows (target_image t))),
         Point2f 0 (real (mat_rows (target_image t)))] H \<and>
     computePose env t src dst cam = Some (detected_pose d) \<and>
     detected_confidence d = real (countNonZero hm) / real (length good)"
    using found hom
    unfolding detect_one_def Let_def good_def [symmetric] src_def [symmetric]
      dst_def [symmetric]
    by (auto simp: MIN_MATCHES_def split: if_splits option.splits)
  then have "15 \<le> length good" by blast
  then have pos: "0 < length good" by linarith
  have "0 \<le> real (countNonZero hm) / real (length good)" by simp
  moreover have "real (countNonZero hm) / real (length good) \<le> 1"
    using bound pos by simp
  ultimately show ?thesis
    using main hom
    unfolding Let_def good_def [symmetric] src_def [symmetric] dst_def [symmetric]
    by simp
qed

text \<open>
  C7.  A detection appears in the per-frame result only for a registered target whose
  matches passing the 0.75 ratio test (over the \<open>k = 2\<close> nearest neighbours) number at
  least 15, whose RANSAC homography with the 5 pixel threshold is non-empty with at
  least 15 inliers, whose four projected corners form a convex quadrilateral, and for
  which \<open>solvePnPRansac\<close>, called on the target's metric points and the matched frame
  points, reports success; the pose of the detection is then composed from the rotation
  and translation the solver returned.  The confidence of the detection is
  inliers / good matches and lies between 0 and 1.  (The inlier mask of
  \<open>findHomography\<close> has one entry per correspondence, as OpenCV documents.)
\<close>

theorem target_detection_conditions:
  assumes mask_size:
      "\<And>src dst. length (snd (findHomography env src dst CV_RANSAC 5)) = length src"
    and reported: "d \<in> set (getDetectedTargets (snd (detectTargets env frame cam st)))"
  shows
    "\<exists>t \<in> set (targets st).
       (let kps = fst (orb_target env frame);
            knn = bf_knnMatch env (target_descriptors t) (snd (orb_target env frame)) 2;
            good = ratio_test knn;
            src = map (\<lambda>m. pt (target_keypoints t ! nat (queryIdx m))) good;
            dst = map (\<lambda>m. pt (kps ! nat (trainIdx m))) good;
            H = fst (findHomography env src dst CV_RANSAC 5);
            inliers = countNonZero (snd (findHomography env src dst CV_RANSAC 5));
            w = real (mat_cols (target_image t));
            h = real (mat_rows (target_image t));
            projected = perspectiveTransform env
                          [Point2f 0 0, Point2f w 0, Point2f w h, Point2f 0 h] H;
            objectPoints =
              map (\<lambda>q. Point3f
                     ((p2x q / real (mat_cols (target_image t)) - 0.5) * widthMeters t)
                     ((p2y q / real (mat_rows (target_image t)) - 0.5) * heightMeters t)
                     0) src;
            pnp = solvePnPRansac env objectPoints dst cam (mat_zeros 4 1)
        in targetId d = target_id t \<and>
           detected_name d = target_name t \<and>
           isTracking d \<and>
           15 \<le> length good \<and>
           good = map (\<lambda>nn. nn ! 0)
                    (filter (\<lambda>nn. 2 \<le> length nn \<and>
                               distance (nn ! 0) < 0.75 * distance (nn ! 1)) knn) \<and>
           \<not> mat_empty H \<and>
           15 \<le> inliers \<and>
           isContourConvex env projected \<and>
           detected_corners d = projected \<and>
           fst pnp \<and>
           detected_pose d = compose_pose (Rodrigues env (fst (snd pnp))) (snd (snd pnp)) \<and>
           computePose env t src dst cam = Some (detected_pose d) \<and>
           detected_confidence d = real inliers / real (length good) \<and>
           0 \<le> detected_confidence d \<and> detected_confidence d \<le> 1)"
proof -
  from detectTargets_member [OF reported] obtain t where
    t: "t \<in> set (targets st)" and
    one: "detect_one env (fst (orb_target env frame)) (snd (orb_target env frame)) cam t = Some d"
    by blast
  define kps where "kps = fst (orb_target env frame)"
  define knn where
    "knn = bf_knnMatch env (target_descriptors t) (snd (orb_target env frame)) 2"
  define good where "good = ratio_test knn"
  define src where "src = map (\<lambda>m. pt (target_keypoints t ! nat (queryIdx m))) good"
  define dst where "dst = map (\<lambda>m. pt (kps ! nat (trainIdx m))) good"
  have ratio: "good = map (\<lambda>nn. nn ! 0)
                    (filter (\<lambda>nn. 2 \<le> length nn \<and>
                               distance (nn ! 0) < 0.75 * distance (nn ! 1)) knn)"
    by (simp add: good_def ratio_test_def GOOD_MATCH_RATIO_def)
  from detect_one_Some [OF one mask_size]
  have tests:
    "targetId d = target_id t \<and> detected_name d = target_name t \<and> isTracking d \<and>
     15 \<le> length good \<and>
     \<not> mat_empty (fst (findHomography env src dst CV_RANSAC 5)) \<and>
     15 \<le> countNonZero (snd (findHomography env src dst CV_RANSAC 5)) \<and>
     isContourConvex env (perspectiveTransform env
        [Point2f 0 0, Point2f (real (mat_cols (target_image t))) 0,
         Point2f (real (mat_cols (target_image t))) (real (mat_rows (target_image t))),
         Point2f 0 (real (mat_rows (target_image t)))]
        (fst (findHomography env src dst CV_RANSAC 5))) \<and>
     detected_corners d = perspectiveTransform env
        [Point2f 0 0, Point2f (real (mat_cols (target_image t))) 0,
         Point2f (real (mat_cols (target_image t))) (real (mat_rows (target_image t))),
         Point2f 0 (real (mat_rows (target_image t)))]
        (fst (findHomography env src dst CV_RANSAC 5)) \<and>
     computePose env t src dst cam = Some (detected_pose d) \<and>
     detected_confidence d =
       real (countNonZero (snd (findHomography env src dst CV_RANSAC 5)))
         / real (length good) \<and>
     0 \<le> detected_confidence d \<and> detected_confidence d \<le> 1"
    unfolding Let_def kps_def knn_def good_def src_def dst_def by simp
  then have "computePose env t src dst cam = Some (detected_pose d)" by blast
  then have solver:
    "fst (solvePnPRansac env
            (map (\<lambda>q. Point3f
                   ((p2x q / real (mat_cols (target_image t)) - 0.5) * widthMeters t)
                   ((p2y q / real (mat_rows (target_image t)) - 0.5) * heightMeters t)
                   0) src) dst cam (mat_zeros 4 1)) \<and>
     detected_pose d =
       compose_pose
         (Rodrigues env (fst (snd (solvePnPRansac env
            (map (\<lambda>q. Point3f
                   ((p2x q / real (mat_cols (target_image t)) - 0.5) * widthMeters t)
                   ((p2y q / real (mat_rows (target_image t)) - 0.5) * heightMeters t)
                   0) src) dst cam (mat_zeros 4 1)))))
         (snd (snd (solvePnPRansac env
            (map (\<lambda>q. Point3f
                   ((p2x q / real (mat_cols (target_image t)) - 0.5) * widthMeters t)
                   ((p2y q / real (mat_rows (target_image t)) - 0.5) * heightMeters t)
                   0) src) dst cam (mat_zeros 4 1))))"
    unfolding computePose_Some Let_def by simp
  have "let kps = fst (orb_target env frame);
            knn = bf_knnMatch env (target_descriptors t) (snd (orb_target env frame)) 2;
            good = ratio_test knn;
            src = map (\<lambda>m. pt (target_keypoints t ! nat (queryIdx m))) good;
            dst = map (\<lambda>m. pt (kps ! nat (trainIdx m))) good;
            H = fst (findHomography env src dst CV_RANSAC 5);
            inliers = countNonZero (snd (findHomography env src dst CV_RANSAC 5));
            w = real (mat_cols (target_image t));
            h = real (mat_rows (target_image t));
            projected = perspectiveTransform env
                          [Point2f 0 0, Point2f w 0, Point2f w h, Point2f 0 h] H;
            objectPoints =
              map (\<lambda>q. Point3f
                     ((p2x q / real (mat_cols (target_image t)) - 0.5) * widthMeters t)
                     ((p2y q / real (mat_rows (target_image t)) - 0.5) * heightMeters t)
                     0) src;
            pnp = solvePnPRansac env objectPoints dst cam (mat_zeros 4 1)
        in targetId d = target_id t \<and>
           detected_name d = target_name t \<and>
           isTracking d \<and>
           15 \<le> length good \<and>
           good = map (\<lambda>nn. nn ! 0)
                    (filter (\<lambda>nn. 2 \<le> length nn \<and>
                               distance (nn ! 0) < 0.75 * distance (nn ! 1)) knn) \<and>
           \<not> mat_empty H \<and>
           15 \<le> inliers \<and>
           isContourConvex env projected \<and>
           detected_corners d = projected \<and>
           fst pnp \<and>
           detected_pose d = compose_pose (Rodrigues env (fst (snd pnp))) (snd (snd pnp)) \<and>
           computePose env t src dst cam = Some (detected_pose d) \<and>
           detected_confidence d = real inliers / real (length good) \<and>
           0 \<le> detected_confidence d \<and> detected_confidence d \<le> 1"
    unfolding Let_def kps_def [symmetric] knn_def [symmetric] good_def [symmetric]
      src_def [symmetric] dst_def [symmetric]
    using tests solver ratio by blast
  then show ?thesis using t by (rule bexI)
qed

lemma demo_mask_size:
  "length (snd (findHomography demo_env src dst CV_RANSAC 5)) = length src"
  by (simp add: demo_env_def)

lemma demo_good_matches:
  "ratio_test (bf_knnMatch demo_env (target_descriptors demo_target) descs 2) =
     replicate 15 \<lparr>queryIdx = 0, trainIdx = 0, distance = 10\<rparr>"
  by (simp add: ratio_test_def demo_env_def demo_target_def GOOD_MATCH_RATIO_def)

lemma demo_computePose:
  "computePose demo_env demo_target src dst cam = Some (compose_pose (mat_eye 3) [[0], [0], [1]])"
  by (simp add: computePose_def demo_env_def)

lemma demo_detect_one:
  "detect_one demo_env kps descs cam demo_target = Some demo_detection"
proof -
  have nonempty: "\<not> mat_empty (target_descriptors demo_target)"
    by (simp add: mat_empty_def mat_rows_def mat_cols_replicate demo_target_def)
  have hom: "findHomography demo_env src dst CV_RANSAC 5 =
      (mat_eye 3, replicate (length src) 1)"
    for src dst by (simp add: demo_env_def)
  have eye: "\<not> mat_empty (mat_eye 3)"
    by (simp add: mat_empty_def mat_rows_def mat_cols_def mat_eye_def upt_rec [of 0 3])
  have cnt: "countNonZero (replicate n (Suc 0)) = n" for n
    by (simp add: countNonZero_def)
  have img: "mat_cols (target_image demo_target) = 2" "mat_rows (target_image demo_target) = 2"
    by (simp_all add: demo_target_def mat_cols_def mat_rows_def)
  have env: "perspectiveTransform demo_env pts h = pts" "isContourConvex demo_env pts"
    for pts h by (simp_all add: demo_env_def)
  have ids: "target_id demo_target = 0" "target_name demo_target = ''marker''"
    by (simp_all add: demo_target_def)
  show ?thesis
    unfolding detect_one_def Let_def demo_good_matches
    by (simp add: nonempty hom eye cnt img env ids demo_computePose MIN_MATCHES_def
          demo_detection_def)
qed

lemma demo_detectTargets:
  "getDetectedTargets (snd (detectTargets demo_env demo_frame cam demo_tracker)) =
     [demo_detection]"
proof -
  have frame: "\<not> mat_empty demo_frame"
    by (simp add: mat_empty_def mat_rows_def mat_cols_def demo_frame_def)
  have orb: "orb_target demo_env demo_frame = (replicate 15 demo_keypoint, replicate 15 [0])"
    by (simp add: demo_env_def)
  show ?thesis
    by (simp add: detectTargets_def getDetectedTargets_def Let_def frame orb MIN_MATCHES_def
          demo_tracker_def demo_detect_one)
qed

theorem target_detection_conditions_witness:
  "(\<forall>src dst. length (snd (findHomography demo_env src dst CV_RANSAC 5)) = length src) \<and>
   getDetectedTargets (snd (detectTargets demo_env demo_frame K demo_tracker)) =
     [demo_detection] \<and>
   targets demo_tracker = [demo_target] \<and>
   targetId demo_detection = target_id demo_target \<and>
   length (ratio_test (bf_knnMatch demo_env (target_descriptors demo_target)
                         (snd (orb_target demo_env demo_frame)) 2)) = 15 \<and>
   fst (solvePnPRansac demo_env
          (map (\<lambda>q. Point3f
                 ((p2x q / real (mat_cols (target_image demo_target)) - 0.5)
                    * widthMeters demo_target)
                 ((p2y q / real (mat_rows (target_image demo_target)) - 0.5)
                    * heightMeters demo_target)
                 0) (replicate 15 (Point2f 0 0)))
          (replicate 15 (Point2f 0 0)) K (mat_zeros 4 1)) \<and>
   detected_pose demo_detection = compose_pose (mat_eye 3) [[0], [0], [1]] \<and>
   detected_confidence demo_detection = 1"
proof -
  have member: "demo_detection \<in>
      set (getDetectedTargets (snd (detectTargets demo_env demo_frame K demo_tracker)))"
    by (simp add: demo_detectTargets)
  have reg: "targets demo_tracker = [demo_target]"
    by (simp add: demo_tracker_def)
  have single: "(\<exists>t \<in> set [demo_target]. P t) = P demo_target" for P
    by simp
  have kps: "fst (orb_target demo_env demo_frame) = replicate 15 demo_keypoint"
    by (simp add: demo_env_def)
  have src: "map (\<lambda>m. pt (target_keypoints demo_target ! nat (queryIdx m)))
               (replicate 15 \<lparr>queryIdx = 0, trainIdx = 0, distance = 10\<rparr>)
             = replicate 15 (Point2f 0 0)"
    by (simp add: demo_target_def demo_keypoint_def)
  have dst: "map (\<lambda>m. pt (replicate 15 demo_keypoint ! nat (trainIdx m)))
               (replicate 15 \<lparr>queryIdx = 0, trainIdx = 0, distance = 10\<rparr>)
             = replicate 15 (Point2f 0 0)"
    by (simp add: demo_keypoint_def)
  note at_demo =
    target_detection_conditions [of demo_env demo_detection demo_frame K demo_tracker,
        OF demo_mask_size member, unfolded reg single Let_def kps demo_good_matches src dst]
  have tid: "targetId demo_detection = target_id demo_target"
    using at_demo by blast
  have pnp: "fst (solvePnPRansac demo_env
          (map (\<lambda>q. Point3f
                 ((p2x q / real (mat_cols (target_image demo_target)) - 0.5)
                    * widthMeters demo_target)
                 ((p2y q / real (mat_rows (target_image demo_target)) - 0.5)
                    * heightMeters demo_target)
                 0) (replicate 15 (Point2f 0 0)))
          (replicate 15 (Point2f 0 0)) K (mat_zeros 4 1))"
    using at_demo by blast
  have conf: "detected_confidence demo_detection = 1"
    "detected_pose demo_detection = compose_pose (mat_eye 3) [[0], [0], [1]]"
    by (simp_all add: demo_detection_def)
  have good: "length (ratio_test (bf_knnMatch demo_env (target_descriptors demo_target)
                         (snd (orb_target demo_env demo_frame)) 2)) = 15"
    by (simp only: demo_good_matches length_replicate)
  show ?thesis
    using demo_mask_size demo_detectTargets [of K] reg tid pnp good conf by blast
qed

subsection \<open>Hit test\<close>

lemma invert_identity16: "invertMatrix4x4 identity16 = Some identity16"
  by (simp add: invertMatrix4x4_def cofactors_def identity16_def Let_def)

lemma multiply_identity16:
  "multiplyMat4Vec4 identity16 [a, b, c, d] = [a, b, c, d]"
  by (simp add: multiplyMat4Vec4_def upt_0_4 identity16_def)

lemma screenToRay_identity16:
  "screenToRay 320 240 640 480 identity16 identity16 =
     \<lparr>ray_ox = 0, ray_oy = 0, ray_oz = - 1, ray_dx = 0, ray_dy = 0, ray_dz = 1\<rparr>"
  by (simp add: screenToRay_def invert_identity16 Let_def multiply_identity16
        perspectiveDivide_def)

text \<open>
  C8.  For every ray with origin \<open>O\<close> and direction \<open>D\<close> and every plane \<open>(n, d)\<close>, the
  intersection routine works with \<open>t = -(n\<cdot>O + d) / (n\<cdot>D)\<close>: it reports no hit exactly
  when \<open>|n\<cdot>D| < 1e-6\<close> or \<open>t < 0\<close>, and otherwise reports a hit at \<open>O + t D\<close> with
  distance \<open>t\<close> and plane id \<open>-1\<close>.  With a valid ground plane, \<open>hitTest\<close> is this
  routine applied to the ray of the screen point and the stored ground plane.
\<close>

theorem hit_test_ray_plane:
  "(let nDotD = plane_nx pl * ray_dx ray + plane_ny pl * ray_dy ray + plane_nz pl * ray_dz ray;
        nDotO = plane_nx pl * ray_ox ray + plane_ny pl * ray_oy ray + plane_nz pl * ray_oz ray;
        t = - (nDotO + plane_d pl) / nDotD;
        r = snd (rayPlaneIntersect ray pl res)
    in fst (rayPlaneIntersect ray pl res) = hit r \<and>
       (\<not> hit r \<longleftrightarrow> \<bar>nDotD\<bar> < 0.000001 \<or> t < 0) \<and>
       (hit r \<longrightarrow>
          hit_x r = ray_ox ray + t * ray_dx ray \<and>
          hit_y r = ray_oy ray + t * ray_dy ray \<and>
          hit_z r = ray_oz ray + t * ray_dz ray \<and>
          hit_distance r = t \<and> planeId r = - 1)) \<and>
   (hasValidPlane h \<longrightarrow>
      hitTest h sx sy sw sh view proj =
        snd (rayPlaneIntersect (screenToRay sx sy sw sh view proj) (groundPlane h)
               HitTestResult_new))"
  by (simp add: rayPlaneIntersect_def hitTest_def pointAt_def Let_def mult.commute)

theorem hit_test_ray_plane_witness:
  "hasValidPlane HitTester_new \<and>
   hit (snd (rayPlaneIntersect down_ray (groundPlane HitTester_new) HitTestResult_new)) \<and>
   hit_x (snd (rayPlaneIntersect down_ray (groundPlane HitTester_new) HitTestResult_new)) = 2 \<and>
   hit_y (snd (rayPlaneIntersect down_ray (groundPlane HitTester_new) HitTestResult_new)) = 0 \<and>
   hit_z (snd (rayPlaneIntersect down_ray (groundPlane HitTester_new) HitTestResult_new)) = 5 \<and>
   hit_distance (snd (rayPlaneIntersect down_ray (groundPlane HitTester_new) HitTestResult_new)) = 3 \<and>
   hitTest HitTester_new 320 240 640 480 identity16 identity16 =
     snd (rayPlaneIntersect (screenToRay 320 240 640 480 identity16 identity16)
            (groundPlane HitTester_new) HitTestResult_new) \<and>
   \<not> hit (hitTest HitTester_new 320 240 640 480 identity16 identity16)"
  using hit_test_ray_plane [of "groundPlane HitTester_new" down_ray HitTestResult_new
      HitTester_new 320 240 640 480 identity16 identity16]
    hit_test_ray_plane [of "groundPlane HitTester_new"
      "screenToRay 320 240 640 480 identity16 identity16" HitTestResult_new
      HitTester_new 320 240 640 480 identity16 identity16]
  by (simp add: Let_def HitTester_new_def setDefaultGroundPlane_def down_ray_def
        screenToRay_identity16)

subsection \<open>View matrix\<close>

lemma upt_0_4_Suc: "[0..<Suc (Suc (Suc (Suc 0)))] = [0, 1, 2, Suc 2]"
  using upt_0_4 by (simp add: eval_nat_numeral)

lemma list4_cases:
  assumes "length xs = 4"
  obtains a b c d where "xs = [a, b, c, d]"
proof -
  from assms obtain a xs1 where 1: "xs = a # xs1" "length xs1 = 3"
    by (cases xs) auto
  then obtain b xs2 where 2: "xs1 = b # xs2" "length xs2 = 2"
    by (cases xs1) auto
  then obtain c xs3 where 3: "xs2 = c # xs3" "length xs3 = 1"
    by (cases xs2) auto
  then obtain d where 4: "xs3 = [d]"
    by (cases xs3) auto
  show ?thesis using 1 2 3 4 that by simp
qed

lemma matToArray_4x4:
  "matToArray [[a0, a1, a2, a3], [b0, b1, b2, b3], [c0, c1, c2, c3], [d0, d1, d2, d3]] =
     [a0, a1, a2, a3, b0, b1, b2, b3, c0, c1, c2, c3, d0, d1, d2, d3]"
  by (simp add: matToArray_def mat_rows_def mat_cols_def mat_at_def upt_0_4_Suc)

lemma from_row_major_16:
  "from_row_major [a0, a1, a2, a3, b0, b1, b2, b3, c0, c1, c2, c3, d0, d1, d2, d3] =
     [[a0, a1, a2, a3], [b0, b1, b2, b3], [c0, c1, c2, c3], [d0, d1, d2, d3]]"
  by (simp add: from_row_major_def upt_0_4)

lemma from_column_major_16:
  "from_column_major [a0, a1, a2, a3, b0, b1, b2, b3, c0, c1, c2, c3, d0, d1, d2, d3] =
     [[a0, b0, c0, d0], [a1, b1, c1, d1], [a2, b2, c2, d2], [a3, b3, c3, d3]]"
  by (simp add: from_column_major_def upt_0_4)

lemma is_mat4_cases:
  assumes "is_mat4 m"
  obtains a0 a1 a2 a3 b0 b1 b2 b3 c0 c1 c2 c3 d0 d1 d2 d3 where
    "m = [[a0, a1, a2, a3], [b0, b1, b2, b3], [c0, c1, c2, c3], [d0, d1, d2, d3]]"
proof -
  from assms have len: "length m = 4" by (simp add: is_mat4_def)
  then obtain r0 r1 r2 r3 where m: "m = [r0, r1, r2, r3]" by (rule list4_cases)
  from assms m have "length r0 = 4" "length r1 = 4" "length r2 = 4" "length r3 = 4"
    by (simp_all add: is_mat4_def)
  then show ?thesis using m that
    by (elim list4_cases) blast
qed

lemma row_major_roundtrip: "is_mat4 m \<Longrightarrow> from_row_major (matToArray m) = m"
  by (erule is_mat4_cases) (simp only: matToArray_4x4 from_row_major_16)

lemma mat_eye_4: "mat_eye 4 = [[1, 0, 0, 0], [0, 1, 0, 0], [0, 0, 1, 0], [0, 0, 0, 1]]"
  by (simp add: mat_eye_def upt_0_4)

lemma mat_mul_4x4:
  "mat_mul [[a0, a1, a2, a3], [b0, b1, b2, b3], [c0, c1, c2, c3], [d0, d1, d2, d3]]
           [[p0, p1, p2, p3], [q0, q1, q2, q3], [r0, r1, r2, r3], [s0, s1, s2, s3]] =
     [[a0 * p0 + a1 * q0 + a2 * r0 + a3 * s0, a0 * p1 + a1 * q1 + a2 * r1 + a3 * s1,
       a0 * p2 + a1 * q2 + a2 * r2 + a3 * s2, a0 * p3 + a1 * q3 + a2 * r3 + a3 * s3],
      [b0 * p0 + b1 * q0 + b2 * r0 + b3 * s0, b0 * p1 + b1 * q1 + b2 * r1 + b3 * s1,
       b0 * p2 + b1 * q2 + b2 * r2 + b3 * s2, b0 * p3 + b1 * q3 + b2 * r3 + b3 * s3],
      [c0 * p0 + c1 * q0 + c2 * r0 + c3 * s0, c0 * p1 + c1 * q1 + c2 * r1 + c3 * s1,
       c0 * p2 + c1 * q2 + c2 * r2 + c3 * s2, c0 * p3 + c1 * q3 + c2 * r3 + c3 * s3],
      [d0 * p0 + d1 * q0 + d2 * r0 + d3 * s0, d0 * p1 + d1 * q1 + d2 * r1 + d3 * s1,
       d0 * p2 + d1 * q2 + d2 * r2 + d3 * s2, d0 * p3 + d1 * q3 + d2 * r3 + d3 * s3]]"
  by (simp add: mat_mul_def mat_cols_def mat_at_def upt_0_4_Suc)

lemma column_major_4x4:
  "column_major [[a0, a1, a2, a3], [b0, b1, b2, b3], [c0, c1, c2, c3], [d0, d1, d2, d3]] =
     [a0, b0, c0, d0, a1, b1, c1, d1, a2, b2, c2, d2, a3, b3, c3, d3]"
  by (simp add: column_major_def mat_rows_def mat_cols_def mat_at_def upt_0_4_Suc)

lemma shift_inverse:
  "mat_inv shift_env (currentPose shift_state) =
     [[1, 0, 0, - 1], [0, 1, 0, - 2], [0, 0, 1, - 3], [0, 0, 0, 1]]"
  by (simp add: shift_env_def shift_state_def shift_pose_def negate_translation_def mat_at_def)

lemma shift_current: "currentPose shift_state = shift_pose"
  by (simp add: shift_state_def)

lemma shift_view:
  "get_view_matrix shift_env shift_state =
     [1, 0, 0, - 1, 0, 1, 0, - 2, 0, 0, 1, - 3, 0, 0, 0, 1]"
  by (simp only: get_view_matrix_def getViewMatrix_def shift_inverse matToArray_4x4)

text \<open>
  C9, as stated, fails: for the camera at \<open>(1, 2, 3)\<close> the returned array is not the
  column-major serialisation of the inverse pose, and read column-major it does not
  multiply with the pose to the identity.
\<close>

theorem view_matrix_column_major_counterexample:
  "mat_mul (mat_inv shift_env (currentPose shift_state)) (currentPose shift_state) = mat_eye 4 \<and>
   get_view_matrix shift_env shift_state
     \<noteq> column_major (mat_inv shift_env (currentPose shift_state)) \<and>
   mat_mul (from_column_major (get_view_matrix shift_env shift_state))
     (currentPose shift_state) \<noteq> mat_eye 4"
proof (intro conjI)
  show "mat_mul (mat_inv shift_env (currentPose shift_state)) (currentPose shift_state)
          = mat_eye 4"
    by (simp only: shift_inverse) (simp add: shift_current shift_pose_def mat_mul_4x4 mat_eye_4)
  show "get_view_matrix shift_env shift_state
          \<noteq> column_major (mat_inv shift_env (currentPose shift_state))"
    by (simp add: shift_view shift_inverse column_major_4x4)
  show "mat_mul (from_column_major (get_view_matrix shift_env shift_state))
          (currentPose shift_state) \<noteq> mat_eye 4"
    by (simp add: shift_view from_column_major_16 shift_current shift_pose_def mat_mul_4x4
          mat_eye_4)
qed

text \<open>
  C9, amended.  The array returned by \<open>get_view_matrix\<close> is the row-major
  serialisation of the inverse of the current pose (its rows one after the other);
  read row-major and multiplied by the current pose it yields the 4x4 identity,
  whenever \<open>cv::Mat::inv\<close> delivers a 4x4 inverse of the pose.
\<close>

theorem view_matrix_row_major:
  assumes "is_mat4 (mat_inv env (currentPose s))"
    and "mat_mul (mat_inv env (currentPose s)) (currentPose s) = mat_eye 4"
  shows "get_view_matrix env s = concat (mat_inv env (currentPose s)) \<and>
         length (get_view_matrix env s) = 16 \<and>
         from_row_major (get_view_matrix env s) = mat_inv env (currentPose s) \<and>
         mat_mul (from_row_major (get_view_matrix env s)) (currentPose s) = mat_eye 4"
proof -
  from assms(1) obtain a0 a1 a2 a3 b0 b1 b2 b3 c0 c1 c2 c3 d0 d1 d2 d3 where
    m: "mat_inv env (currentPose s) =
          [[a0, a1, a2, a3], [b0, b1, b2, b3], [c0, c1, c2, c3], [d0, d1, d2, d3]]"
    by (rule is_mat4_cases)
  have arr: "get_view_matrix env s =
          [a0, a1, a2, a3, b0, b1, b2, b3, c0, c1, c2, c3, d0, d1, d2, d3]"
    by (simp only: get_view_matrix_def getViewMatrix_def m matToArray_4x4)
  have decoded: "from_row_major (get_view_matrix env s) = mat_inv env (currentPose s)"
    by (simp only: arr from_row_major_16 m)
  have "get_view_matrix env s = concat (mat_inv env (currentPose s))"
    by (simp add: arr m)
  moreover have "length (get_view_matrix env s) = 16" by (simp add: arr)
  ultimately show ?thesis using decoded assms(2) by simp
qed

theorem view_matrix_row_major_witness:
  "is_mat4 (mat_inv shift_env (currentPose shift_state)) \<and>
   mat_mul (mat_inv shift_env (currentPose shift_state)) (currentPose shift_state) = mat_eye 4 \<and>
   get_view_matrix shift_env shift_state =
     [1, 0, 0, - 1, 0, 1, 0, - 2, 0, 0, 1, - 3, 0, 0, 0, 1] \<and>
   mat_mul (from_row_major (get_view_matrix shift_env shift_state)) (currentPose shift_state)
     = mat_eye 4"
proof -
  have four: "is_mat4 (mat_inv shift_env (currentPose shift_state))"
    by (simp add: shift_inverse is_mat4_def)
  have inv: "mat_mul (mat_inv shift_env (currentPose shift_state)) (currentPose shift_state)
               = mat_eye 4"
    by (simp only: shift_inverse) (simp add: shift_current shift_pose_def mat_mul_4x4 mat_eye_4)
  have "mat_mul (from_row_major (get_view_matrix shift_env shift_state))
          (currentPose shift_state) = mat_eye 4"
    using view_matrix_row_major [OF four inv] by blast
  then show ?thesis
    using four inv shift_view by blast
qed

subsection \<open>Tracking loss and the map\<close>

lemma map_store_set: "set (map_store k v m) \<subseteq> insert (k, v) (set m)"
  by (induction m) (auto split: if_splits)

lemma bad_entries_store:
  "\<not> isBad v \<Longrightarrow> bad_entries (map_store k v m) \<subseteq> bad_entries m"
  using map_store_set [of k v m] by (auto simp: bad_entries_def)

lemma new_point_good:
  "\<not> isBad (addObservation b (addObservation a (MapPoint_new i pos desc)))"
  by (simp add: addObservation_def MapPoint_new_def)

lemma triangulate_match_bad:
  "bad_entries (fst (triangulate_match env P1 P2 m st)) \<subseteq> bad_entries (fst st)"
proof -
  obtain mps nid kf1 kf2 where st: "st = (mps, nid, kf1, kf2)" by (cases st) auto
  show ?thesis
    unfolding st triangulate_match_def Let_def
    using bad_entries_store [OF new_point_good]
    by (simp add: addObservation_def MapPoint_new_def)
qed

lemma triangulate_fold_bad:
  "bad_entries (fst (fold (triangulate_match env P1 P2) ms st)) \<subseteq> bad_entries (fst st)"
proof (induction ms arbitrary: st)
  case Nil
  then show ?case by simp
next
  case (Cons m ms)
  have "bad_entries (fst (fold (triangulate_match env P1 P2) ms (triangulate_match env P1 P2 m st)))
          \<subseteq> bad_entries (fst (triangulate_match env P1 P2 m st))"
    by (rule Cons.IH)
  also have "\<dots> \<subseteq> bad_entries (fst st)" by (rule triangulate_match_bad)
  finally show ?case by simp
qed

lemma triangulateNewPoints_bad:
  "bad_entries (mapPoints (triangulateNewPoints env i j s)) \<subseteq> bad_entries (mapPoints s)"
proof -
  let ?r = "fold (triangulate_match env (mat_mul K (mat_rect (pose (keyframes s ! i)) 0 0 4 3))
                    (mat_mul K (mat_rect (pose (keyframes s ! j)) 0 0 4 3)))
              (keyframe_matches env (keyframes s ! i) (keyframes s ! j))
              (mapPoints s, nextMapPointId s, keyframes s ! i, keyframes s ! j)"
  have "mapPoints (triangulateNewPoints env i j s) = fst ?r"
    by (simp add: triangulateNewPoints_def Let_def split: prod.splits)
  moreover have "bad_entries (fst ?r) \<subseteq> bad_entries (mapPoints s)"
    using triangulate_fold_bad [of env _ _ _ "(mapPoints s, nextMapPointId s, keyframes s ! i,
        keyframes s ! j)"] by simp
  ultimately show ?thesis by simp
qed

lemma createKeyFrame_bad:
  "bad_entries (mapPoints (createKeyFrame env frame s)) \<subseteq> bad_entries (mapPoints s)"
proof -
  let ?s1 = "s\<lparr>nextKeyFrameId := nextKeyFrameId s + 1,
               keyframes := keyframes s @ [KeyFrame_new (nextKeyFrameId s) frame (currentPose s)
                 (prevKeypoints s) (prevDescriptors s)]\<rparr>"
  have "bad_entries (mapPoints (triangulateNewPoints env i j ?s1)) \<subseteq> bad_entries (mapPoints s)"
    for i j using triangulateNewPoints_bad [of env i j ?s1] by simp
  then show ?thesis
    by (simp add: createKeyFrame_def Let_def)
qed

lemma init_map_bad:
  "bad_entries (mapPoints (init_map env frame kps descs R t s)) \<subseteq> bad_entries (mapPoints s)"
proof -
  have "bad_entries (mapPoints (triangulateNewPoints env i j
          (s\<lparr>nextKeyFrameId := a, keyframes := b\<rparr>))) \<subseteq> bad_entries (mapPoints s)"
    for i j a b
    using triangulateNewPoints_bad [of env i j "s\<lparr>nextKeyFrameId := a, keyframes := b\<rparr>"]
    by simp
  then show ?thesis by (simp add: init_map_def Let_def)
qed

lemma init_map_flags:
  "initialized (init_map env frame kps descs R t s)"
  "tracking (init_map env frame kps descs R t s)"
  by (simp_all add: init_map_def Let_def)

lemma initialize_bad:
  "bad_entries (mapPoints (snd (initialize env frame s))) \<subseteq> bad_entries (mapPoints s)"
  by (simp add: initialize_def Let_def init_map_bad)

lemma initialize_failure:
  assumes "\<not> fst (initialize env frame s) \<or> \<not> tracking (snd (initialize env frame s))"
  shows "mapPoints (snd (initialize env frame s)) = mapPoints s"
  using assms
  by (simp add: initialize_def Let_def init_map_flags split: if_splits)

lemma track_bad:
  "bad_entries (mapPoints (snd (track env frame s))) \<subseteq> bad_entries (mapPoints s)"
proof (cases "orb_slam env frame")
  case (Pair kps descs)
  show ?thesis
  proof (cases "track_pose env kps descs s")
    case None
    then show ?thesis using Pair by (simp add: track_def)
  next
    case (Some s1)
    have "bad_entries (mapPoints (createKeyFrame env frame s1)) \<subseteq> bad_entries (mapPoints s)"
      using createKeyFrame_bad [of env frame s1] track_pose_fields(1) [OF Some] by simp
    then show ?thesis
      using Pair Some track_pose_fields(1) [OF Some]
      by (simp add: track_def Let_def)
  qed
qed

lemma track_failure:
  assumes "\<not> fst (track env frame s) \<or> \<not> tracking (snd (track env frame s))"
  shows "mapPoints (snd (track env frame s)) = mapPoints s"
proof (cases "orb_slam env frame")
  case (Pair kps descs)
  show ?thesis
  proof (cases "track_pose env kps descs s")
    case None
    then show ?thesis using Pair by (simp add: track_def)
  next
    case (Some s1)
    show ?thesis
      using assms Pair Some track_pose_fields(1) [OF Some]
      by (auto simp: track_def Let_def split: if_splits)
  qed
qed

lemma processFrame_bad:
  "bad_entries (mapPoints (snd (processFrame env frame s))) \<subseteq> bad_entries (mapPoints s)"
  using initialize_bad [of env frame "s\<lparr>frameCount := frameCount s + 1\<rparr>"]
    track_bad [of env frame "s\<lparr>frameCount := frameCount s + 1\<rparr>"]
  by (simp add: processFrame_def Let_def)

lemma processFrames_bad:
  "bad_entries (mapPoints (processFrames env frames s)) \<subseteq> bad_entries (mapPoints s)"
proof (induction frames arbitrary: s)
  case Nil
  then show ?case by (simp add: processFrames_def)
next
  case (Cons f frames)
  have "bad_entries (mapPoints (processFrames env frames (snd (processFrame env f s))))
          \<subseteq> bad_entries (mapPoints (snd (processFrame env f s)))"
    by (rule Cons.IH)
  also have "\<dots> \<subseteq> bad_entries (mapPoints s)" by (rule processFrame_bad)
  finally show ?case by (simp add: processFrames_def)
qed

text \<open>
  C10.  A \<open>process_frame\<close> call in which tracking fails (the call returns false, or the
  system is not tracking afterwards) leaves the map exactly as it was: no map point is
  added, removed or changed, so every \<open>is_bad\<close> flag and the map-point count are what
  they were.  Over any sequence of frames, from any state, the map entries flagged bad
  at the end were already there and flagged bad at the start: no frame ever sets
  \<open>is_bad\<close>.
\<close>

theorem tracking_loss_keeps_map:
  "(\<not> fst (processFrame env frame s) \<or> \<not> tracking (snd (processFrame env frame s)) \<longrightarrow>
      mapPoints (snd (processFrame env frame s)) = mapPoints s \<and>
      getMapPointCount (snd (processFrame env frame s)) = getMapPointCount s) \<and>
   bad_entries (mapPoints (processFrames env frames s)) \<subseteq> bad_entries (mapPoints s)"
proof (intro conjI impI)
  assume lost: "\<not> fst (processFrame env frame s) \<or> \<not> tracking (snd (processFrame env frame s))"
  let ?s1 = "s\<lparr>frameCount := frameCount s + 1\<rparr>"
  show same: "mapPoints (snd (processFrame env frame s)) = mapPoints s"
  proof (cases "initialized s")
    case True
    then have eq: "processFrame env frame s = track env frame ?s1"
      by (simp add: processFrame_def Let_def)
    show ?thesis using lost track_failure [of env frame ?s1] unfolding eq by simp
  next
    case False
    then have eq: "processFrame env frame s = initialize env frame ?s1"
      by (simp add: processFrame_def Let_def)
    show ?thesis using lost initialize_failure [of env frame ?s1] unfolding eq by simp
  qed
  then show "getMapPointCount (snd (processFrame env frame s)) = getMapPointCount s"
    by (simp add: getMapPointCount_def)
next
  show "bad_entries (mapPoints (processFrames env frames s)) \<subseteq> bad_entries (mapPoints s)"
    by (rule processFrames_bad)
qed

theorem tracking_loss_keeps_map_witness:
  "\<not> fst (processFrame blind_env demo_frame mapped_state) \<and>
   \<not> tracking (snd (processFrame blind_env demo_frame mapped_state)) \<and>
   mapPoints (snd (processFrame blind_env demo_frame mapped_state)) = [(0, lone_point)] \<and>
   getMapPointCount (snd (processFrame blind_env demo_frame mapped_state)) = 1 \<and>
   \<not> isBad lone_point"
proof -
  have lost: "\<not> fst (processFrame blind_env demo_frame mapped_state)"
    "\<not> tracking (snd (processFrame blind_env demo_frame mapped_state))"
    by (simp_all add: processFrame_def track_def Let_def blind_env_def mapped_state_def
          SLAMSystem_new_def MIN_TRACKING_MATCHES_def)
  have before: "mapPoints mapped_state = [(0, lone_point)]" "getMapPointCount mapped_state = 1"
    by (simp_all add: mapped_state_def getMapPointCount_def)
  have good: "\<not> isBad lone_point"
    by (simp add: lone_point_def new_point_good)
  show ?thesis
    using tracking_loss_keeps_map [of blind_env demo_frame mapped_state "[]"] lost before good
    by simp
qed

subsection \<open>Two-view initialisation\<close>

lemma filter_good_all:
  assumes "\<forall>m \<in> set ms. distance m \<le> 30"
  shows "filter_good ms = ms"
proof -
  have "\<forall>m \<in> set ms. distance m \<le> max (2 * d) 30" for d :: real
    using assms by auto
  then show ?thesis by (simp add: filter_good_def Let_def)
qed

text \<open>
  What the failing paths of the second-view branch do to the state: the path for too
  few raw matches caches the new frame; the three later ones return with the cache
  untouched.  All of them return false and leave the system uninitialised.
\<close>

lemma initialize_few_matches:
  assumes "\<not> int (length (fst (orb_slam env frame))) < MIN_INIT_MATCHES"
    and "\<not> mat_empty (prevFrame s)"
    and "int (length (init_matches env (snd (orb_slam env frame)) s)) < MIN_INIT_MATCHES"
  shows "\<not> fst (initialize env frame s)"
    and "prevFrame (snd (initialize env frame s)) = frame"
    and "prevKeypoints (snd (initialize env frame s)) = fst (orb_slam env frame)"
    and "prevDescriptors (snd (initialize env frame s)) = snd (orb_slam env frame)"
    and "initialized (snd (initialize env frame s)) = initialized s"
  using assms by (simp_all add: initialize_def Let_def)

lemma initialize_later_failures:
  assumes "\<not> int (length (fst (orb_slam env frame))) < MIN_INIT_MATCHES"
    and "\<not> mat_empty (prevFrame s)"
    and "\<not> int (length (init_matches env (snd (orb_slam env frame)) s)) < MIN_INIT_MATCHES"
    and "int (length (init_good env (snd (orb_slam env frame)) s)) < MIN_INIT_MATCHES div 2 \<or>
         mat_empty (fst (init_essential env (fst (orb_slam env frame))
                           (snd (orb_slam env frame)) s)) \<or>
         fst (init_recover env (fst (orb_slam env frame)) (snd (orb_slam env frame)) s) < 30"
  shows "\<not> fst (initialize env frame s)"
    and "prevFrame (snd (initialize env frame s)) = prevFrame s"
    and "prevKeypoints (snd (initialize env frame s)) = prevKeypoints s"
    and "prevDescriptors (snd (initialize env frame s)) = prevDescriptors s"
    and "initialized (snd (initialize env frame s)) = initialized s"
  using assms by (auto simp: initialize_def Let_def)

lemma demo_second_view:
  "fst (orb_slam demo_env second_frame) = replicate 100 demo_keypoint"
  "snd (orb_slam demo_env second_frame) = replicate 100 [0]"
  "init_matches demo_env (replicate 100 [0]) waiting_state =
     replicate 100 \<lparr>queryIdx = 0, trainIdx = 0, distance = 10\<rparr>"
  "fst (init_essential demo_env kps descs s) = []"
  by (simp_all add: demo_env_def init_matches_def init_essential_def waiting_state_def
        SLAMSystem_new_def mat_empty_def mat_rows_def mat_cols_replicate)

lemma demo_second_view_good:
  "init_good demo_env (replicate 100 [0]) waiting_state =
     replicate 100 \<lparr>queryIdx = 0, trainIdx = 0, distance = 10\<rparr>"
  unfolding init_good_def demo_second_view
  by (rule filter_good_all) simp

text \<open>
  C1 at a concrete second frame.  The system waits for its second view with frame
  \<open>demo_frame\<close> cached; the new frame \<open>second_frame\<close> has enough features, enough raw
  and good matches, but the essential matrix comes back empty.  The call returns
  false and the system stays uninitialised, yet the cached frame, keypoints and
  descriptors are still those of the old frame, not those of the new one.
\<close>

theorem second_view_failure_keeps_old_cache:
  "\<not> initialized waiting_state \<and>
   \<not> mat_empty (prevFrame waiting_state) \<and>
   length (init_matches demo_env (snd (orb_slam demo_env second_frame)) waiting_state) = 100 \<and>
   length (init_good demo_env (snd (orb_slam demo_env second_frame)) waiting_state) = 100 \<and>
   mat_empty (fst (init_essential demo_env (fst (orb_slam demo_env second_frame))
                     (snd (orb_slam demo_env second_frame)) waiting_state)) \<and>
   fst (processFrame demo_env second_frame waiting_state) = False \<and>
   initialized (snd (processFrame demo_env second_frame waiting_state)) = False \<and>
   prevFrame (snd (processFrame demo_env second_frame waiting_state)) = demo_frame \<and>
   prevFrame (snd (processFrame demo_env second_frame waiting_state)) \<noteq> second_frame \<and>
   prevDescriptors (snd (processFrame demo_env second_frame waiting_state)) = replicate 100 [1] \<and>
   prevDescriptors (snd (processFrame demo_env second_frame waiting_state))
     \<noteq> snd (orb_slam demo_env second_frame)"
proof -
  let ?s1 = "waiting_state\<lparr>frameCount := frameCount waiting_state + 1\<rparr>"
  have pf: "processFrame demo_env second_frame waiting_state =
              initialize demo_env second_frame ?s1"
    by (simp add: processFrame_def Let_def waiting_state_def SLAMSystem_new_def)
  have cached: "\<not> mat_empty (prevFrame ?s1)" "\<not> mat_empty (prevFrame waiting_state)"
    by (simp_all add: waiting_state_def demo_frame_def mat_empty_def mat_rows_def mat_cols_def)
  have same: "init_matches demo_env d ?s1 = init_matches demo_env d waiting_state"
    "init_good demo_env d ?s1 = init_good demo_env d waiting_state" for d
    by (simp_all add: init_good_def init_matches_def)
  have feats: "\<not> int (length (fst (orb_slam demo_env second_frame))) < MIN_INIT_MATCHES"
    by (simp add: demo_second_view MIN_INIT_MATCHES_def)
  have raw: "\<not> int (length (init_matches demo_env (snd (orb_slam demo_env second_frame)) ?s1))
               < MIN_INIT_MATCHES"
    by (simp add: same demo_second_view MIN_INIT_MATCHES_def)
  have noE: "mat_empty (fst (init_essential demo_env (fst (orb_slam demo_env second_frame))
                           (snd (orb_slam demo_env second_frame)) s))" for s
    by (simp add: demo_second_view(4) mat_empty_def mat_rows_def)
  note fail = initialize_later_failures [of demo_env second_frame ?s1, OF feats cached(1) raw
      disjI2 [OF disjI1 [OF noE]]]
  have old: "prevFrame ?s1 = demo_frame" "prevDescriptors ?s1 = replicate 100 [1]"
    "\<not> initialized ?s1" "\<not> initialized waiting_state"
    by (simp_all add: waiting_state_def SLAMSystem_new_def)
  have differ: "demo_frame \<noteq> second_frame" "replicate 100 [1::nat] \<noteq> replicate 100 [0]"
    by (simp_all add: demo_frame_def second_frame_def replicate_eq_replicate)
  show ?thesis
    unfolding pf
    using fail old cached(2) noE differ
    by (simp add: demo_second_view demo_second_view_good)
qed

subsection \<open>Keyframe insertion\<close>

text \<open>Once initialised, the system always has a keyframe.\<close>

lemma init_map_keyframes:
  "length (keyframes (init_map env frame kps descs R t s)) = length (keyframes s) + 2"
  by (simp add: init_map_def Let_def)

lemma initialize_keyframes:
  "initialized s \<longrightarrow> keyframes s \<noteq> [] \<Longrightarrow>
   initialized (snd (initialize env frame s)) \<longrightarrow> keyframes (snd (initialize env frame s)) \<noteq> []"
proof -
  assume inv: "initialized s \<longrightarrow> keyframes s \<noteq> []"
  have "keyframes (init_map env frame kps descs R t s) \<noteq> []" for kps descs R t
    using init_map_keyframes [of env frame kps descs R t s] by auto
  then show ?thesis using inv by (simp add: initialize_def Let_def)
qed

lemma track_keyframes:
  "length (keyframes s) \<le> length (keyframes (snd (track env frame s)))"
proof -
  obtain kps descs where orb: "orb_slam env frame = (kps, descs)"
    by (cases "orb_slam env frame") auto
  show ?thesis
  proof (cases "track_pose env kps descs s")
    case None
    then show ?thesis by (simp add: track_def orb)
  next
    case (Some s1)
    then show ?thesis
      using track_pose_fields(2) [OF Some]
      by (simp add: track_def orb Let_def)
  qed
qed

lemma processFrame_keyframes:
  assumes "initialized s \<longrightarrow> keyframes s \<noteq> []"
  shows "initialized (snd (processFrame env frame s)) \<longrightarrow>
         keyframes (snd (processFrame env frame s)) \<noteq> []"
proof (cases "initialized s")
  case True
  let ?s1 = "s\<lparr>frameCount := frameCount s + 1\<rparr>"
  have "length (keyframes ?s1) \<le> length (keyframes (snd (track env frame ?s1)))"
    by (rule track_keyframes)
  moreover have "keyframes ?s1 \<noteq> []" using assms True by simp
  ultimately have "keyframes (snd (track env frame ?s1)) \<noteq> []" by auto
  then show ?thesis using True by (simp add: processFrame_def Let_def)
next
  case False
  then show ?thesis
    using initialize_keyframes [of "s\<lparr>frameCount := frameCount s + 1\<rparr>" env frame]
    by (simp add: processFrame_def Let_def)
qed

lemma processFrames_keyframes:
  "initialized s \<longrightarrow> keyframes s \<noteq> [] \<Longrightarrow>
   initialized (processFrames env frames s) \<longrightarrow> keyframes (processFrames env frames s) \<noteq> []"
proof (induction frames arbitrary: s)
  case Nil
  then show ?case by (simp add: processFrames_def)
next
  case (Cons f frames)
  have "initialized (snd (processFrame env f s)) \<longrightarrow> keyframes (snd (processFrame env f s)) \<noteq> []"
    using Cons.prems by (rule processFrame_keyframes)
  then have "initialized (processFrames env frames (snd (processFrame env f s))) \<longrightarrow>
             keyframes (processFrames env frames (snd (processFrame env f s))) \<noteq> []"
    by (rule Cons.IH)
  then show ?case by (simp add: processFrames_def)
qed

lemma tracking_state_has_keyframe:
  "initialized (processFrames env frames SLAMSystem_new) \<Longrightarrow>
   keyframes (processFrames env frames SLAMSystem_new) \<noteq> []"
  using processFrames_keyframes [of SLAMSystem_new env frames]
  by (simp add: SLAMSystem_new_def)

text \<open>
  For 4x4 poses the distance tested by \<open>needNewKeyFrame\<close> is the Euclidean distance of
  the two translation columns.
\<close>

lemma translation_distance_4x4:
  "mat_norm (mat_sub
      (mat_rect [[a0, a1, a2, a3], [b0, b1, b2, b3], [c0, c1, c2, c3], [d0, d1, d2, d3]] 3 0 1 3)
      (mat_rect [[p0, p1, p2, p3], [q0, q1, q2, q3], [r0, r1, r2, r3], [s0, s1, s2, s3]] 3 0 1 3))
   = sqrt ((a3 - p3) * (a3 - p3) + (b3 - q3) * (b3 - q3) + (c3 - r3) * (c3 - r3))"
  by (simp add: mat_norm_def mat_sub_def mat_rect_def eval_nat_numeral)

text \<open>
  C2.  For a frame processed by an initialised system that has a keyframe, a new
  keyframe is appended exactly when, after the pose update of this frame, the system is
  tracking, the frame counter is a multiple of 15 and the distance between the
  translation column of the current pose and that of the last keyframe exceeds 0.1;
  otherwise the keyframe list keeps its length.
\<close>

theorem keyframe_insertion_rule:
  assumes "initialized s" and "keyframes s \<noteq> []"
  shows
    "(let s' = snd (processFrame env frame s);
          dist = mat_norm (mat_sub (mat_rect (currentPose s') 3 0 1 3)
                             (mat_rect (pose (last (keyframes s))) 3 0 1 3))
      in (length (keyframes s') = Suc (length (keyframes s)) \<longleftrightarrow>
            tracking s' \<and> frameCount s' mod 15 = 0 \<and> 0.1 < dist) \<and>
         (length (keyframes s') = Suc (length (keyframes s)) \<or>
          length (keyframes s') = length (keyframes s)) \<and>
         fst (processFrame env frame s) = tracking s' \<and>
         frameCount s' = frameCount s + 1)"
proof -
  let ?s1 = "s\<lparr>frameCount := frameCount s + 1\<rparr>"
  have pf: "processFrame env frame s = track env frame ?s1"
    using assms(1) by (simp add: processFrame_def Let_def)
  obtain kps descs where orb: "orb_slam env frame = (kps, descs)"
    by (cases "orb_slam env frame") auto
  show ?thesis
  proof (cases "int (length kps) < MIN_TRACKING_MATCHES")
    case True
    then show ?thesis unfolding pf Let_def by (simp add: track_def orb)
  next
    case enough: False
    show ?thesis
    proof (cases "track_pose env kps descs ?s1")
      case None
      then show ?thesis unfolding pf Let_def using enough by (simp add: track_def orb)
    next
      case (Some s2)
      have kf: "keyframes s2 = keyframes s" and fc: "frameCount s2 = frameCount s + 1"
        using track_pose_fields(2,3) [OF Some] by simp_all
      have need: "needNewKeyFrame s2 \<longleftrightarrow>
          (frameCount s + 1) mod 15 = 0 \<and>
          0.1 < mat_norm (mat_sub (mat_rect (currentPose s2) 3 0 1 3)
                            (mat_rect (pose (last (keyframes s))) 3 0 1 3))"
        using assms(2)
        by (simp add: needNewKeyFrame_def kf fc Let_def KEYFRAME_INTERVAL_def
              KEYFRAME_TRANSLATION_def)
      show ?thesis
        unfolding pf Let_def using enough need
        by (simp add: track_def orb Some kf fc)
    qed
  qed
qed

lemma track_after_pose:
  assumes "orb_slam env frame = (kps, descs)"
    and "\<not> int (length kps) < MIN_TRACKING_MATCHES"
    and "track_pose env kps descs s = Some s2"
  shows "tracking (snd (track env frame s)) = tracking s2"
    and "currentPose (snd (track env frame s)) = currentPose s2"
  using assms by (simp_all add: track_def Let_def)

lemma unit_step_pose:
  "mat_mul (mat_eye 4) (compose_pose (mat_eye 3) [[1], [0], [0]]) =
     [[1, 0, 0, 1], [0, 1, 0, 0], [0, 0, 1, 0], [0, 0, 0, 1]]"
  by code_simp

lemma moving_track_pose:
  "track_pose moving_env (replicate 100 demo_keypoint) (replicate 100 [0])
     (tracking_state\<lparr>frameCount := 15\<rparr>) =
   Some (tracking_state\<lparr>frameCount := 15,
           currentPose := [[1, 0, 0, 1], [0, 1, 0, 0], [0, 0, 1, 0], [0, 0, 0, 1]],
           tracking := True\<rparr>)"
proof -
  have nomap: "matchWithMap moving_env d (tracking_state\<lparr>frameCount := 15\<rparr>) = []" for d
    by (simp add: matchWithMap_def tracking_state_def SLAMSystem_new_def)
  have prev: "\<not> mat_empty (prevDescriptors tracking_state)"
    by (simp add: tracking_state_def mat_empty_def mat_rows_def mat_cols_replicate)
  have frameMatches: "length (bf_match moving_env a b) = 100" for a b
    by (simp add: moving_env_def demo_env_def)
  have ess: "findEssentialMat moving_env p1 p2 k = (mat_eye 3, [])" for p1 p2 k
    by (simp add: moving_env_def)
  have eye: "\<not> mat_empty (mat_eye 3)"
    by (simp add: mat_empty_def mat_rows_def mat_cols_def mat_eye_def upt_rec [of 0 3])
  have rec: "recoverPose moving_env e p1 p2 k m = (100, mat_eye 3, [[1], [0], [0]])"
    for e p1 p2 k m
    by (simp add: moving_env_def)
  have cur: "currentPose tracking_state = mat_eye 4"
    by (simp add: tracking_state_def SLAMSystem_new_def)
  show ?thesis
    unfolding track_pose_def Let_def
    by (simp add: nomap prev frameMatches ess eye rec cur unit_step_pose
          MIN_TRACKING_MATCHES_def)
qed

theorem keyframe_insertion_rule_witness:
  "initialized tracking_state \<and> keyframes tracking_state \<noteq> [] \<and>
   length (keyframes tracking_state) = 1 \<and>
   tracking (snd (processFrame moving_env second_frame tracking_state)) \<and>
   frameCount (snd (processFrame moving_env second_frame tracking_state)) = 15 \<and>
   mat_norm (mat_sub
      (mat_rect (currentPose (snd (processFrame moving_env second_frame tracking_state))) 3 0 1 3)
      (mat_rect (pose (last (keyframes tracking_state))) 3 0 1 3)) = 1 \<and>
   length (keyframes (snd (processFrame moving_env second_frame tracking_state))) = 2"
proof -
  let ?s' = "snd (processFrame moving_env second_frame tracking_state)"
  have ini: "initialized tracking_state" and kfs: "keyframes tracking_state \<noteq> []"
    and one: "length (keyframes tracking_state) = 1"
    and fc: "frameCount tracking_state = 14"
    and lastpose: "pose (last (keyframes tracking_state)) = mat_eye 4"
    by (simp_all add: tracking_state_def KeyFrame_new_def)
  have pf: "processFrame moving_env second_frame tracking_state =
              track moving_env second_frame (tracking_state\<lparr>frameCount := 15\<rparr>)"
    using ini fc by (simp add: processFrame_def Let_def)
  have orb: "orb_slam moving_env second_frame = (replicate 100 demo_keypoint, replicate 100 [0])"
    by (simp add: moving_env_def demo_env_def)
  have enough: "\<not> int (length (replicate 100 demo_keypoint)) < MIN_TRACKING_MATCHES"
    by (simp add: MIN_TRACKING_MATCHES_def)
  note after = track_after_pose [OF orb enough moving_track_pose]
  have tr: "tracking ?s'" and cp: "currentPose ?s' =
      [[1, 0, 0, 1], [0, 1, 0, 0], [0, 0, 1, 0], [0, 0, 0, 1]]"
    unfolding pf using after by simp_all
  have dist: "mat_norm (mat_sub (mat_rect (currentPose ?s') 3 0 1 3)
                 (mat_rect (pose (last (keyframes tracking_state))) 3 0 1 3)) = 1"
    unfolding cp lastpose by (simp only: mat_eye_4 translation_distance_4x4) simp
  from keyframe_insertion_rule [OF ini kfs, of moving_env second_frame]
  have rule: "length (keyframes ?s') = Suc (length (keyframes tracking_state)) \<longleftrightarrow>
                tracking ?s' \<and> frameCount ?s' mod 15 = 0 \<and>
                0.1 < mat_norm (mat_sub (mat_rect (currentPose ?s') 3 0 1 3)
                         (mat_rect (pose (last (keyframes tracking_state))) 3 0 1 3))"
    and count: "frameCount ?s' = frameCount tracking_state + 1"
    unfolding Let_def by simp_all
  have "length (keyframes ?s') = 2"
    using rule tr count fc dist one by simp
  then show ?thesis using ini kfs one tr count fc dist by simp
qed

subsection \<open>Triangulation\<close>

lemma map_of_map_store: "map_of (map_store k v m) k = Some v"
  by (induction m) auto

lemma observations_new_point:
  "observations (addObservation b (addObservation a (MapPoint_new i pos desc))) = [a, b]"
  "mp_id (addObservation b (addObservation a (MapPoint_new i pos desc))) = i"
  "worldPos (addObservation b (addObservation a (MapPoint_new i pos desc))) = pos"
  "mp_descriptor (addObservation b (addObservation a (MapPoint_new i pos desc))) = desc"
  "matchCount (addObservation b (addObservation a (MapPoint_new i pos desc))) = 3"
  by (simp_all add: addObservation_def MapPoint_new_def)

text \<open>A round of the loop either leaves its state alone or adds one fresh point.\<close>

lemma triangulate_match_cases:
  obtains (skip) "triangulate_match env P1 P2 m (mps, nextId, kf1, kf2) = (mps, nextId, kf1, kf2)"
  | (add) mp where "observations mp = [kf_id kf1, kf_id kf2]" "mp_id mp = nextId"
      "\<not> isBad mp"
      "triangulate_match env P1 P2 m (mps, nextId, kf1, kf2) =
         (map_store nextId mp mps, nextId + 1,
          kf1\<lparr>mapPointIds := (mapPointIds kf1)[nat (queryIdx m) := nextId]\<rparr>,
          kf2\<lparr>mapPointIds := (mapPointIds kf2)[nat (trainIdx m) := nextId]\<rparr>)"
proof (cases "triangulate_match env P1 P2 m (mps, nextId, kf1, kf2) = (mps, nextId, kf1, kf2)")
  case True
  then show ?thesis by (rule skip)
next
  case False
  let ?pts = "triangulatePoints env P1 P2 [pt (keypoints kf1 ! nat (queryIdx m))]
                [pt (keypoints kf2 ! nat (trainIdx m))]"
  let ?mp = "addObservation (kf_id kf2) (addObservation (kf_id kf1)
               (MapPoint_new nextId
                  (Point3f (mat_at ?pts 0 0 / mat_at ?pts 3 0) (mat_at ?pts 1 0 / mat_at ?pts 3 0)
                     (mat_at ?pts 2 0 / mat_at ?pts 3 0))
                  (descriptors kf1 ! nat (queryIdx m))))"
  have "triangulate_match env P1 P2 m (mps, nextId, kf1, kf2) =
         (map_store nextId ?mp mps, nextId + 1,
          kf1\<lparr>mapPointIds := (mapPointIds kf1)[nat (queryIdx m) := nextId]\<rparr>,
          kf2\<lparr>mapPointIds := (mapPointIds kf2)[nat (trainIdx m) := nextId]\<rparr>)"
    using False
    by (simp add: triangulate_match_def Let_def observations_new_point split: if_splits)
  then show ?thesis
    using add [of ?mp] by (simp add: observations_new_point new_point_good)
qed

text \<open>The keyframe ids stay fixed through the loop, and every entry the loop adds to the
  map carries the two ids as its observations.\<close>

lemma triangulate_match_observers:
  assumes "triangulate_match env P1 P2 m (mps, nextId, kf1, kf2) = (mps', nextId', kf1', kf2')"
  shows "kf_id kf1' = kf_id kf1 \<and> kf_id kf2' = kf_id kf2 \<and>
         (\<forall>p \<in> set mps'. p \<in> set mps \<or> observations (snd p) = [kf_id kf1, kf_id kf2])"
proof (cases rule: triangulate_match_cases [of env P1 P2 m mps nextId kf1 kf2])
  case skip
  then show ?thesis using assms by simp
next
  case (add mp)
  have "set (map_store nextId mp mps) \<subseteq> insert (nextId, mp) (set mps)"
    by (rule map_store_set)
  then show ?thesis using assms add by auto
qed

lemma triangulate_fold_observers:
  assumes "fold (triangulate_match env P1 P2) ms (mps, nextId, kf1, kf2)
             = (mps', nextId', kf1', kf2')"
  shows "kf_id kf1' = kf_id kf1 \<and> kf_id kf2' = kf_id kf2 \<and>
         (\<forall>p \<in> set mps'. p \<in> set mps \<or> observations (snd p) = [kf_id kf1, kf_id kf2])"
  using assms
proof (induction ms arbitrary: mps nextId kf1 kf2)
  case Nil
  then show ?case by simp
next
  case (Cons m ms)
  obtain a b c d where step: "triangulate_match env P1 P2 m (mps, nextId, kf1, kf2) = (a, b, c, d)"
    by (cases "triangulate_match env P1 P2 m (mps, nextId, kf1, kf2)") auto
  from triangulate_match_observers [OF step]
  have one: "kf_id c = kf_id kf1" "kf_id d = kf_id kf2"
    "\<forall>p \<in> set a. p \<in> set mps \<or> observations (snd p) = [kf_id kf1, kf_id kf2]"
    by simp_all
  from Cons.prems step have "fold (triangulate_match env P1 P2) ms (a, b, c, d)
      = (mps', nextId', kf1', kf2')" by simp
  from Cons.IH [OF this]
  have rest: "kf_id kf1' = kf_id c" "kf_id kf2' = kf_id d"
    "\<forall>p \<in> set mps'. p \<in> set a \<or> observations (snd p) = [kf_id c, kf_id d]"
    by simp_all
  show ?case using one rest by auto
qed

lemma triangulateNewPoints_observers:
  assumes "p \<in> set (mapPoints (triangulateNewPoints env i j s))"
  shows "p \<in> set (mapPoints s) \<or>
         observations (snd p) = [kf_id (keyframes s ! i), kf_id (keyframes s ! j)]"
proof -
  let ?r = "fold (triangulate_match env (mat_mul K (mat_rect (pose (keyframes s ! i)) 0 0 4 3))
                    (mat_mul K (mat_rect (pose (keyframes s ! j)) 0 0 4 3)))
              (keyframe_matches env (keyframes s ! i) (keyframes s ! j))
              (mapPoints s, nextMapPointId s, keyframes s ! i, keyframes s ! j)"
  obtain a b c d where r: "?r = (a, b, c, d)" by (cases ?r) auto
  have "mapPoints (triangulateNewPoints env i j s) = a"
    by (simp add: triangulateNewPoints_def Let_def r)
  then show ?thesis using triangulate_fold_observers [OF r] assms by auto
qed

text \<open>What a round of the loop does, on any loop state.\<close>

lemma triangulate_match_round:
  assumes "nat (queryIdx m) < length (mapPointIds kf1)"
    and "nat (trainIdx m) < length (mapPointIds kf2)"
  shows
    "(let pts4D = triangulatePoints env P1 P2 [pt (keypoints kf1 ! nat (queryIdx m))]
                    [pt (keypoints kf2 ! nat (trainIdx m))];
          w = mat_at pts4D 3 0;
          worldPt = Point3f (mat_at pts4D 0 0 / w) (mat_at pts4D 1 0 / w) (mat_at pts4D 2 0 / w);
          accept = (distance m \<le> 50 \<and> mapPointIds kf1 ! nat (queryIdx m) < 0 \<and>
                    0.000001 \<le> \<bar>w\<bar> \<and> 0 \<le> pz worldPt);
          r = triangulate_match env P1 P2 m (mps, nextId, kf1, kf2);
          mps' = fst r; nextId' = fst (snd r); kf1' = fst (snd (snd r)); kf2' = snd (snd (snd r))
      in (accept \<longleftrightarrow> nextId' = nextId + 1) \<and>
         (\<not> accept \<longrightarrow> r = (mps, nextId, kf1, kf2)) \<and>
         (accept \<longrightarrow>
            (\<exists>mp. mps' = map_store nextId mp mps \<and> map_of mps' nextId = Some mp \<and>
                  mp_id mp = nextId \<and> worldPos mp = worldPt \<and>
                  mp_descriptor mp = descriptors kf1 ! nat (queryIdx m) \<and>
                  observations mp = [kf_id kf1, kf_id kf2] \<and> \<not> isBad mp) \<and>
            mapPointIds kf1' ! nat (queryIdx m) = nextId \<and>
            mapPointIds kf2' ! nat (trainIdx m) = nextId))"
  using assms
  unfolding Let_def triangulate_match_def
  by (auto simp: observations_new_point new_point_good map_of_map_store)

text \<open>The loop writes only the map-point links of the two keyframes.\<close>

lemma triangulate_match_frame:
  assumes "triangulate_match env P1 P2 m (mps, nextId, a, b) = (mps', nextId', a', b')"
  shows "keypoints a' = keypoints a \<and> descriptors a' = descriptors a \<and>
         kf_id a' = kf_id a \<and> length (mapPointIds a') = length (mapPointIds a) \<and>
         keypoints b' = keypoints b \<and> descriptors b' = descriptors b \<and>
         kf_id b' = kf_id b \<and> length (mapPointIds b') = length (mapPointIds b)"
proof (cases rule: triangulate_match_cases [of env P1 P2 m mps nextId a b])
  case skip
  then show ?thesis using assms by simp
next
  case (add mp)
  then show ?thesis using assms by auto
qed

lemma triangulate_fold_frame:
  assumes "fold (triangulate_match env P1 P2) ms (mps, nextId, a, b) = (mps', nextId', a', b')"
  shows "keypoints a' = keypoints a \<and> descriptors a' = descriptors a \<and>
         kf_id a' = kf_id a \<and> length (mapPointIds a') = length (mapPointIds a) \<and>
         keypoints b' = keypoints b \<and> descriptors b' = descriptors b \<and>
         kf_id b' = kf_id b \<and> length (mapPointIds b') = length (mapPointIds b)"
  using assms
proof (induction ms arbitrary: mps nextId a b)
  case Nil
  then show ?case by simp
next
  case (Cons m ms)
  obtain x y c d where step: "triangulate_match env P1 P2 m (mps, nextId, a, b) = (x, y, c, d)"
    by (cases "triangulate_match env P1 P2 m (mps, nextId, a, b)") auto
  from Cons.prems step have "fold (triangulate_match env P1 P2) ms (x, y, c, d)
      = (mps', nextId', a', b')" by simp
  from Cons.IH [OF this] triangulate_match_frame [OF step] show ?case by simp
qed

text \<open>
  When the third row of a pose is \<open>(0, 0, 1, 0)\<close>, the depth of a point in the camera
  frame is its world \<open>z\<close>.
\<close>

lemma camera_depth_world_z:
  assumes "is_mat4 kfPose" and "kfPose ! 2 = [0, 0, 1, 0]"
  shows "camera_depth kfPose p = pz p"
proof -
  from assms(1) obtain r0 r1 r2 r3 where rows: "kfPose = [r0, r1, r2, r3]"
    by (auto simp: is_mat4_def length_Suc_conv numeral_eq_Suc)
  with assms(2) have r2: "r2 = [0, 0, 1, 0]" by simp
  show ?thesis
    by (simp add: camera_depth_def camera_coords_def mat_rect_def mat_mul_def mat_cols_def
          mat_at_def rows r2 upt_rec [of 0] upt_rec [of 1] upt_rec [of 2] upt_rec [of 3])
qed

lemma fold_take_Suc:
  "k < length xs \<Longrightarrow> fold f (take (Suc k) xs) a = f (xs ! k) (fold f (take k xs) a)"
  by (simp add: take_Suc_conv_app_nth)

lemma pair_keyframes:
  "keyframes pair_state ! 0 = left_keyframe" "keyframes pair_state ! 1 = right_keyframe"
  "keyframes pair_state ! Suc 0 = right_keyframe"
  "mapPoints pair_state = []" "nextMapPointId pair_state = 0"
  by (simp_all add: pair_state_def SLAMSystem_new_def)

lemma pair_matches:
  "keyframe_matches pair_env left_keyframe right_keyframe = [close_match]"
  "keyframe_matches depth_env left_keyframe right_keyframe = [close_match]"
  by (simp_all add: keyframe_matches_def pair_env_def depth_env_def left_keyframe_def
        right_keyframe_def KeyFrame_new_def mat_empty_def mat_rows_def mat_cols_def)

lemma pair_fields:
  "mapPointIds left_keyframe = [- 1]" "mapPointIds right_keyframe = [- 1]"
  "keypoints left_keyframe = [demo_keypoint]" "keypoints right_keyframe = [demo_keypoint]"
  "descriptors left_keyframe = [[1]]" "kf_id left_keyframe = 0" "kf_id right_keyframe = 1"
  "pose left_keyframe = mat_eye 4"
  "queryIdx close_match = 0" "trainIdx close_match = 0" "distance close_match = 10"
  by (simp_all add: left_keyframe_def right_keyframe_def KeyFrame_new_def close_match_def)

lemma pair_triangulation:
  "triangulatePoints pair_env p1 p2 a b = [[0], [0], [0], [1]]"
  "triangulatePoints depth_env p1 p2 a b = [[2], [4], [6], [2]]"
  by (simp_all add: pair_env_def depth_env_def demo_env_def)

lemma identity_depth: "camera_depth (mat_eye 4) p = pz p"
  by (rule camera_depth_world_z) (simp_all add: mat_eye_4 is_mat4_def)

lemma column_entries:
  "mat_at [[a], [b], [c], [d]] 0 0 = a" "mat_at [[a], [b], [c], [d]] 1 0 = b"
  "mat_at [[a], [b], [c], [d]] (Suc 0) 0 = b"
  "mat_at [[a], [b], [c], [d]] 2 0 = c" "mat_at [[a], [b], [c], [d]] 3 0 = d"
  by (simp_all add: mat_at_def)

text \<open>
  C3, as stated, fails at depth zero.  The left keyframe below has the identity pose, so
  the depth of a point in its frame is the world \<open>z\<close> of the point.  The match is close
  enough, its left keypoint is unlinked and \<open>w = 1\<close>; the reconstructed depth in the
  frame of the left keyframe is \<open>z = 0\<close>, not \<open>z > 0\<close>, and a map point is created all
  the same.
\<close>

theorem triangulation_zero_depth_counterexample:
  "keyframes pair_state = [left_keyframe, right_keyframe] \<and>
   keyframe_matches pair_env left_keyframe right_keyframe = [close_match] \<and>
   distance close_match \<le> 50 \<and>
   mapPointIds left_keyframe ! nat (queryIdx close_match) < 0 \<and>
   triangulatePoints pair_env (mat_mul K (mat_rect (pose left_keyframe) 0 0 4 3))
     (mat_mul K (mat_rect (pose right_keyframe) 0 0 4 3))
     [pt (keypoints left_keyframe ! nat (queryIdx close_match))]
     [pt (keypoints right_keyframe ! nat (trainIdx close_match))] = [[0], [0], [0], [1]] \<and>
   0.000001 \<le> \<bar>mat_at [[0], [0], [0], [1]] 3 0\<bar> \<and>
   \<not> 0 < camera_depth (pose left_keyframe)
           (Point3f (mat_at [[0], [0], [0], [1]] 0 0 / mat_at [[0], [0], [0], [1]] 3 0)
              (mat_at [[0], [0], [0], [1]] 1 0 / mat_at [[0], [0], [0], [1]] 3 0)
              (mat_at [[0], [0], [0], [1]] 2 0 / mat_at [[0], [0], [0], [1]] 3 0)) \<and>
   mapPoints (triangulateNewPoints pair_env 0 1 pair_state) =
     [(0, addObservation 1 (addObservation 0 (MapPoint_new 0 (Point3f 0 0 0) [1])))] \<and>
   nextMapPointId (triangulateNewPoints pair_env 0 1 pair_state) = 1"
proof -
  let ?P1 = "mat_mul K (mat_rect (pose left_keyframe) 0 0 4 3)"
  let ?P2 = "mat_mul K (mat_rect (pose right_keyframe) 0 0 4 3)"
  have run: "triangulate_match pair_env ?P1 ?P2 close_match
               ([], 0, left_keyframe, right_keyframe) =
      ([(0, addObservation 1 (addObservation 0 (MapPoint_new 0 (Point3f 0 0 0) [1])))], 1,
       left_keyframe\<lparr>mapPointIds := [0]\<rparr>, right_keyframe\<lparr>mapPointIds := [0]\<rparr>)"
    by (simp add: triangulate_match_def Let_def pair_fields pair_triangulation column_entries
          observations_new_point)
  have result:
    "mapPoints (triangulateNewPoints pair_env 0 1 pair_state) =
       [(0, addObservation 1 (addObservation 0 (MapPoint_new 0 (Point3f 0 0 0) [1])))]"
    "nextMapPointId (triangulateNewPoints pair_env 0 1 pair_state) = 1"
    by (simp_all add: triangulateNewPoints_def Let_def pair_keyframes pair_matches run)
  have held: "keyframes pair_state = [left_keyframe, right_keyframe]"
    by (simp add: pair_state_def SLAMSystem_new_def)
  have depth: "\<not> 0 < camera_depth (pose left_keyframe)
           (Point3f (mat_at [[0], [0], [0], [1]] 0 0 / mat_at [[0], [0], [0], [1]] 3 0)
              (mat_at [[0], [0], [0], [1]] 1 0 / mat_at [[0], [0], [0], [1]] 3 0)
              (mat_at [[0], [0], [0], [1]] 2 0 / mat_at [[0], [0], [0], [1]] 3 0))"
    by (simp add: pair_fields identity_depth column_entries)
  have eligible: "distance close_match \<le> 50"
    "mapPointIds left_keyframe ! nat (queryIdx close_match) < 0"
    "0.000001 \<le> \<bar>mat_at [[0], [0], [0], [1::real]] 3 0\<bar>"
    by (simp_all add: pair_fields column_entries)
  show ?thesis
    using held pair_matches(1) eligible depth result pair_triangulation(1) by blast
qed

text \<open>
  The depth test of the loop reads the world \<open>z\<close> of the point.  For the camera that has
  turned by half a turn, the point \<open>(0, 0, 5)\<close>, which both views see at the matched
  pixels and which lies five units behind the left camera, passes the test and enters
  the map.
\<close>

lemma turned_projections:
  "mat_mul (mat_mul K (mat_rect turned_pose 0 0 4 3)) [[0], [0], [5], [1]] =
     [[320 * (- 5)], [240 * (- 5)], [- 5]]"
  "mat_mul (mat_mul K (mat_rect beside_pose 0 0 4 3)) [[0], [0], [5], [1]] =
     [[220 * (- 5)], [240 * (- 5)], [- 5]]"
  "camera_depth turned_pose (Point3f 0 0 5) = - 5"
  by (simp_all add: camera_depth_def camera_coords_def mat_mul_def mat_rect_def mat_cols_def
        mat_at_def K_def turned_pose_def beside_pose_def
        upt_rec [of 0] upt_rec [of 1] upt_rec [of 2] upt_rec [of 3])

lemma triangulation_behind_turned_camera:
  "keyframes turned_state = [turned_keyframe, beside_keyframe] \<and>
   pt (keypoints turned_keyframe ! 0) = Point2f 320 240 \<and>
   pt (keypoints beside_keyframe ! 0) = Point2f 220 240 \<and>
   mat_mul (mat_mul K (mat_rect (pose turned_keyframe) 0 0 4 3)) [[0], [0], [5], [1]] =
     [[320 * (- 5)], [240 * (- 5)], [- 5]] \<and>
   mat_mul (mat_mul K (mat_rect (pose beside_keyframe) 0 0 4 3)) [[0], [0], [5], [1]] =
     [[220 * (- 5)], [240 * (- 5)], [- 5]] \<and>
   camera_depth (pose turned_keyframe) (Point3f 0 0 5) = - 5 \<and>
   mapPoints (triangulateNewPoints turned_env 0 1 turned_state) =
     [(0, addObservation 1 (addObservation 0 (MapPoint_new 0 (Point3f 0 0 5) [1])))]"
proof -
  have fields: "pose turned_keyframe = turned_pose" "pose beside_keyframe = beside_pose"
    "keypoints turned_keyframe = [\<lparr>pt = Point2f 320 240\<rparr>]"
    "keypoints beside_keyframe = [\<lparr>pt = Point2f 220 240\<rparr>]"
    "mapPointIds turned_keyframe = [- 1]" "mapPointIds beside_keyframe = [- 1]"
    "descriptors turned_keyframe = [[1]]" "descriptors beside_keyframe = [[1]]"
    "kf_id turned_keyframe = 0" "kf_id beside_keyframe = 1"
    by (simp_all add: turned_keyframe_def beside_keyframe_def KeyFrame_new_def)
  have held: "keyframes turned_state = [turned_keyframe, beside_keyframe]"
    "mapPoints turned_state = []" "nextMapPointId turned_state = 0"
    by (simp_all add: turned_state_def SLAMSystem_new_def)
  have matches: "keyframe_matches turned_env turned_keyframe beside_keyframe = [close_match]"
    by (simp add: keyframe_matches_def turned_env_def pair_env_def fields mat_empty_def
          mat_rows_def mat_cols_def)
  have pts: "triangulatePoints turned_env p1 p2 a b = [[0], [0], [5], [1]]" for p1 p2 a b
    by (simp add: turned_env_def)
  have run: "triangulate_match turned_env p1 p2 close_match
               ([], 0, turned_keyframe, beside_keyframe) =
      ([(0, addObservation 1 (addObservation 0 (MapPoint_new 0 (Point3f 0 0 5) [1])))], 1,
       turned_keyframe\<lparr>mapPointIds := [0]\<rparr>, beside_keyframe\<lparr>mapPointIds := [0]\<rparr>)"
    for p1 p2
    by (simp add: triangulate_match_def Let_def fields pair_fields pts column_entries
          observations_new_point)
  have result: "mapPoints (triangulateNewPoints turned_env 0 1 turned_state) =
     [(0, addObservation 1 (addObservation 0 (MapPoint_new 0 (Point3f 0 0 5) [1])))]"
    by (simp add: triangulateNewPoints_def Let_def held matches run)
  show ?thesis
    using held(1) result turned_projections by (simp add: fields)
qed

text \<open>
  C3, amended.  \<open>triangulateNewPoints\<close> runs the loop below over the matches of the two
  keyframes.  A round of the loop creates a new map point only when the descriptor
  distance is at most 50, the left keypoint has no map-point link and the homogeneous
  coordinate satisfies \<open>|w| \<ge> 1e-6\<close>.  When the depth axis of the left keyframe's frame
  is the world \<open>z\<close> axis (the third row of its pose is \<open>(0, 0, 1, 0)\<close>, as for the identity
  pose of the first keyframe), the round creates the point exactly when, in addition,
  the reconstructed depth in the frame of the left keyframe satisfies \<open>z \<ge> 0\<close>.  The
  point created gets the next free id, the left descriptor and the observations
  \<open>[KF_i.id, KF_j.id]\<close>, and both keypoint slots are linked to its id; a round that
  creates no point changes nothing.  Every map entry that was not there before the call
  has exactly these two observations.  (The match indices are within the keypoint
  lists, as the matcher guarantees.)
\<close>

theorem triangulation_round:
  assumes inrange:
    "\<forall>m \<in> set (keyframe_matches env (keyframes s ! i) (keyframes s ! j)).
        nat (queryIdx m) < length (mapPointIds (keyframes s ! i)) \<and>
        nat (trainIdx m) < length (mapPointIds (keyframes s ! j))"
  shows
    "(let kf1 = keyframes s ! i; kf2 = keyframes s ! j;
          matches = keyframe_matches env kf1 kf2;
          P1 = mat_mul K (mat_rect (pose kf1) 0 0 4 3);
          P2 = mat_mul K (mat_rect (pose kf2) 0 0 4 3);
          loop = (\<lambda>k. fold (triangulate_match env P1 P2) (take k matches)
                         (mapPoints s, nextMapPointId s, kf1, kf2));
          final = loop (length matches)
      in (\<forall>k < length matches.
            (let m = matches ! k;
                 before = loop k; after = loop (Suc k);
                 mps = fst before; nextId = fst (snd before); left = fst (snd (snd before));
                 pts4D = triangulatePoints env P1 P2 [pt (keypoints kf1 ! nat (queryIdx m))]
                           [pt (keypoints kf2 ! nat (trainIdx m))];
                 w = mat_at pts4D 3 0;
                 worldPt = Point3f (mat_at pts4D 0 0 / w) (mat_at pts4D 1 0 / w)
                             (mat_at pts4D 2 0 / w);
                 eligible = (distance m \<le> 50 \<and> mapPointIds left ! nat (queryIdx m) < 0 \<and>
                             0.000001 \<le> \<bar>w\<bar>);
                 created = (fst (snd after) = nextId + 1)
             in (created \<longrightarrow> eligible) \<and>
                (\<not> created \<longrightarrow> after = before) \<and>
                (is_mat4 (pose kf1) \<and> pose kf1 ! 2 = [0, 0, 1, 0] \<longrightarrow>
                   (created \<longleftrightarrow> eligible \<and> 0 \<le> camera_depth (pose kf1) worldPt)) \<and>
                (created \<longrightarrow>
                   (\<exists>mp. fst after = map_store nextId mp mps \<and>
                         map_of (fst after) nextId = Some mp \<and>
                         mp_id mp = nextId \<and> worldPos mp = worldPt \<and>
                         mp_descriptor mp = descriptors kf1 ! nat (queryIdx m) \<and>
                         observations mp = [kf_id kf1, kf_id kf2] \<and> \<not> isBad mp) \<and>
                   mapPointIds (fst (snd (snd after))) ! nat (queryIdx m) = nextId \<and>
                   mapPointIds (snd (snd (snd after))) ! nat (trainIdx m) = nextId))) \<and>
         triangulateNewPoints env i j s =
           s\<lparr>mapPoints := fst final, nextMapPointId := fst (snd final),
             keyframes := (keyframes s)[i := fst (snd (snd final)), j := snd (snd (snd final))]\<rparr> \<and>
         (\<forall>p \<in> set (mapPoints (triangulateNewPoints env i j s)).
             p \<in> set (mapPoints s) \<or> observations (snd p) = [kf_id kf1, kf_id kf2]))"
proof -
  define kf1 where "kf1 = keyframes s ! i"
  define kf2 where "kf2 = keyframes s ! j"
  define matches where "matches = keyframe_matches env kf1 kf2"
  define P1 where "P1 = mat_mul K (mat_rect (pose kf1) 0 0 4 3)"
  define P2 where "P2 = mat_mul K (mat_rect (pose kf2) 0 0 4 3)"
  define loop where "loop k = fold (triangulate_match env P1 P2) (take k matches)
                         (mapPoints s, nextMapPointId s, kf1, kf2)" for k
  have whole: "triangulateNewPoints env i j s =
      s\<lparr>mapPoints := fst (loop (length matches)),
        nextMapPointId := fst (snd (loop (length matches))),
        keyframes := (keyframes s)[i := fst (snd (snd (loop (length matches)))),
                                   j := snd (snd (snd (loop (length matches))))]\<rparr>"
    by (simp add: triangulateNewPoints_def Let_def loop_def matches_def P1_def P2_def
          kf1_def kf2_def split: prod.splits)
  have observers: "\<forall>p \<in> set (mapPoints (triangulateNewPoints env i j s)).
      p \<in> set (mapPoints s) \<or> observations (snd p) = [kf_id kf1, kf_id kf2]"
    using triangulateNewPoints_observers unfolding kf1_def kf2_def by blast
  have round: "let m = matches ! k;
                 before = loop k; after = loop (Suc k);
                 mps = fst before; nextId = fst (snd before); left = fst (snd (snd before));
                 pts4D = triangulatePoints env P1 P2 [pt (keypoints kf1 ! nat (queryIdx m))]
                           [pt (keypoints kf2 ! nat (trainIdx m))];
                 w = mat_at pts4D 3 0;
                 worldPt = Point3f (mat_at pts4D 0 0 / w) (mat_at pts4D 1 0 / w)
                             (mat_at pts4D 2 0 / w);
                 eligible = (distance m \<le> 50 \<and> mapPointIds left ! nat (queryIdx m) < 0 \<and>
                             0.000001 \<le> \<bar>w\<bar>);
                 created = (fst (snd after) = nextId + 1)
             in (created \<longrightarrow> eligible) \<and>
                (\<not> created \<longrightarrow> after = before) \<and>
                (is_mat4 (pose kf1) \<and> pose kf1 ! 2 = [0, 0, 1, 0] \<longrightarrow>
                   (created \<longleftrightarrow> eligible \<and> 0 \<le> camera_depth (pose kf1) worldPt)) \<and>
                (created \<longrightarrow>
                   (\<exists>mp. fst after = map_store nextId mp mps \<and>
                         map_of (fst after) nextId = Some mp \<and>
                         mp_id mp = nextId \<and> worldPos mp = worldPt \<and>
                         mp_descriptor mp = descriptors kf1 ! nat (queryIdx m) \<and>
                         observations mp = [kf_id kf1, kf_id kf2] \<and> \<not> isBad mp) \<and>
                   mapPointIds (fst (snd (snd after))) ! nat (queryIdx m) = nextId \<and>
                   mapPointIds (snd (snd (snd after))) ! nat (trainIdx m) = nextId)"
    if k: "k < length matches" for k
  proof -
    define m where "m = matches ! k"
    obtain mps nextId a b where before: "loop k = (mps, nextId, a, b)"
      by (cases "loop k") auto
    have frame: "keypoints a = keypoints kf1 \<and> descriptors a = descriptors kf1 \<and>
         kf_id a = kf_id kf1 \<and> length (mapPointIds a) = length (mapPointIds kf1) \<and>
         keypoints b = keypoints kf2 \<and> descriptors b = descriptors kf2 \<and>
         kf_id b = kf_id kf2 \<and> length (mapPointIds b) = length (mapPointIds kf2)"
      using before unfolding loop_def by (rule triangulate_fold_frame)
    have "m \<in> set matches" using k by (simp add: m_def)
    then have "nat (queryIdx m) < length (mapPointIds kf1) \<and>
               nat (trainIdx m) < length (mapPointIds kf2)"
      using inrange unfolding matches_def kf1_def kf2_def by blast
    then have inr: "nat (queryIdx m) < length (mapPointIds a)"
      "nat (trainIdx m) < length (mapPointIds b)"
      using frame by simp_all
    have after: "loop (Suc k) = triangulate_match env P1 P2 m (mps, nextId, a, b)"
      using k before unfolding loop_def m_def by (simp add: fold_take_Suc)
    define pts4D where
      "pts4D = triangulatePoints env P1 P2 [pt (keypoints kf1 ! nat (queryIdx m))]
                 [pt (keypoints kf2 ! nat (trainIdx m))]"
    define w where "w = mat_at pts4D 3 0"
    define worldPt where
      "worldPt = Point3f (mat_at pts4D 0 0 / w) (mat_at pts4D 1 0 / w) (mat_at pts4D 2 0 / w)"
    define eligible where
      "eligible \<longleftrightarrow> distance m \<le> 50 \<and> mapPointIds a ! nat (queryIdx m) < 0 \<and> 0.000001 \<le> \<bar>w\<bar>"
    define created where "created \<longleftrightarrow> fst (snd (loop (Suc k))) = nextId + 1"
    define linked where
      "linked \<longleftrightarrow>
         (\<exists>mp. fst (loop (Suc k)) = map_store nextId mp mps \<and>
               map_of (fst (loop (Suc k))) nextId = Some mp \<and>
               mp_id mp = nextId \<and> worldPos mp = worldPt \<and>
               mp_descriptor mp = descriptors kf1 ! nat (queryIdx m) \<and>
               observations mp = [kf_id kf1, kf_id kf2] \<and> \<not> isBad mp) \<and>
         mapPointIds (fst (snd (snd (loop (Suc k))))) ! nat (queryIdx m) = nextId \<and>
         mapPointIds (snd (snd (snd (loop (Suc k))))) ! nat (trainIdx m) = nextId"
    have code:
      "(eligible \<and> 0 \<le> pz worldPt \<longleftrightarrow> created) \<and>
       (\<not> (eligible \<and> 0 \<le> pz worldPt) \<longrightarrow> loop (Suc k) = loop k) \<and>
       (eligible \<and> 0 \<le> pz worldPt \<longrightarrow> linked)"
      using triangulate_match_round [OF inr, of env P1 P2 mps nextId, unfolded Let_def] frame
      by (auto simp: eligible_def created_def linked_def worldPt_def w_def pts4D_def after before)
    have necessary: "created \<longrightarrow> eligible" using code by blast
    have skipped: "\<not> created \<longrightarrow> loop (Suc k) = loop k" using code by blast
    have exact: "is_mat4 (pose kf1) \<and> pose kf1 ! 2 = [0, 0, 1, 0] \<longrightarrow>
             (created \<longleftrightarrow> eligible \<and> 0 \<le> camera_depth (pose kf1) worldPt)"
    proof
      assume "is_mat4 (pose kf1) \<and> pose kf1 ! 2 = [0, 0, 1, 0]"
      then have "camera_depth (pose kf1) worldPt = pz worldPt"
        by (simp add: camera_depth_world_z)
      then show "created \<longleftrightarrow> eligible \<and> 0 \<le> camera_depth (pose kf1) worldPt"
        using code by simp
    qed
    have point: "created \<longrightarrow> linked" using code by blast
    from necessary skipped exact point
    have "(created \<longrightarrow> eligible) \<and>
          (\<not> created \<longrightarrow> loop (Suc k) = loop k) \<and>
          (is_mat4 (pose kf1) \<and> pose kf1 ! 2 = [0, 0, 1, 0] \<longrightarrow>
             (created \<longleftrightarrow> eligible \<and> 0 \<le> camera_depth (pose kf1) worldPt)) \<and>
          (created \<longrightarrow> linked)"
      by (intro conjI)
    then show ?thesis
      unfolding Let_def m_def [symmetric] pts4D_def [symmetric] w_def [symmetric]
        worldPt_def [symmetric] before fst_conv snd_conv eligible_def created_def linked_def
      by this
  qed
  show ?thesis
    unfolding Let_def kf1_def [symmetric] kf2_def [symmetric] matches_def [symmetric]
      P1_def [symmetric] P2_def [symmetric] loop_def [symmetric]
    by (rule conjI, (intro allI impI, rule round [unfolded Let_def], assumption),
        rule conjI, rule whole, rule observers)
qed

theorem triangulation_round_witness:
  "keyframes pair_state = [left_keyframe, right_keyframe] \<and>
   keyframe_matches depth_env left_keyframe right_keyframe = [close_match] \<and>
   nat (queryIdx close_match) < length (mapPointIds left_keyframe) \<and>
   nat (trainIdx close_match) < length (mapPointIds right_keyframe) \<and>
   is_mat4 (pose left_keyframe) \<and> pose left_keyframe ! 2 = [0, 0, 1, 0] \<and>
   distance close_match \<le> 50 \<and>
   mapPointIds left_keyframe ! nat (queryIdx close_match) < 0 \<and>
   camera_depth (pose left_keyframe) (Point3f 1 2 3) = 3 \<and>
   nextMapPointId (triangulateNewPoints depth_env 0 1 pair_state) = 1 \<and>
   mapPoints (triangulateNewPoints depth_env 0 1 pair_state) =
     [(0, addObservation 1 (addObservation 0 (MapPoint_new 0 (Point3f 1 2 3) [1])))] \<and>
   map mapPointIds (keyframes (triangulateNewPoints depth_env 0 1 pair_state)) = [[0], [0]]"
proof -
  let ?P1 = "mat_mul K (mat_rect (pose left_keyframe) 0 0 4 3)"
  let ?P2 = "mat_mul K (mat_rect (pose right_keyframe) 0 0 4 3)"
  let ?r = "triangulate_match depth_env ?P1 ?P2 close_match ([], 0, left_keyframe, right_keyframe)"
  have inr: "\<forall>m \<in> set (keyframe_matches depth_env (keyframes pair_state ! 0)
                           (keyframes pair_state ! 1)).
        nat (queryIdx m) < length (mapPointIds (keyframes pair_state ! 0)) \<and>
        nat (trainIdx m) < length (mapPointIds (keyframes pair_state ! 1))"
    by (simp add: pair_keyframes pair_matches pair_fields)
  have frame: "is_mat4 (pose left_keyframe) \<and> pose left_keyframe ! 2 = [0, 0, 1, 0]"
    by (simp add: pair_fields mat_eye_4 is_mat4_def)
  have depth: "camera_depth (pose left_keyframe) (Point3f 1 2 3) = 3"
    by (simp add: pair_fields identity_depth)
  note inst = triangulation_round [OF inr, unfolded Let_def pair_keyframes pair_matches]
  from inst [THEN conjunct1, rule_format, of 0] frame depth
  have created: "fst (snd ?r) = 1"
    by (simp add: pair_fields pair_triangulation column_entries)
  from inst [THEN conjunct2, THEN conjunct1] created
  have counter: "nextMapPointId (triangulateNewPoints depth_env 0 1 pair_state) = 1"
    by simp
  have run: "?r =
      ([(0, addObservation 1 (addObservation 0 (MapPoint_new 0 (Point3f 1 2 3) [1])))], 1,
       left_keyframe\<lparr>mapPointIds := [0]\<rparr>, right_keyframe\<lparr>mapPointIds := [0]\<rparr>)"
    by (simp add: triangulate_match_def Let_def pair_fields pair_triangulation column_entries
          observations_new_point)
  have result:
    "mapPoints (triangulateNewPoints depth_env 0 1 pair_state) =
       [(0, addObservation 1 (addObservation 0 (MapPoint_new 0 (Point3f 1 2 3) [1])))]"
    "map mapPointIds (keyframes (triangulateNewPoints depth_env 0 1 pair_state)) = [[0], [0]]"
    by (simp_all add: triangulateNewPoints_def Let_def pair_keyframes pair_matches run
          pair_state_def SLAMSystem_new_def)
  have held: "keyframes pair_state = [left_keyframe, right_keyframe]"
    by (simp add: pair_state_def SLAMSystem_new_def)
  have eligible: "nat (queryIdx close_match) < length (mapPointIds left_keyframe)"
    "nat (trainIdx close_match) < length (mapPointIds right_keyframe)"
    "distance close_match \<le> 50" "mapPointIds left_keyframe ! nat (queryIdx close_match) < 0"
    by (simp_all add: pair_fields)
  show ?thesis
    using held pair_matches(2) eligible frame depth counter result by blast
qed

subsection \<open>Loop closure\<close>

text \<open>
  The candidate loop keeps the first index with the largest count among those with a
  count above 50, and \<open>-1\<close> when there is none.
\<close>

lemma loop_scan_invariant:
  fixes g :: "nat \<Rightarrow> int"
  defines "step \<equiv> \<lambda>i acc. (if snd acc < g i \<and> 50 < g i then (int i, g i) else acc)"
  shows "(fold step [0..<k] (- 1, 0) = (- 1, 0) \<and> (\<forall>i < k. g i \<le> 50)) \<or>
         (\<exists>b < k. fold step [0..<k] (- 1, 0) = (int b, g b) \<and> 50 < g b \<and>
                   (\<forall>i < k. g i \<le> g b) \<and> (\<forall>i < b. g i < g b))"
proof (induction k)
  case 0
  then show ?case by simp
next
  case (Suc k)
  have unroll: "fold step [0..<Suc k] (- 1, 0) = step k (fold step [0..<k] (- 1, 0))"
    by simp
  from Suc.IH show ?case
  proof (elim disjE conjE exE)
    assume none: "fold step [0..<k] (- 1, 0) = (- 1, 0)" and low: "\<forall>i < k. g i \<le> 50"
    show ?thesis
    proof (cases "50 < g k")
      case True
      then have "fold step [0..<Suc k] (- 1, 0) = (int k, g k)"
        unfolding unroll none by (simp add: step_def)
      moreover have "\<forall>i < Suc k. g i \<le> g k"
        using low True by (auto simp: less_Suc_eq)
      moreover have "\<forall>i < k. g i < g k" using low True by auto
      ultimately show ?thesis using True by blast
    next
      case False
      then have "fold step [0..<Suc k] (- 1, 0) = (- 1, 0)"
        unfolding unroll none by (simp add: step_def)
      moreover have "\<forall>i < Suc k. g i \<le> 50"
        using low False by (auto simp: less_Suc_eq)
      ultimately show ?thesis by blast
    qed
  next
    fix b
    assume b: "b < k" and best: "fold step [0..<k] (- 1, 0) = (int b, g b)"
      and high: "50 < g b" and top: "\<forall>i < k. g i \<le> g b" and first: "\<forall>i < b. g i < g b"
    show ?thesis
    proof (cases "g b < g k")
      case True
      then have "fold step [0..<Suc k] (- 1, 0) = (int k, g k)"
        unfolding unroll best using high by (simp add: step_def)
      moreover have "\<forall>i < Suc k. g i \<le> g k"
        using top True by (auto simp: less_Suc_eq)
      moreover have "\<forall>i < k. g i < g k" using top True by (meson le_less_trans)
      moreover have "50 < g k" using high True by simp
      ultimately show ?thesis by blast
    next
      case False
      then have "fold step [0..<Suc k] (- 1, 0) = (int b, g b)"
        unfolding unroll best by (simp add: step_def)
      moreover have "\<forall>i < Suc k. g i \<le> g b"
        using top False by (auto simp: less_Suc_eq)
      moreover have "b < Suc k" using b by simp
      ultimately show ?thesis using high first by blast
    qed
  qed
qed

lemma loop_candidate_fold:
  "fold (loop_candidate env kfs currentKF) xs acc =
   fold (\<lambda>i acc. if snd acc < goodCount env (kfs ! i) currentKF \<and>
                      50 < goodCount env (kfs ! i) currentKF
                   then (int i, goodCount env (kfs ! i) currentKF) else acc) xs acc"
proof -
  have "loop_candidate env kfs currentKF =
        (\<lambda>i acc. if snd acc < goodCount env (kfs ! i) currentKF \<and>
                      50 < goodCount env (kfs ! i) currentKF
                   then (int i, goodCount env (kfs ! i) currentKF) else acc)"
    by (rule ext, rule ext) (simp add: loop_candidate_def Let_def split: prod.splits)
  then show ?thesis by simp
qed

lemma detectLoopClosure_scan:
  fixes env s cur
  defines "g \<equiv> \<lambda>i. goodCount env (keyframes s ! i) (keyframes s ! cur)"
  defines "n \<equiv> length (keyframes s) - 5"
  shows "(detectLoopClosure env cur s = (False, s) \<and> (\<forall>i < n. g i \<le> 50)) \<or>
         (\<exists>b < n. 50 < g b \<and> (\<forall>i < n. g i \<le> g b) \<and> (\<forall>i < b. g i < g b) \<and>
            detectLoopClosure env cur s =
              (True, localBundleAdjustment
                       (say (LoopClosureDetected (kf_id (keyframes s ! cur))
                               (kf_id (keyframes s ! b))) s)))"
proof -
  let ?scan = "fold (loop_candidate env (keyframes s) (keyframes s ! cur)) [0..<n] (- 1, 0)"
  have scan: "?scan = fold (\<lambda>i acc. if snd acc < g i \<and> 50 < g i then (int i, g i) else acc)
                        [0..<n] (- 1, 0)"
    unfolding g_def by (rule loop_candidate_fold)
  from loop_scan_invariant [of g n] show ?thesis
  proof (elim disjE conjE exE)
    assume "fold (\<lambda>i acc. if snd acc < g i \<and> 50 < g i then (int i, g i) else acc)
              [0..<n] (- 1, 0) = (- 1, 0)"
      and low: "\<forall>i < n. g i \<le> 50"
    then have "?scan = (- 1, 0)" using scan by simp
    then have "detectLoopClosure env cur s = (False, s)"
      unfolding detectLoopClosure_def Let_def n_def by simp
    then show ?thesis using low by blast
  next
    fix b
    assume b: "b < n"
      and "fold (\<lambda>i acc. if snd acc < g i \<and> 50 < g i then (int i, g i) else acc)
              [0..<n] (- 1, 0) = (int b, g b)"
      and rest: "50 < g b" "\<forall>i < n. g i \<le> g b" "\<forall>i < b. g i < g b"
    then have "?scan = (int b, g b)" using scan by simp
    then have "detectLoopClosure env cur s =
              (True, localBundleAdjustment
                       (say (LoopClosureDetected (kf_id (keyframes s ! cur))
                               (kf_id (keyframes s ! b))) s))"
      unfolding detectLoopClosure_def Let_def n_def by simp
    then show ?thesis using b rest by blast
  qed
qed

lemma loop_state_keyframes:
  "length (keyframes loop_state) = 11"
  "i < 11 \<Longrightarrow> keyframes loop_state ! i = numbered_keyframe i"
  by (simp_all add: loop_state_def)

lemma numbered_goodCount:
  "goodCount loop_env (numbered_keyframe i) (numbered_keyframe j) = (if i = 5 then 51 else 0)"
  by (simp add: goodCount_def keyframe_matches_def numbered_keyframe_def KeyFrame_new_def
        mat_empty_def mat_rows_def mat_cols_def loop_env_def)

lemma loop_state_goodCount:
  "i < 11 \<Longrightarrow>
   goodCount loop_env (keyframes loop_state ! i) (keyframes loop_state ! 10)
     = (if i = 5 then 51 else 0)"
  by (simp add: loop_state_keyframes numbered_goodCount)

lemma loop_state_detect:
  "detectLoopClosure loop_env 10 loop_state =
     (True, localBundleAdjustment (say (LoopClosureDetected 10 5) loop_state))"
proof -
  let ?g = "\<lambda>i. goodCount loop_env (keyframes loop_state ! i) (keyframes loop_state ! 10)"
  have n: "length (keyframes loop_state) - 5 = 6" by (simp add: loop_state_keyframes)
  have g5: "?g 5 = 51" by (simp add: loop_state_goodCount)
  have ids: "kf_id (keyframes loop_state ! 10) = 10" "kf_id (keyframes loop_state ! 5) = 5"
    by (simp_all add: loop_state_keyframes numbered_keyframe_def KeyFrame_new_def)
  from detectLoopClosure_scan [of loop_env 10 loop_state]
  show ?thesis
    unfolding n
  proof (elim disjE conjE exE)
    assume "\<forall>i < 6. ?g i \<le> 50"
    then have "?g 5 \<le> 50" by simp
    then show ?thesis using g5 by simp
  next
    fix b assume b: "b < 6" and high: "50 < ?g b"
      and res: "detectLoopClosure loop_env 10 loop_state =
          (True, localBundleAdjustment
                   (say (LoopClosureDetected (kf_id (keyframes loop_state ! 10))
                           (kf_id (keyframes loop_state ! b))) loop_state))"
    have "b = 5"
    proof (rule ccontr)
      assume "b \<noteq> 5"
      then have "?g b = 0" using b by (simp add: loop_state_goodCount)
      then show False using high by simp
    qed
    then show ?thesis using res ids by simp
  qed
qed

text \<open>
  C4, as stated, fails on the range of candidates.  With eleven keyframes the
  just-inserted one is \<open>KF\<^sub>1\<^sub>0\<close>; none of \<open>KF\<^sub>0 \<dots> KF\<^sub>4\<close> (the keyframes with \<open>i < 10 - 5\<close>)
  has a single good match, yet a loop is reported, with \<open>KF\<^sub>5\<close>.
\<close>

theorem loop_closure_range_counterexample:
  "length (keyframes loop_state) = 11 \<and>
   kf_id (keyframes loop_state ! 10) = 10 \<and>
   goodCount loop_env (keyframes loop_state ! 0) (keyframes loop_state ! 10) = 0 \<and>
   goodCount loop_env (keyframes loop_state ! 1) (keyframes loop_state ! 10) = 0 \<and>
   goodCount loop_env (keyframes loop_state ! 2) (keyframes loop_state ! 10) = 0 \<and>
   goodCount loop_env (keyframes loop_state ! 3) (keyframes loop_state ! 10) = 0 \<and>
   goodCount loop_env (keyframes loop_state ! 4) (keyframes loop_state ! 10) = 0 \<and>
   goodCount loop_env (keyframes loop_state ! 5) (keyframes loop_state ! 10) = 51 \<and>
   fst (detectLoopClosure loop_env 10 loop_state) \<and>
   console (snd (detectLoopClosure loop_env 10 loop_state)) =
     console loop_state @ [LoopClosureDetected 10 5, LocalBundleAdjustmentRun]"
proof -
  have "kf_id (keyframes loop_state ! 10) = 10"
    by (simp add: loop_state_keyframes numbered_keyframe_def KeyFrame_new_def)
  then show ?thesis
    by (simp add: loop_state_keyframes(1) loop_state_goodCount loop_state_detect
          localBundleAdjustment_def)
qed

text \<open>
  C4, amended.  \<open>createKeyFrame\<close> runs the loop-closure search only when the keyframe
  count, the new keyframe included, exceeds 10.  With \<open>N\<close> keyframes, the new one last,
  the search looks at the keyframes \<open>KF\<^sub>i\<close> with \<open>i < N - 5\<close> (for the just-inserted
  \<open>KF\<^sub>n\<close>, \<open>n = N - 1\<close>, these are the \<open>i \<le> n - 5\<close>), counts for each the matches with
  distance below 40, and reports a loop exactly when some count is above 50; the
  candidate reported is the first keyframe with the largest count.  The
  bundle-adjustment hook, and the search as a whole, leave keyframes, map points and
  the current pose unchanged.
\<close>

theorem loop_closure_rule:
  "(10 < length (keyframes s) \<longrightarrow>
      (let n = length (keyframes s);
           good = (\<lambda>i. int (length (filter (\<lambda>m. distance m < 40)
                     (keyframe_matches env (keyframes s ! i) (keyframes s ! cur)))));
           r = detectLoopClosure env cur s
       in (fst r \<longleftrightarrow> (\<exists>i < n - 5. 50 < good i)) \<and>
          (\<not> fst r \<longrightarrow> snd r = s) \<and>
          (fst r \<longrightarrow>
             (\<exists>b < n - 5. 50 < good b \<and> (\<forall>i < n - 5. good i \<le> good b) \<and>
                 (\<forall>i < b. good i < good b) \<and>
                 console (snd r) =
                   console s @ [LoopClosureDetected (kf_id (keyframes s ! cur))
                                  (kf_id (keyframes s ! b)), LocalBundleAdjustmentRun])) \<and>
          keyframes (snd r) = keyframes s \<and> mapPoints (snd r) = mapPoints s \<and>
          currentPose (snd r) = currentPose s)) \<and>
   (let kf = KeyFrame_new (nextKeyFrameId s0) frame (currentPose s0) (prevKeypoints s0)
               (prevDescriptors s0);
        s1 = s0\<lparr>nextKeyFrameId := nextKeyFrameId s0 + 1, keyframes := keyframes s0 @ [kf]\<rparr>;
        n = length (keyframes s0) + 1;
        s2 = (if 2 \<le> n then triangulateNewPoints env (n - 2) (n - 1) s1 else s1)
    in (n \<le> 10 \<longrightarrow>
          console (createKeyFrame env frame s0) =
            console s0 @ [KeyFrameCreated (nextKeyFrameId s0) (length (mapPoints s2))]) \<and>
       (10 < n \<longrightarrow>
          createKeyFrame env frame s0 =
            say (KeyFrameCreated (nextKeyFrameId s0) (length (mapPoints s2)))
              (snd (detectLoopClosure env (n - 1) s2)))) \<and>
   keyframes (localBundleAdjustment s) = keyframes s \<and>
   mapPoints (localBundleAdjustment s) = mapPoints s \<and>
   currentPose (localBundleAdjustment s) = currentPose s"
proof (intro conjI impI)
  show "keyframes (localBundleAdjustment s) = keyframes s"
    "mapPoints (localBundleAdjustment s) = mapPoints s"
    "currentPose (localBundleAdjustment s) = currentPose s"
    by simp_all
next
  show "let kf = KeyFrame_new (nextKeyFrameId s0) frame (currentPose s0) (prevKeypoints s0)
               (prevDescriptors s0);
        s1 = s0\<lparr>nextKeyFrameId := nextKeyFrameId s0 + 1, keyframes := keyframes s0 @ [kf]\<rparr>;
        n = length (keyframes s0) + 1;
        s2 = (if 2 \<le> n then triangulateNewPoints env (n - 2) (n - 1) s1 else s1)
    in (n \<le> 10 \<longrightarrow>
          console (createKeyFrame env frame s0) =
            console s0 @ [KeyFrameCreated (nextKeyFrameId s0) (length (mapPoints s2))]) \<and>
       (10 < n \<longrightarrow>
          createKeyFrame env frame s0 =
            say (KeyFrameCreated (nextKeyFrameId s0) (length (mapPoints s2)))
              (snd (detectLoopClosure env (n - 1) s2)))"
    by (simp add: createKeyFrame_def Let_def KeyFrame_new_def)
next
  assume "10 < length (keyframes s)"
  let ?g = "\<lambda>i. goodCount env (keyframes s ! i) (keyframes s ! cur)"
  let ?n = "length (keyframes s) - 5"
  have main: "(fst (detectLoopClosure env cur s) \<longleftrightarrow> (\<exists>i < ?n. 50 < ?g i)) \<and>
          (\<not> fst (detectLoopClosure env cur s) \<longrightarrow> snd (detectLoopClosure env cur s) = s) \<and>
          (fst (detectLoopClosure env cur s) \<longrightarrow>
             (\<exists>b < ?n. 50 < ?g b \<and> (\<forall>i < ?n. ?g i \<le> ?g b) \<and> (\<forall>i < b. ?g i < ?g b) \<and>
                 console (snd (detectLoopClosure env cur s)) =
                   console s @ [LoopClosureDetected (kf_id (keyframes s ! cur))
                                  (kf_id (keyframes s ! b)), LocalBundleAdjustmentRun]))"
    using detectLoopClosure_scan [of env cur s]
  proof (elim disjE conjE exE)
    assume "detectLoopClosure env cur s = (False, s)" and "\<forall>i < ?n. ?g i \<le> 50"
    then show ?thesis by (auto simp: not_less)
  next
    fix b
    assume b: "b < ?n" "50 < ?g b" "\<forall>i < ?n. ?g i \<le> ?g b" "\<forall>i < b. ?g i < ?g b"
      and res: "detectLoopClosure env cur s =
          (True, localBundleAdjustment
                   (say (LoopClosureDetected (kf_id (keyframes s ! cur))
                           (kf_id (keyframes s ! b))) s))"
    have "console (snd (detectLoopClosure env cur s)) =
            console s @ [LoopClosureDetected (kf_id (keyframes s ! cur))
                           (kf_id (keyframes s ! b)), LocalBundleAdjustmentRun]"
      by (simp add: res localBundleAdjustment_def)
    then show ?thesis using b res by auto
  qed
  show "let n = length (keyframes s);
           good = (\<lambda>i. int (length (filter (\<lambda>m. distance m < 40)
                     (keyframe_matches env (keyframes s ! i) (keyframes s ! cur)))));
           r = detectLoopClosure env cur s
       in (fst r \<longleftrightarrow> (\<exists>i < n - 5. 50 < good i)) \<and>
          (\<not> fst r \<longrightarrow> snd r = s) \<and>
          (fst r \<longrightarrow>
             (\<exists>b < n - 5. 50 < good b \<and> (\<forall>i < n - 5. good i \<le> good b) \<and>
                 (\<forall>i < b. good i < good b) \<and>
                 console (snd r) =
                   console s @ [LoopClosureDetected (kf_id (keyframes s ! cur))
                                  (kf_id (keyframes s ! b)), LocalBundleAdjustmentRun])) \<and>
          keyframes (snd r) = keyframes s \<and> mapPoints (snd r) = mapPoints s \<and>
          currentPose (snd r) = currentPose s"
    unfolding Let_def using main by (simp add: goodCount_def)
qed

theorem loop_closure_rule_witness:
  "10 < length (keyframes loop_state) \<and>
   fst (detectLoopClosure loop_env 10 loop_state) \<and>
   (\<exists>i < length (keyframes loop_state) - 5.
      50 < int (length (filter (\<lambda>m. distance m < 40)
                  (keyframe_matches loop_env (keyframes loop_state ! i)
                     (keyframes loop_state ! 10))))) \<and>
   keyframes (snd (detectLoopClosure loop_env 10 loop_state)) = keyframes loop_state \<and>
   mapPoints (snd (detectLoopClosure loop_env 10 loop_state)) = mapPoints loop_state \<and>
   length (keyframes SLAMSystem_new) + 1 \<le> 10 \<and>
   console (createKeyFrame loop_env demo_frame SLAMSystem_new) =
     [SystemReady, KeyFrameCreated 0 0]"
proof -
  have many: "10 < length (keyframes loop_state)" by (simp add: loop_state_keyframes)
  have hit: "fst (detectLoopClosure loop_env 10 loop_state)" by (simp add: loop_state_detect)
  have few: "length (keyframes SLAMSystem_new) + 1 \<le> 10" by (simp add: SLAMSystem_new_def)
  note rule = loop_closure_rule [of loop_state loop_env 10 SLAMSystem_new demo_frame]
  have search: "\<exists>i < length (keyframes loop_state) - 5.
      50 < int (length (filter (\<lambda>m. distance m < 40)
                  (keyframe_matches loop_env (keyframes loop_state ! i)
                     (keyframes loop_state ! 10))))"
    using rule many hit unfolding Let_def by blast
  have kept: "keyframes (snd (detectLoopClosure loop_env 10 loop_state)) = keyframes loop_state"
    "mapPoints (snd (detectLoopClosure loop_env 10 loop_state)) = mapPoints loop_state"
    using rule many unfolding Let_def by blast+
  have "console (createKeyFrame loop_env demo_frame SLAMSystem_new) =
          console SLAMSystem_new @ [KeyFrameCreated (nextKeyFrameId SLAMSystem_new)
             (length (mapPoints SLAMSystem_new))]"
    using rule few unfolding Let_def by (simp add: SLAMSystem_new_def)
  then have first: "console (createKeyFrame loop_env demo_frame SLAMSystem_new) =
     [SystemReady, KeyFrameCreated 0 0]"
    by (simp add: SLAMSystem_new_def)
  show ?thesis using many hit search kept few first by blast
qed

end
